theory Spec2Isabelle
  imports Main "HOL-Library.Word"
begin

section \<open>Parse analysis of AntDB: the data model of \<open>src/backend/parser/analyze.c\<close>\<close>

text \<open>
  The development embeds the functions of \<open>analyze.c\<close> as HOL functions.  A C struct is
  a record, a node tag a datatype constructor, a \<open>List *\<close> a HOL list (\<open>NIL\<close> is \<open>[]\<close>),
  a pointer that may be \<open>NULL\<close> an \<open>option\<close>.  \<open>ereport(ERROR, ...)\<close> and
  \<open>elog(ERROR, ...)\<close> leave the function: they are the \<open>Inl\<close> results of a sum type.
\<close>

subsection \<open>Scalars and errors\<close>

type_synonym Oid = nat
type_synonym Index = nat

definition InvalidOid :: Oid where
  "InvalidOid = 0"

datatype errcode =
    ERRCODE_SYNTAX_ERROR
  | ERRCODE_FEATURE_NOT_SUPPORTED
  | ERRCODE_UNDEFINED_COLUMN
  | ERRCODE_UNDEFINED_TABLE
  | ERRCODE_INVALID_COLUMN_REFERENCE
  | ERRCODE_INTERNAL_ERROR
  | ERRCODE_OTHER nat

text \<open>An error report: the \<open>errcode\<close> and the \<open>errmsg\<close> text (\<open>elog\<close> reports
  \<open>ERRCODE_INTERNAL_ERROR\<close>).  \<open>Trap\<close> is the other way out of a function: a failed
  \<open>Assert\<close>, or the dereference of a \<open>NULL\<close> pointer that the \<open>Assert\<close> guards.\<close>

datatype error = Error errcode string | Trap string

subsection \<open>Row marks and the locking fields of a query\<close>

text \<open>\<open>LockClauseStrength\<close>, in the order of the cases of \<open>LCS_asString\<close>; the C
  enumerators count from 0 in that order, and \<open>Max\<close> compares these numbers.\<close>

datatype LockClauseStrength =
    LCS_FORKEYSHARE
  | LCS_FORSHARE
  | LCS_FORNOKEYUPDATE
  | LCS_FORUPDATE

fun LockClauseStrength_int :: "LockClauseStrength \<Rightarrow> int" where
  "LockClauseStrength_int LCS_FORKEYSHARE = 0"
| "LockClauseStrength_int LCS_FORSHARE = 1"
| "LockClauseStrength_int LCS_FORNOKEYUPDATE = 2"
| "LockClauseStrength_int LCS_FORUPDATE = 3"

text \<open>The macro \<open>Max(x, y) ((x) > (y) ? (x) : (y))\<close> at type \<open>LockClauseStrength\<close>.\<close>

definition Max_strength :: "LockClauseStrength \<Rightarrow> LockClauseStrength \<Rightarrow> LockClauseStrength" where
  "Max_strength x y =
     (if LockClauseStrength_int x > LockClauseStrength_int y then x else y)"

record RowMarkClause =
  rti :: Index
  strength :: LockClauseStrength
  noWait :: bool
  pushedDown :: bool

subsection \<open>Expression nodes\<close>

record Var =
  varno :: Index
  varattno :: int
  vartype :: Oid
  vartypmod :: int
  varcollid :: Oid
  varlevelsup :: Index
  var_location :: int

text \<open>\<open>constvalue\<close> is a \<open>Datum\<close>: 64 bits.\<close>

record Const =
  consttype :: Oid
  consttypmod :: int
  constcollid :: Oid
  constlen :: int
  constvalue :: "64 word"
  constisnull :: bool
  constbyval :: bool
  const_location :: int

datatype BoolExprType = AND_EXPR | OR_EXPR | NOT_EXPR

text \<open>
  The node kinds that \<open>analyze.c\<close> tells apart with \<open>IsA\<close>, each named by its node
  tag.  \<open>T_OpExpr opno opfuncid args\<close>, \<open>T_FuncExpr funcid args\<close>,
  \<open>T_BoolExpr boolop args\<close>, \<open>T_ColumnRefJoin location var\<close>,
  \<open>T_SetToDefault typeId typeMod collation location\<close>, \<open>T_Param paramid paramtype\<close>.
  Every other expression node, raw or transformed, is \<open>T_Other tag children\<close>: its tag
  and its sub-expressions in the order the tree walker visits them.  A sub-\<open>Query\<close> below a
  \<open>SubLink\<close> is no child: neither \<open>expression_tree_walker\<close> nor
  \<open>expression_tree_mutator\<close> descends into it.
\<close>

datatype Node =
    T_Var Var
  | T_Const Const
  | T_Param nat Oid
  | T_RownumExpr
  | T_ColumnRefJoin int Var
  | T_OpExpr Oid Oid "Node list"
  | T_FuncExpr Oid "Node list"
  | T_BoolExpr BoolExprType "Node list"
  | T_SetToDefault Oid int Oid int
  | T_RowExpr "Node list"
  | T_Other nat "Node list"

record TargetEntry =
  expr :: Node
  resno :: int
  resname :: "string option"
  resjunk :: bool

text \<open>\<open>makeTargetEntry(expr, resno, resname, resjunk)\<close> of \<open>makefuncs.c\<close>.\<close>

definition makeTargetEntry :: "Node \<Rightarrow> int \<Rightarrow> string option \<Rightarrow> bool \<Rightarrow> TargetEntry" where
  "makeTargetEntry e n name junk = \<lparr>expr = e, resno = n, resname = name, resjunk = junk\<rparr>"

subsection \<open>Join trees, set-operation trees, range table, query\<close>

datatype JoinType = JOIN_INNER | JOIN_LEFT | JOIN_FULL | JOIN_RIGHT | JOIN_SEMI | JOIN_ANTI

text \<open>\<open>T_JoinExpr jointype larg rarg quals rtindex\<close>, \<open>T_FromExpr fromlist quals\<close>.\<close>

datatype JoinNode =
    T_RangeTblRef Index
  | T_JoinExpr JoinType JoinNode JoinNode "Node option" Index
  | T_FromExpr "JoinNode list" "Node option"

text \<open>The \<open>jointree\<close> of a \<open>Query\<close> is a \<open>FromExpr\<close>.\<close>

record FromExpr =
  fromlist :: "JoinNode list"
  quals :: "Node option"

datatype SetOperation = SETOP_UNION | SETOP_INTERSECT | SETOP_EXCEPT

record SortGroupClause =
  tleSortGroupRef :: Index
  eqop :: Oid
  sortop :: Oid
  nulls_first :: bool
  hashable :: bool

record SetOperationStmt =
  so_op :: SetOperation
  so_all :: bool
  colTypes :: "Oid list"
  colTypmods :: "int list"
  colCollations :: "Oid list"
  groupClauses :: "SortGroupClause list"

text \<open>A transformed set-operation tree: a \<open>RangeTblRef\<close> leaf, or a
  \<open>SetOperationStmt\<close> with its \<open>larg\<close> and \<open>rarg\<close>.\<close>

datatype SetOpNode =
    SO_RangeTblRef Index
  | SO_SetOperationStmt SetOperationStmt SetOpNode SetOpNode

text \<open>A common table expression: \<open>ctequery_IsA_InsertStmt\<close> is
  \<open>IsA(cte->ctequery, InsertStmt)\<close>.\<close>

record CommonTableExpr =
  ctename :: string
  ctequery_IsA_InsertStmt :: bool
  cterecursive :: bool
  ctecolnames :: "string list"
  ctecoltypes :: "Oid list"

datatype CmdType = CMD_UNKNOWN | CMD_SELECT | CMD_UPDATE | CMD_INSERT | CMD_DELETE | CMD_UTILITY

datatype QuerySource = QSRC_ORIGINAL | QSRC_PARSER | QSRC_OTHER

datatype AclMode = ACL_INSERT | ACL_SELECT | ACL_UPDATE | ACL_DELETE | ACL_SELECT_FOR_UPDATE

datatype RTEKind = RTE_RELATION | RTE_SUBQUERY | RTE_JOIN | RTE_FUNCTION | RTE_VALUES | RTE_CTE

text \<open>The fields of a \<open>RangeTblEntry\<close> other than \<open>subquery\<close>.  \<open>requiredPerms\<close> is the
  set of \<open>ACL_*\<close> bits, \<open>modifiedCols\<close> the members of the bitmap set.\<close>

record RangeTblEntryFields =
  rtekind :: RTEKind
  relid :: Oid
  aliasname :: string
  colnames :: "string list"
  jointype :: JoinType
  joinaliasvars :: "Node list"
  values_lists :: "Node list list"
  values_collations :: "Oid list"
  lateral :: bool
  inh :: bool
  inFromCl :: bool
  requiredPerms :: "AclMode set"
  modifiedCols :: "int set"

text \<open>The fields of a \<open>Query\<close> other than \<open>rtable\<close>.  \<open>utilityStmt\<close> holds the tag of
  the utility statement.\<close>

record QueryFields =
  commandType :: CmdType
  querySource :: QuerySource
  canSetTag :: bool
  utilityStmt :: "nat option"
  resultRelation :: Index
  hasAggs :: bool
  hasWindowFuncs :: bool
  hasSubLinks :: bool
  hasDistinctOn :: bool
  hasRecursive :: bool
  hasModifyingCTE :: bool
  hasForUpdate :: bool
  has_to_save_cmd_id :: bool
  cteList :: "CommonTableExpr list"
  jointree :: "FromExpr option"
  targetList :: "TargetEntry list"
  returningList :: "TargetEntry list"
  groupClause :: "SortGroupClause list"
  havingQual :: "Node option"
  windowClause :: "Node list"
  distinctClause :: "SortGroupClause list"
  sortClause :: "SortGroupClause list"
  limitOffset :: "Node option"
  limitCount :: "Node option"
  rowMarks :: "RowMarkClause list"
  setOperations :: "SetOpNode option"

text \<open>A \<open>Query\<close> owns its range table, and a sub-query entry of the range table owns a
  \<open>Query\<close>: the two structs are one recursive datatype.\<close>

datatype Query = Query (qf: QueryFields) (rtable: "RangeTblEntry list")
  and RangeTblEntry = RangeTblEntry (rf: RangeTblEntryFields) (subquery: "Query option")

text \<open>\<open>makeNode(Query)\<close>: \<open>palloc0\<close> zeroes every field.\<close>

definition makeNode_QueryFields :: QueryFields where
  "makeNode_QueryFields =
     \<lparr>commandType = CMD_UNKNOWN, querySource = QSRC_ORIGINAL, canSetTag = False,
      utilityStmt = None, resultRelation = 0, hasAggs = False, hasWindowFuncs = False,
      hasSubLinks = False, hasDistinctOn = False, hasRecursive = False,
      hasModifyingCTE = False, hasForUpdate = False, has_to_save_cmd_id = False, cteList = [],
      jointree = None, targetList = [], returningList = [], groupClause = [],
      havingQual = None, windowClause = [], distinctClause = [], sortClause = [],
      limitOffset = None, limitCount = None, rowMarks = [], setOperations = None\<rparr>"

subsection \<open>Raw statements\<close>

record RangeVar =
  catalogname :: "string option"
  schemaname :: "string option"
  relname :: string
  inhOpt :: nat
  rv_location :: int

record LockingClause =
  lockedRels :: "RangeVar list"
  lc_strength :: LockClauseStrength
  lc_noWait :: bool

record WithClause =
  ctes :: "CommonTableExpr list"
  recursive :: bool

record ResTarget =
  name :: "string option"
  indirection :: "Node list"
  val :: "Node option"
  rt_location :: int

text \<open>The fields of a \<open>SelectStmt\<close> other than \<open>op\<close>, \<open>all\<close>, \<open>larg\<close> and \<open>rarg\<close>.
  \<open>intoClause\<close> is kept by its source location.\<close>

record SelectStmtFields =
  sel_distinctClause :: "Node option list"
  sel_intoClause :: "int option"
  sel_targetList :: "ResTarget list"
  sel_fromClause :: "Node list"
  sel_whereClause :: "Node option"
  sel_groupClause :: "Node list"
  sel_havingClause :: "Node option"
  sel_windowClause :: "Node list"
  sel_withClause :: "WithClause option"
  sel_valuesLists :: "Node list list"
  sel_sortClause :: "Node list"
  sel_limitOffset :: "Node option"
  sel_limitCount :: "Node option"
  sel_lockingClause :: "LockingClause list"

text \<open>\<open>makeNode(SelectStmt)\<close>: every field zeroed.\<close>

definition makeNode_SelectStmtFields :: SelectStmtFields where
  "makeNode_SelectStmtFields =
     \<lparr>sel_distinctClause = [], sel_intoClause = None, sel_targetList = [], sel_fromClause = [],
      sel_whereClause = None, sel_groupClause = [], sel_havingClause = None,
      sel_windowClause = [], sel_withClause = None, sel_valuesLists = [], sel_sortClause = [],
      sel_limitOffset = None, sel_limitCount = None, sel_lockingClause = []\<rparr>"

text \<open>\<open>setop = None\<close> is \<open>op == SETOP_NONE\<close>, where \<open>larg\<close> and \<open>rarg\<close> are \<open>NULL\<close>;
  \<open>setop = Some (op, all, larg, rarg)\<close> is a set operation with its two arguments.\<close>

datatype SelectStmt =
  SelectStmt (sel: SelectStmtFields) (setop: "(SetOperation \<times> bool \<times> SelectStmt \<times> SelectStmt) option")

record InsertStmt =
  ins_relation :: RangeVar
  ins_cols :: "ResTarget list"
  ins_selectStmt :: "SelectStmt option"
  ins_returningList :: "ResTarget list"
  ins_withClause :: "WithClause option"

record UpdateStmt =
  upd_relation :: RangeVar
  upd_targetList :: "ResTarget list"
  upd_whereClause :: "Node option"
  upd_fromClause :: "Node list"
  upd_returningList :: "ResTarget list"
  upd_withClause :: "WithClause option"

record DeleteStmt =
  del_relation :: RangeVar
  del_usingClause :: "Node list"
  del_whereClause :: "Node option"
  del_returningList :: "ResTarget list"
  del_withClause :: "WithClause option"

subsection \<open>Parse state\<close>

datatype ParseGrammar = PARSE_GRAM_POSTGRES | PARSE_GRAM_ORACLE

datatype ParseExprKind =
    EXPR_KIND_WHERE
  | EXPR_KIND_HAVING
  | EXPR_KIND_SELECT_TARGET
  | EXPR_KIND_INSERT_TARGET
  | EXPR_KIND_UPDATE_SOURCE
  | EXPR_KIND_UPDATE_TARGET
  | EXPR_KIND_GROUP_BY
  | EXPR_KIND_ORDER_BY
  | EXPR_KIND_LIMIT
  | EXPR_KIND_OFFSET
  | EXPR_KIND_RETURNING
  | EXPR_KIND_VALUES

text \<open>A namespace item points to its range-table entry: \<open>p_rte\<close> is the index of that entry
  in \<open>p_rtable\<close>.\<close>

record ParseNamespaceItem =
  p_rte :: Index
  p_rel_visible :: bool
  p_cols_visible :: bool
  p_lateral_only :: bool
  p_lateral_ok :: bool

text \<open>The target relation: its name and \<open>rd_rel->relnatts\<close>.\<close>

record Relation =
  rd_relname :: string
  relnatts :: int

text \<open>One call of a function of another file, or of a function of this file whose place in
  the order of processing matters: the name of the function and, where the same function is
  called for several clauses, which one.\<close>

datatype event = Call string string

text \<open>\<open>p_target_rangetblentry\<close> points into \<open>p_rtable\<close>: it is the index of the entry.
  \<open>p_trace\<close> is no field of the C struct: it lists the calls made on this parse state so
  far, in order.\<close>

record ParseState =
  p_rtable :: "RangeTblEntry list"
  p_joinexprs :: "JoinNode option list"
  p_joinlist :: "JoinNode list"
  p_namespace :: "ParseNamespaceItem list"
  p_save_namespace :: "ParseNamespaceItem list"
  p_ctenamespace :: "CommonTableExpr list"
  p_parent_cte :: "CommonTableExpr option"
  p_locking_clause :: "LockingClause list"
  p_windowdefs :: "Node list"
  p_next_resno :: int
  p_hasAggs :: bool
  p_hasWindowFuncs :: bool
  p_hasSubLinks :: bool
  p_hasModifyingCTE :: bool
  p_is_insert :: bool
  p_is_update :: bool
  p_locked_from_parent :: bool
  p_target_relation :: "Relation option"
  p_target_rangetblentry :: "Index option"
  p_grammar :: ParseGrammar
  p_trace :: "event list"

text \<open>The result of a function that works on the parse state and may \<open>ereport\<close>.\<close>

type_synonym 'a result = "error + ('a \<times> ParseState)"

text \<open>A call is entered in \<open>p_trace\<close> when it returns.\<close>

definition logged :: "ParseState \<Rightarrow> event \<Rightarrow> 'a result \<Rightarrow> 'a result" where
  "logged ps ev r =
     (case r of
        Inl e \<Rightarrow> Inl e
      | Inr (x, ps') \<Rightarrow> Inr (x, ps'\<lparr>p_trace := p_trace ps @ [ev]\<rparr>))"

subsection \<open>The functions of other files\<close>

text \<open>
  \<open>analyze.c\<close> calls the clause transformers, the expression transformer, the type system
  and the catalog.  Their code is not part of this development: each is a parameter, a field
  of the record \<open>env\<close>, with the arguments of the C function and, where it works on the
  parse state, the parse state it leaves.  \<open>ADB\<close> tells whether the file is compiled with
  the macro \<open>ADB\<close> defined; \<open>PGXC\<close> is taken as defined; \<open>FLOAT8PASSBYVAL\<close> and
  \<open>FirstLowInvalidHeapAttributeNumber\<close> are the constants of the build.  \<open>pg_operator\<close> lists the rows
  of the catalog of that name in the order of a heap scan: the row's OID and its \<open>oprcode\<close>.
\<close>

record env =
  ADB :: bool
  IS_PGXC_COORDINATOR :: bool
  IsConnFromCoord :: bool
  FLOAT8PASSBYVAL :: bool
  FirstLowInvalidHeapAttributeNumber :: int
  pg_operator :: "(Oid \<times> Oid) list"
  ext_make_parsestate :: "ParseState option \<Rightarrow> ParseState"
  ext_parse_sub_analyze ::
    "ParseState \<Rightarrow> SelectStmt \<Rightarrow> CommonTableExpr option \<Rightarrow> bool \<Rightarrow> Query result"
  ext_transformWithClause :: "ParseState \<Rightarrow> WithClause \<Rightarrow> CommonTableExpr list result"
  ext_setTargetTable :: "ParseState \<Rightarrow> RangeVar \<Rightarrow> bool \<Rightarrow> bool \<Rightarrow> AclMode \<Rightarrow> Index result"
  ext_interpretInhOption :: "nat \<Rightarrow> bool"
  ext_transformFromClause :: "ParseState \<Rightarrow> Node list \<Rightarrow> unit result"
  ext_transformWhereClause ::
    "ParseState \<Rightarrow> Node option \<Rightarrow> ParseExprKind \<Rightarrow> string \<Rightarrow> Node option result"
  ext_transformTargetList ::
    "ParseState \<Rightarrow> ResTarget list \<Rightarrow> ParseExprKind \<Rightarrow> TargetEntry list result"
  ext_markTargetListOrigins :: "ParseState \<Rightarrow> TargetEntry list \<Rightarrow> unit result"
  ext_transformSortClause ::
    "ParseState \<Rightarrow> Node list \<Rightarrow> TargetEntry list \<Rightarrow> ParseExprKind \<Rightarrow> bool \<Rightarrow> bool \<Rightarrow>
       (SortGroupClause list \<times> TargetEntry list) result"
  ext_transformGroupClause ::
    "ParseState \<Rightarrow> Node list \<Rightarrow> TargetEntry list \<Rightarrow> SortGroupClause list \<Rightarrow> ParseExprKind \<Rightarrow>
       bool \<Rightarrow> (SortGroupClause list \<times> TargetEntry list) result"
  ext_transformDistinctClause ::
    "ParseState \<Rightarrow> TargetEntry list \<Rightarrow> SortGroupClause list \<Rightarrow> bool \<Rightarrow>
       (SortGroupClause list \<times> TargetEntry list) result"
  ext_transformDistinctOnClause ::
    "ParseState \<Rightarrow> Node option list \<Rightarrow> TargetEntry list \<Rightarrow> SortGroupClause list \<Rightarrow>
       (SortGroupClause list \<times> TargetEntry list) result"
  ext_transformLimitClause ::
    "ParseState \<Rightarrow> Node option \<Rightarrow> ParseExprKind \<Rightarrow> string \<Rightarrow> Node option result"
  ext_transformWindowDefinitions ::
    "ParseState \<Rightarrow> Node list \<Rightarrow> TargetEntry list \<Rightarrow> (Node list \<times> TargetEntry list) result"
  ext_parseCheckAggregates :: "ParseState \<Rightarrow> Query \<Rightarrow> unit result"
  ext_assign_query_collations :: "ParseState \<Rightarrow> Query \<Rightarrow> unit result"
  ext_assign_list_collations :: "ParseState \<Rightarrow> Node list \<Rightarrow> unit result"
  ext_expression_returns_set :: "TargetEntry list \<Rightarrow> bool"
  ext_checkInsertTargets :: "ParseState \<Rightarrow> ResTarget list \<Rightarrow> (ResTarget list \<times> int list) result"
  ext_transformExpressionList :: "ParseState \<Rightarrow> Node list \<Rightarrow> ParseExprKind \<Rightarrow> Node list result"
  ext_transformAssignedExpr ::
    "ParseState \<Rightarrow> Node \<Rightarrow> ParseExprKind \<Rightarrow> string option \<Rightarrow> int \<Rightarrow> Node list \<Rightarrow> int \<Rightarrow>
       Node result"
  ext_expandRTE :: "RangeTblEntry \<Rightarrow> Index \<Rightarrow> Index \<Rightarrow> int \<Rightarrow> bool \<Rightarrow> string list \<times> Node list"
  ext_expandRelAttrs ::
    "ParseState \<Rightarrow> RangeTblEntry \<Rightarrow> Index \<Rightarrow> Index \<Rightarrow> int \<Rightarrow> TargetEntry list result"
  ext_contain_vars_of_level :: "Node list list \<Rightarrow> nat \<Rightarrow> bool"
  ext_query_contain_vars_of_level :: "Query \<Rightarrow> nat \<Rightarrow> bool"
  ext_is_relation_child :: "RangeTblEntry \<Rightarrow> RangeTblEntry list \<Rightarrow> bool"
  ext_exprType :: "Node \<Rightarrow> Oid"
  ext_exprTypmod :: "Node \<Rightarrow> int"
  ext_exprCollation :: "Node \<Rightarrow> Oid"
  ext_exprLocation :: "Node \<Rightarrow> int"
  ext_makeVarFromTargetEntry :: "Index \<Rightarrow> TargetEntry \<Rightarrow> Var"
  ext_attnameAttNum :: "Relation \<Rightarrow> string option \<Rightarrow> bool \<Rightarrow> int"
  ext_select_common_type :: "ParseState \<Rightarrow> Node list \<Rightarrow> string \<Rightarrow> (Oid \<times> Node) result"
  ext_coerce_to_common_type :: "ParseState \<Rightarrow> Node \<Rightarrow> Oid \<Rightarrow> string \<Rightarrow> Node result"
  ext_select_common_collation :: "ParseState \<Rightarrow> Node list \<Rightarrow> bool \<Rightarrow> Oid result"
  ext_get_sort_group_operators ::
    "Oid \<Rightarrow> bool \<Rightarrow> bool \<Rightarrow> bool \<Rightarrow> error + (Oid \<times> Oid \<times> bool)"
  ext_analyzeCTETargetList ::
    "ParseState \<Rightarrow> CommonTableExpr \<Rightarrow> TargetEntry list \<Rightarrow> unit result"
  ext_canonicalize_qual :: "Node \<Rightarrow> Node"
  ext_get_commutator :: "Oid \<Rightarrow> Oid"
  ext_get_opname :: "Oid \<Rightarrow> string option"
  ext_contain_mutable_functions :: "Node \<Rightarrow> bool"
  ext_make_op2 :: "string \<Rightarrow> Node \<Rightarrow> Node \<Rightarrow> Node option"
  ext_check_variable_parameters :: "ParseState \<Rightarrow> Query \<Rightarrow> unit result"

subsection \<open>Sequencing, and the calls that are entered in the trace\<close>

definition rbind :: "'a result \<Rightarrow> ('a \<Rightarrow> ParseState \<Rightarrow> 'b result) \<Rightarrow> 'b result" where
  "rbind r f = (case r of Inl e \<Rightarrow> Inl e | Inr (x, ps) \<Rightarrow> f x ps)"

lemma rbind_cong [fundef_cong]:
  "r = r' \<Longrightarrow> (\<And>x ps. r' = Inr (x, ps) \<Longrightarrow> f x ps = f' x ps) \<Longrightarrow> rbind r f = rbind r' f'"
  by (auto simp: rbind_def split: sum.splits)

text \<open>The result of a function that may \<open>ereport\<close> and leaves the parse state as it
  is.\<close>

definition unchanged :: "ParseState \<Rightarrow> error + 'a \<Rightarrow> 'a result" where
  "unchanged ps r = (case r of Inl e \<Rightarrow> Inl e | Inr x \<Rightarrow> Inr (x, ps))"

definition transformWithClause :: "env \<Rightarrow> ParseState \<Rightarrow> WithClause \<Rightarrow> CommonTableExpr list result" where
  "transformWithClause env ps w =
     logged ps (Call ''transformWithClause'' []) (ext_transformWithClause env ps w)"

definition setTargetTable ::
  "env \<Rightarrow> ParseState \<Rightarrow> RangeVar \<Rightarrow> bool \<Rightarrow> bool \<Rightarrow> AclMode \<Rightarrow> Index result" where
  "setTargetTable env ps relation inh' alsoSource requiredPerms' =
     logged ps (Call ''setTargetTable'' (relname relation))
       (ext_setTargetTable env ps relation inh' alsoSource requiredPerms')"

definition transformFromClause :: "env \<Rightarrow> ParseState \<Rightarrow> Node list \<Rightarrow> unit result" where
  "transformFromClause env ps frmList =
     logged ps (Call ''transformFromClause'' []) (ext_transformFromClause env ps frmList)"

definition transformWhereClause ::
  "env \<Rightarrow> ParseState \<Rightarrow> Node option \<Rightarrow> ParseExprKind \<Rightarrow> string \<Rightarrow> Node option result" where
  "transformWhereClause env ps clause exprKind constructName =
     logged ps (Call ''transformWhereClause'' constructName)
       (ext_transformWhereClause env ps clause exprKind constructName)"

definition transformTargetList ::
  "env \<Rightarrow> ParseState \<Rightarrow> ResTarget list \<Rightarrow> ParseExprKind \<Rightarrow> TargetEntry list result" where
  "transformTargetList env ps targetlist exprKind =
     logged ps (Call ''transformTargetList'' [])
       (ext_transformTargetList env ps targetlist exprKind)"

definition markTargetListOrigins :: "env \<Rightarrow> ParseState \<Rightarrow> TargetEntry list \<Rightarrow> unit result" where
  "markTargetListOrigins env ps targetlist =
     logged ps (Call ''markTargetListOrigins'' []) (ext_markTargetListOrigins env ps targetlist)"

definition transformSortClause ::
  "env \<Rightarrow> ParseState \<Rightarrow> Node list \<Rightarrow> TargetEntry list \<Rightarrow> ParseExprKind \<Rightarrow> bool \<Rightarrow> bool \<Rightarrow>
     (SortGroupClause list \<times> TargetEntry list) result" where
  "transformSortClause env ps orderlist targetlist exprKind resolveUnknown useSQL99 =
     logged ps (Call ''transformSortClause'' [])
       (ext_transformSortClause env ps orderlist targetlist exprKind resolveUnknown useSQL99)"

definition transformGroupClause ::
  "env \<Rightarrow> ParseState \<Rightarrow> Node list \<Rightarrow> TargetEntry list \<Rightarrow> SortGroupClause list \<Rightarrow> ParseExprKind \<Rightarrow>
     bool \<Rightarrow> (SortGroupClause list \<times> TargetEntry list) result" where
  "transformGroupClause env ps grouplist targetlist sortClause' exprKind useSQL99 =
     logged ps (Call ''transformGroupClause'' [])
       (ext_transformGroupClause env ps grouplist targetlist sortClause' exprKind useSQL99)"

definition transformDistinctClause ::
  "env \<Rightarrow> ParseState \<Rightarrow> TargetEntry list \<Rightarrow> SortGroupClause list \<Rightarrow> bool \<Rightarrow>
     (SortGroupClause list \<times> TargetEntry list) result" where
  "transformDistinctClause env ps targetlist sortClause' is_agg =
     logged ps (Call ''transformDistinctClause'' [])
       (ext_transformDistinctClause env ps targetlist sortClause' is_agg)"

definition transformDistinctOnClause ::
  "env \<Rightarrow> ParseState \<Rightarrow> Node option list \<Rightarrow> TargetEntry list \<Rightarrow> SortGroupClause list \<Rightarrow>
     (SortGroupClause list \<times> TargetEntry list) result" where
  "transformDistinctOnClause env ps distinctlist targetlist sortClause' =
     logged ps (Call ''transformDistinctOnClause'' [])
       (ext_transformDistinctOnClause env ps distinctlist targetlist sortClause')"

definition transformLimitClause ::
  "env \<Rightarrow> ParseState \<Rightarrow> Node option \<Rightarrow> ParseExprKind \<Rightarrow> string \<Rightarrow> Node option result" where
  "transformLimitClause env ps clause exprKind constructName =
     logged ps (Call ''transformLimitClause'' constructName)
       (ext_transformLimitClause env ps clause exprKind constructName)"

definition transformWindowDefinitions ::
  "env \<Rightarrow> ParseState \<Rightarrow> Node list \<Rightarrow> TargetEntry list \<Rightarrow> (Node list \<times> TargetEntry list) result" where
  "transformWindowDefinitions env ps windowdefs targetlist =
     logged ps (Call ''transformWindowDefinitions'' [])
       (ext_transformWindowDefinitions env ps windowdefs targetlist)"

definition parseCheckAggregates :: "env \<Rightarrow> ParseState \<Rightarrow> Query \<Rightarrow> unit result" where
  "parseCheckAggregates env ps qry =
     logged ps (Call ''parseCheckAggregates'' []) (ext_parseCheckAggregates env ps qry)"

definition assign_query_collations :: "env \<Rightarrow> ParseState \<Rightarrow> Query \<Rightarrow> unit result" where
  "assign_query_collations env ps qry =
     logged ps (Call ''assign_query_collations'' []) (ext_assign_query_collations env ps qry)"

definition transformExpressionList ::
  "env \<Rightarrow> ParseState \<Rightarrow> Node list \<Rightarrow> ParseExprKind \<Rightarrow> Node list result" where
  "transformExpressionList env ps exprlist exprKind =
     logged ps (Call ''transformExpressionList'' [])
       (ext_transformExpressionList env ps exprlist exprKind)"

definition checkInsertTargets ::
  "env \<Rightarrow> ParseState \<Rightarrow> ResTarget list \<Rightarrow> (ResTarget list \<times> int list) result" where
  "checkInsertTargets env ps cols =
     logged ps (Call ''checkInsertTargets'' []) (ext_checkInsertTargets env ps cols)"

definition parse_sub_analyze ::
  "env \<Rightarrow> ParseState \<Rightarrow> SelectStmt \<Rightarrow> CommonTableExpr option \<Rightarrow> bool \<Rightarrow> Query result" where
  "parse_sub_analyze env ps parseTree parentCTE locked_from_parent =
     logged ps (Call ''parse_sub_analyze'' [])
       (ext_parse_sub_analyze env ps parseTree parentCTE locked_from_parent)"

subsection \<open>Type OIDs, strings, the range table\<close>

definition INT4OID :: Oid where "INT4OID = 23"
definition UNKNOWNOID :: Oid where "UNKNOWNOID = 705"
definition RECORDOID :: Oid where "RECORDOID = 2249"

text \<open>\<open>InvalidAttrNumber\<close> of \<open>access/attnum.h\<close>.\<close>

definition InvalidAttrNumber :: int where "InvalidAttrNumber = 0"

text \<open>The cast \<open>(AttrNumber)\<close> of an \<open>int\<close>: \<open>AttrNumber\<close> is \<open>int16\<close>.\<close>

definition AttrNumber_cast :: "int \<Rightarrow> int" where
  "AttrNumber_cast n = sint (word_of_int n :: 16 word)"

text \<open>The \<open>%d\<close> of \<open>snprintf\<close>, for a number that is not negative.\<close>

function decimal :: "nat \<Rightarrow> string" where
  "decimal n =
     (if n < 10 then [''0123456789'' ! n]
      else decimal (n div 10) @ [''0123456789'' ! (n mod 10)])"
  by pat_completeness auto
termination
  by (relation "measure id") auto

declare decimal.simps [simp del]

fun LCS_asString :: "LockClauseStrength \<Rightarrow> string" where
  "LCS_asString LCS_FORKEYSHARE = ''FOR KEY SHARE''"
| "LCS_asString LCS_FORSHARE = ''FOR SHARE''"
| "LCS_asString LCS_FORNOKEYUPDATE = ''FOR NO KEY UPDATE''"
| "LCS_asString LCS_FORUPDATE = ''FOR UPDATE''"

text \<open>\<open>rt_fetch(rangetable_index, rangetable)\<close> is \<open>list_nth(rangetable, index - 1)\<close>;
  outside the list, \<open>list_nth\<close> fails its \<open>Assert\<close>: the result is \<open>None\<close>.\<close>

definition rt_fetch :: "Index \<Rightarrow> RangeTblEntry list \<Rightarrow> RangeTblEntry option" where
  "rt_fetch rangetable_index rangetable =
     (if 1 \<le> rangetable_index \<and> rangetable_index \<le> length rangetable
      then Some (rangetable ! (rangetable_index - 1)) else None)"

definition makeFromExpr :: "JoinNode list \<Rightarrow> Node option \<Rightarrow> FromExpr" where
  "makeFromExpr fromlist' quals' = \<lparr>fromlist = fromlist', quals = quals'\<rparr>"

text \<open>
  Modelled from the spec: the functions of \<open>parse_relation.c\<close> (not among the sources) that
  add an entry to the range table.  The range-table manager adds subquery, values and join
  entries, and range-table indices are assigned in strict append order: each function
  appends its entry to \<open>p_rtable\<close> and returns it.  \<open>addRTEtoQuery\<close> adds an entry, given
  by its index, to the join list and to the namespace, with the visibility it is told.
\<close>

definition makeRangeTblEntryFields :: "RTEKind \<Rightarrow> string \<Rightarrow> RangeTblEntryFields" where
  "makeRangeTblEntryFields kind alias =
     \<lparr>rtekind = kind, relid = InvalidOid, aliasname = alias, colnames = [],
      jointype = JOIN_INNER, joinaliasvars = [], values_lists = [], values_collations = [],
      lateral = False, inh = False, inFromCl = False, requiredPerms = {}, modifiedCols = {}\<rparr>"

definition addRangeTableEntryForSubquery ::
  "ParseState \<Rightarrow> Query \<Rightarrow> string \<Rightarrow> bool \<Rightarrow> bool \<Rightarrow> RangeTblEntry \<times> ParseState" where
  "addRangeTableEntryForSubquery ps subquery' alias lateral' inFromCl' =
     (let names = map (\<lambda>te. case resname te of None \<Rightarrow> [] | Some n \<Rightarrow> n)
                    (filter (\<lambda>te. \<not> resjunk te) (targetList (qf subquery')));
          rte = RangeTblEntry
                  ((makeRangeTblEntryFields RTE_SUBQUERY alias)
                     \<lparr>colnames := names, lateral := lateral', inFromCl := inFromCl'\<rparr>)
                  (Some subquery')
      in (rte, ps\<lparr>p_rtable := p_rtable ps @ [rte]\<rparr>))"

definition addRangeTableEntryForValues ::
  "ParseState \<Rightarrow> Node list list \<Rightarrow> Oid list \<Rightarrow> string option \<Rightarrow> bool \<Rightarrow> bool \<Rightarrow>
     RangeTblEntry \<times> ParseState" where
  "addRangeTableEntryForValues ps exprs collations alias lateral' inFromCl' =
     (let numcols = (case exprs of [] \<Rightarrow> 0 | row # _ \<Rightarrow> length row);
          rte = RangeTblEntry
                  ((makeRangeTblEntryFields RTE_VALUES
                      (case alias of None \<Rightarrow> ''*VALUES*'' | Some a \<Rightarrow> a))
                     \<lparr>colnames := map (\<lambda>n. ''column'' @ decimal (n + 1)) [0..<numcols],
                       values_lists := exprs, values_collations := collations,
                       lateral := lateral', inFromCl := inFromCl'\<rparr>)
                  None
      in (rte, ps\<lparr>p_rtable := p_rtable ps @ [rte]\<rparr>))"

definition addRangeTableEntryForJoin ::
  "ParseState \<Rightarrow> string list \<Rightarrow> JoinType \<Rightarrow> Node list \<Rightarrow> string option \<Rightarrow> bool \<Rightarrow>
     RangeTblEntry \<times> ParseState" where
  "addRangeTableEntryForJoin ps colnames' jointype' aliasvars alias inFromCl' =
     (let rte = RangeTblEntry
                  ((makeRangeTblEntryFields RTE_JOIN
                      (case alias of None \<Rightarrow> ''unnamed_join'' | Some a \<Rightarrow> a))
                     \<lparr>colnames := colnames', jointype := jointype', joinaliasvars := aliasvars,
                       inFromCl := inFromCl'\<rparr>)
                  None
      in (rte, ps\<lparr>p_rtable := p_rtable ps @ [rte]\<rparr>))"

definition addRTEtoQuery :: "ParseState \<Rightarrow> Index \<Rightarrow> bool \<Rightarrow> bool \<Rightarrow> bool \<Rightarrow> ParseState" where
  "addRTEtoQuery ps rtindex addToJoinList addToRelNameSpace addToVarNameSpace =
     (let ps1 = (if addToJoinList
                 then ps\<lparr>p_joinlist := p_joinlist ps @ [T_RangeTblRef rtindex]\<rparr> else ps)
      in if addToRelNameSpace \<or> addToVarNameSpace
         then ps1\<lparr>p_namespace := p_namespace ps1 @
                  [\<lparr>p_rte = rtindex, p_rel_visible = addToRelNameSpace,
                    p_cols_visible = addToVarNameSpace, p_lateral_only = False,
                    p_lateral_ok = True\<rparr>]\<rparr>
         else ps1)"

text \<open>\<open>list_truncate(list, new_size)\<close> of \<open>list.c\<close>: the first \<open>new_size\<close> cells, the
  whole list when it has no more.\<close>

definition list_truncate :: "'a list \<Rightarrow> nat \<Rightarrow> 'a list" where
  "list_truncate list new_size = take new_size list"

subsection \<open>Locking: \<open>applyLockingClause\<close>\<close>

text \<open>
  Modelled from the spec: \<open>get_parse_rowmark\<close> (\<open>parse_relation.c\<close>, not among the
  sources) returns the row-mark that already exists for this \<open>rtindex\<close>, or \<open>NULL\<close>.
  The pointer it returns is the position of the first such entry of \<open>qry->rowMarks\<close>.
\<close>

fun rowmark_position :: "RowMarkClause list \<Rightarrow> Index \<Rightarrow> nat option" where
  "rowmark_position [] rtindex = None"
| "rowmark_position (rc # rcs) rtindex =
     (if rti rc = rtindex then Some 0 else map_option Suc (rowmark_position rcs rtindex))"

definition get_parse_rowmark :: "Query \<Rightarrow> Index \<Rightarrow> nat option" where
  "get_parse_rowmark qry rtindex = rowmark_position (rowMarks (qf qry)) rtindex"

text \<open>\<open>applyLockingClause\<close>: record locking info for a single rangetable item.  The
  assignments through \<open>rc\<close> update the entry of \<open>qry->rowMarks\<close> in place; \<open>|=\<close> and
  \<open>&=\<close> on \<open>bool\<close> are disjunction and conjunction.\<close>

definition applyLockingClause ::
  "Query \<Rightarrow> Index \<Rightarrow> LockClauseStrength \<Rightarrow> bool \<Rightarrow> bool \<Rightarrow> Query" where
  "applyLockingClause qry rtindex strength' noWait' pushedDown' =
     (let q1 = (if \<not> pushedDown' then (qf qry)\<lparr>hasForUpdate := True\<rparr> else qf qry)
      in case get_parse_rowmark (Query q1 (rtable qry)) rtindex of
           Some k \<Rightarrow>
             (let rc = rowMarks q1 ! k;
                  rc' = rc\<lparr>strength := Max_strength (strength rc) strength',
                           noWait := (noWait rc \<or> noWait'),
                           pushedDown := (pushedDown rc \<and> pushedDown')\<rparr>
              in Query (q1\<lparr>rowMarks := (rowMarks q1)[k := rc']\<rparr>) (rtable qry))
         | None \<Rightarrow>
             Query (q1\<lparr>rowMarks := rowMarks q1 @
                       [\<lparr>rti = rtindex, strength = strength', noWait = noWait',
                         pushedDown = pushedDown'\<rparr>]\<rparr>) (rtable qry))"

text \<open>For the proofs: the row-mark \<open>rc\<close> after the three assignments of the merge, and
  the list \<open>qry->rowMarks\<close> after one call of \<open>applyLockingClause\<close>.\<close>

definition merged_rowmark ::
  "RowMarkClause \<Rightarrow> LockClauseStrength \<Rightarrow> bool \<Rightarrow> bool \<Rightarrow> RowMarkClause" where
  "merged_rowmark rc s nw pd =
     rc\<lparr>strength := Max_strength (strength rc) s, noWait := (noWait rc \<or> nw),
        pushedDown := (pushedDown rc \<and> pd)\<rparr>"

definition rowMarks_after ::
  "RowMarkClause list \<Rightarrow> Index \<Rightarrow> LockClauseStrength \<Rightarrow> bool \<Rightarrow> bool \<Rightarrow> RowMarkClause list" where
  "rowMarks_after rcs i s nw pd =
     (case rowmark_position rcs i of
        Some k \<Rightarrow> rcs[k := merged_rowmark (rcs ! k) s nw pd]
      | None \<Rightarrow> rcs @ [\<lparr>rti = i, strength = s, noWait = nw, pushedDown = pd\<rparr>])"

subsection \<open>Set operations: \<open>transformSetOperationTree\<close>\<close>

text \<open>
  The target entries that \<open>transformSetOperationTree\<close> hands upward are, for a leaf, the
  entries of the leaf query's own target list, and the caller may assign to their \<open>expr\<close>.
  A \<open>tle_place\<close> says where such an entry lives: \<open>Some (rtindex, n)\<close> is entry \<open>n\<close> of
  the target list of the sub-query of range-table entry \<open>rtindex\<close>; \<open>None\<close> is a dummy
  entry made for an internal node.
\<close>

type_synonym tle_place = "(Index \<times> nat) option"

definition set_tle_expr :: "ParseState \<Rightarrow> tle_place \<Rightarrow> Node \<Rightarrow> ParseState" where
  "set_tle_expr ps place e =
     (case place of
        None \<Rightarrow> ps
      | Some (rtindex, n) \<Rightarrow>
          (case rt_fetch rtindex (p_rtable ps) of
             Some (RangeTblEntry f (Some (Query q rt))) \<Rightarrow>
               ps\<lparr>p_rtable := (p_rtable ps)[rtindex - 1 :=
                    RangeTblEntry f (Some (Query
                      (q\<lparr>targetList := (targetList q)[n := (targetList q ! n)\<lparr>expr := e\<rparr>]\<rparr>) rt))]\<rparr>
           | _ \<Rightarrow> ps))"

text \<open>The loop \<open>while (node && IsA(node, SetOperationStmt)) node = larg\<close>, which ends at
  a \<open>RangeTblRef\<close>: its \<open>rtindex\<close>.\<close>

fun leftmostRTI :: "SetOpNode \<Rightarrow> Index" where
  "leftmostRTI (SO_RangeTblRef rtindex) = rtindex"
| "leftmostRTI (SO_SetOperationStmt opr larg rarg) = leftmostRTI larg"

text \<open>The loop of \<open>determineRecursiveColTypes\<close>: \<open>left_tlist\<close> steps through the
  leftmost query's target list beside \<open>nrtargetlist\<close>; stepping beyond its end, or
  \<open>pstrdup\<close> of a \<open>resname\<close> that is \<open>NULL\<close>, dereferences \<open>NULL\<close>.\<close>

fun determineRecursiveColTypes_loop ::
  "TargetEntry list \<Rightarrow> TargetEntry list \<Rightarrow> int \<Rightarrow> error + TargetEntry list" where
  "determineRecursiveColTypes_loop [] left_tlist next_resno = Inr []"
| "determineRecursiveColTypes_loop (nrtle # nrtl) [] next_resno = Inl (Trap ''left_tlist'')"
| "determineRecursiveColTypes_loop (nrtle # nrtl) (lefttle # left_tlist) next_resno =
     (case resname lefttle of
        None \<Rightarrow> Inl (Trap ''pstrdup'')
      | Some colName \<Rightarrow>
          (case determineRecursiveColTypes_loop nrtl left_tlist (next_resno + 1) of
             Inl e \<Rightarrow> Inl e
           | Inr targetList' \<Rightarrow>
               Inr (makeTargetEntry (expr nrtle) next_resno (Some colName) False # targetList')))"

definition determineRecursiveColTypes ::
  "env \<Rightarrow> ParseState \<Rightarrow> SetOpNode \<Rightarrow> TargetEntry list \<Rightarrow> unit result" where
  "determineRecursiveColTypes env ps larg nrtargetlist =
     (case rt_fetch (leftmostRTI larg) (p_rtable ps) of
        Some (RangeTblEntry f (Some leftmostQuery)) \<Rightarrow>
          (case determineRecursiveColTypes_loop nrtargetlist (targetList (qf leftmostQuery)) 1 of
             Inl e \<Rightarrow> Inl e
           | Inr targetList' \<Rightarrow>
               (case p_parent_cte ps of
                  None \<Rightarrow> Inl (Trap ''p_parent_cte'')
                | Some cte \<Rightarrow> ext_analyzeCTETargetList env ps cte targetList'))
      | _ \<Rightarrow> Inl (Trap ''leftmostQuery''))"

text \<open>The leaf case: the statement becomes a sub-query of the top-level range table.\<close>

definition transformSetOperationTree_leaf ::
  "env \<Rightarrow> ParseState \<Rightarrow> SelectStmt \<Rightarrow> (SetOpNode \<times> (TargetEntry \<times> tle_place) list) result" where
  "transformSetOperationTree_leaf env ps stmt =
     rbind (parse_sub_analyze env ps stmt None False) (\<lambda>selectQuery ps1.
       if p_namespace ps1 \<noteq> [] \<and> ext_query_contain_vars_of_level env selectQuery 1
       then Inl (Error ERRCODE_INVALID_COLUMN_REFERENCE
              ''UNION/INTERSECT/EXCEPT member statement cannot refer to other relations of same query level'')
       else
         (let tl = targetList (qf selectQuery);
              rtindex = length (p_rtable ps1) + 1;
              targetlist = filter (\<lambda>(tle, place). \<not> resjunk tle)
                             (zip tl (map (\<lambda>n. Some (rtindex, n)) [0..<length tl]));
              selectName = take 31 (''*SELECT* '' @ decimal (length (p_rtable ps1) + 1));
              (rte, ps2) = addRangeTableEntryForSubquery ps1 selectQuery selectName False False
          in Inr ((SO_RangeTblRef (length (p_rtable ps2)), targetlist), ps2)))"

text \<open>The two coercions of a column, written twice in the source (for the left and for the
  right child): a child expression of a known type is coerced but the child keeps its own; an
  \<open>UNKNOWN\<close>-type \<open>Const\<close> or \<open>Param\<close> is replaced in the child's target entry.\<close>

definition setop_coerce_child ::
  "env \<Rightarrow> ParseState \<Rightarrow> Node \<Rightarrow> Oid \<Rightarrow> tle_place \<Rightarrow> Oid \<Rightarrow> string \<Rightarrow> Node result" where
  "setop_coerce_child env ps colnode coltype place rescoltype context =
     (if coltype \<noteq> UNKNOWNOID
      then ext_coerce_to_common_type env ps colnode rescoltype context
      else if (case colnode of T_Const c \<Rightarrow> True | T_Param n t \<Rightarrow> True | _ \<Rightarrow> False)
      then rbind (ext_coerce_to_common_type env ps colnode rescoltype context)
             (\<lambda>colnode' ps1. Inr (colnode', set_tle_expr ps1 place colnode'))
      else Inr (colnode, ps))"

text \<open>The \<open>forboth\<close> loop over the columns of the two children.\<close>

fun transformSetOperationTree_columns ::
  "env \<Rightarrow> string \<Rightarrow> ParseState \<Rightarrow> (TargetEntry \<times> tle_place) list \<Rightarrow>
     (TargetEntry \<times> tle_place) list \<Rightarrow> SetOperationStmt \<Rightarrow> (TargetEntry \<times> tle_place) list \<Rightarrow>
     (SetOperationStmt \<times> (TargetEntry \<times> tle_place) list) result" where
  "transformSetOperationTree_columns env context ps ((ltle, lplace) # ltl) ((rtle, rplace) # rtl)
       opr targetlist =
     (let lcolnode = expr ltle;
          rcolnode = expr rtle;
          lcoltype = ext_exprType env lcolnode;
          rcoltype = ext_exprType env rcolnode;
          lcoltypmod = ext_exprTypmod env lcolnode;
          rcoltypmod = ext_exprTypmod env rcolnode
      in rbind (ext_select_common_type env ps [lcolnode, rcolnode] context)
           (\<lambda>(rescoltype, bestexpr) ps1.
         let bestlocation = ext_exprLocation env bestexpr;
             rescoltypmod =
               (if lcoltype = rcoltype \<and> lcoltypmod = rcoltypmod then lcoltypmod else - 1)
         in rbind (setop_coerce_child env ps1 lcolnode lcoltype lplace rescoltype context)
              (\<lambda>lcolnode' ps2.
            rbind (setop_coerce_child env ps2 rcolnode rcoltype rplace rescoltype context)
              (\<lambda>rcolnode' ps3.
            rbind (ext_select_common_collation env ps3 [lcolnode', rcolnode']
                     (so_op opr = SETOP_UNION \<and> so_all opr))
              (\<lambda>rescolcoll ps4.
            rbind (if so_op opr \<noteq> SETOP_UNION \<or> \<not> so_all opr
                   then (case ext_get_sort_group_operators env rescoltype False True False of
                           Inl e \<Rightarrow> Inl e
                         | Inr (sortop', eqop', hashable') \<Rightarrow>
                             Inr ([\<lparr>tleSortGroupRef = 0, eqop = eqop', sortop = sortop',
                                    nulls_first = False, hashable = hashable'\<rparr>], ps4))
                   else Inr ([], ps4))
              (\<lambda>grpcl ps5.
            transformSetOperationTree_columns env context ps5 ltl rtl
              (opr\<lparr>colTypes := colTypes opr @ [rescoltype],
                    colTypmods := colTypmods opr @ [rescoltypmod],
                    colCollations := colCollations opr @ [rescolcoll],
                    groupClauses := groupClauses opr @ grpcl\<rparr>)
              (targetlist @
                 [(makeTargetEntry (T_SetToDefault rescoltype rescoltypmod rescolcoll bestlocation)
                     0 None False, None)])))))))"
| "transformSetOperationTree_columns env context ps ltl rtl opr targetlist =
     Inr ((opr, targetlist), ps)"

text \<open>
  \<open>transformSetOperationTree\<close>: the transformed node and the list that the C function
  stores through \<open>targetlist\<close>.  The outside caller passes \<open>NULL\<close> there and ignores the
  list; the model computes it all the same.  \<open>check_stack_depth\<close> has no counterpart.
\<close>

fun transformSetOperationTree ::
  "env \<Rightarrow> ParseState \<Rightarrow> SelectStmt \<Rightarrow> bool \<Rightarrow>
     (SetOpNode \<times> (TargetEntry \<times> tle_place) list) result" where
  "transformSetOperationTree env ps (SelectStmt f so) isTopLevel =
     (if sel_intoClause f \<noteq> None
      then Inl (Error ERRCODE_SYNTAX_ERROR
             ''INTO is only allowed on first SELECT of UNION/INTERSECT/EXCEPT'')
      else if sel_lockingClause f \<noteq> []
      then Inl (Error ERRCODE_FEATURE_NOT_SUPPORTED
             (LCS_asString (lc_strength (hd (sel_lockingClause f))) @
              '' is not allowed with UNION/INTERSECT/EXCEPT''))
      else
        (case so of
           None \<Rightarrow> transformSetOperationTree_leaf env ps (SelectStmt f so)
         | Some (op', all', larg, rarg) \<Rightarrow>
             if sel_sortClause f \<noteq> [] \<or> sel_limitOffset f \<noteq> None \<or> sel_limitCount f \<noteq> None \<or>
                sel_lockingClause f \<noteq> [] \<or> sel_withClause f \<noteq> None
             then transformSetOperationTree_leaf env ps (SelectStmt f so)
             else
               (let context = (if op' = SETOP_UNION then ''UNION''
                               else if op' = SETOP_INTERSECT then ''INTERSECT'' else ''EXCEPT'')
                in rbind (transformSetOperationTree env ps larg False)
                     (\<lambda>(larg', ltargetlist) ps1.
                   rbind (if isTopLevel \<and>
                             (case p_parent_cte ps1 of None \<Rightarrow> False | Some cte \<Rightarrow> cterecursive cte)
                          then determineRecursiveColTypes env ps1 larg' (map fst ltargetlist)
                          else Inr ((), ps1))
                     (\<lambda>u ps2.
                   rbind (transformSetOperationTree env ps2 rarg False)
                     (\<lambda>(rarg', rtargetlist) ps3.
                   if length ltargetlist \<noteq> length rtargetlist
                   then Inl (Error ERRCODE_SYNTAX_ERROR
                          (''each '' @ context @ '' query must have the same number of columns''))
                   else
                     rbind (transformSetOperationTree_columns env context ps3 ltargetlist
                              rtargetlist
                              \<lparr>so_op = op', so_all = all', colTypes = [], colTypmods = [],
                               colCollations = [], groupClauses = []\<rparr> [])
                       (\<lambda>(opr, targetlist) ps4.
                          Inr ((SO_SetOperationStmt opr larg' rarg', targetlist), ps4))))))))"

subsection \<open>Set operations: \<open>transformSetOperationStmt\<close>\<close>

text \<open>The \<open>forthree\<close> loop that makes the dummy target list of the outer query:
  \<open>left_tlist\<close> steps through the leftmost query's target list.  The result is
  \<open>qry->targetList\<close>, \<open>targetvars\<close>, \<open>targetnames\<close> and \<open>p_next_resno\<close>.\<close>

fun transformSetOperationStmt_targets ::
  "env \<Rightarrow> Index \<Rightarrow> (Oid \<times> int \<times> Oid) list \<Rightarrow> TargetEntry list \<Rightarrow> int \<Rightarrow>
     error + (TargetEntry list \<times> Node list \<times> string list \<times> int)" where
  "transformSetOperationStmt_targets env leftmostRTI' [] left_tlist next_resno =
     Inr ([], [], [], next_resno)"
| "transformSetOperationStmt_targets env leftmostRTI' (col # cols) [] next_resno =
     Inl (Trap ''left_tlist'')"
| "transformSetOperationStmt_targets env leftmostRTI' ((colType, colTypmod, colCollation) # cols)
       (lefttle # left_tlist) next_resno =
     (case resname lefttle of
        None \<Rightarrow> Inl (Trap ''pstrdup'')
      | Some colName \<Rightarrow>
          (let var = T_Var \<lparr>varno = leftmostRTI', varattno = resno lefttle, vartype = colType,
                            vartypmod = colTypmod, varcollid = colCollation, varlevelsup = 0,
                            var_location = ext_exprLocation env (expr lefttle)\<rparr>;
               tle = makeTargetEntry var (AttrNumber_cast next_resno) (Some colName) False
           in case transformSetOperationStmt_targets env leftmostRTI' cols left_tlist
                     (next_resno + 1) of
                Inl e \<Rightarrow> Inl e
              | Inr (targetList', targetvars, targetnames, next_resno') \<Rightarrow>
                  Inr (tle # targetList', var # targetvars, colName # targetnames, next_resno')))"

text \<open>The resolution of \<open>ORDER BY\<close> against the output columns: from
  \<open>sv_rtable_length = list_length(pstate->p_rtable)\<close> to the check that
  \<open>transformSortClause\<close> added nothing to the target list.\<close>

definition transformSetOperationStmt_sortClause ::
  "env \<Rightarrow> ParseState \<Rightarrow> string list \<Rightarrow> Node list \<Rightarrow> Node list \<Rightarrow> TargetEntry list \<Rightarrow>
     (SortGroupClause list \<times> TargetEntry list) result" where
  "transformSetOperationStmt_sortClause env ps targetnames targetvars sortClause' targetList' =
     (let sv_rtable_length = length (p_rtable ps);
          (jrte, ps1) = addRangeTableEntryForJoin ps targetnames JOIN_INNER targetvars None False;
          sv_namespace = p_namespace ps1;
          ps2 = ps1\<lparr>p_namespace := []\<rparr>;
          ps3 = addRTEtoQuery ps2 (length (p_rtable ps2)) False False True;
          tllen = length targetList'
      in rbind (transformSortClause env ps3 sortClause' targetList' EXPR_KIND_ORDER_BY False False)
           (\<lambda>(sortClause'', targetList'') ps4.
              let ps5 = ps4\<lparr>p_namespace := sv_namespace\<rparr>;
                  ps6 = ps5\<lparr>p_rtable := list_truncate (p_rtable ps5) sv_rtable_length\<rparr>
              in if tllen \<noteq> length targetList''
                 then Inl (Error ERRCODE_FEATURE_NOT_SUPPORTED
                        ''invalid UNION/INTERSECT/EXCEPT ORDER BY clause'')
                 else Inr ((sortClause'', targetList''), ps6)))"

text \<open>The \<open>intoClause\<close> of the leftmost leaf of the set-operation tree below \<open>larg\<close>.\<close>

fun leftmostSelect_intoClause :: "SelectStmt \<Rightarrow> int option" where
  "leftmostSelect_intoClause (SelectStmt f None) = sel_intoClause f"
| "leftmostSelect_intoClause (SelectStmt f (Some (op', all', larg, rarg))) =
     leftmostSelect_intoClause larg"

text \<open>
  \<open>transformSetOperationStmt\<close> is called for a statement with \<open>op != SETOP_NONE\<close>: its
  arguments are the fields of the statement, \<open>op\<close>, \<open>all\<close>, \<open>larg\<close> and \<open>rarg\<close>.  The
  loop over \<open>lockingClause\<close> at the end runs over an empty list, since a locking clause was
  refused before.
\<close>

definition transformSetOperationStmt ::
  "env \<Rightarrow> ParseState \<Rightarrow> SelectStmtFields \<Rightarrow> SetOperation \<Rightarrow> bool \<Rightarrow> SelectStmt \<Rightarrow> SelectStmt \<Rightarrow>
     Query result" where
  "transformSetOperationStmt env ps f op' all' larg rarg =
     (let qry0 = makeNode_QueryFields\<lparr>commandType := CMD_SELECT\<rparr>
      in if leftmostSelect_intoClause larg \<noteq> None
         then Inl (Error ERRCODE_SYNTAX_ERROR ''SELECT ... INTO is not allowed here'')
         else
           (let sortClause' = sel_sortClause f;
                limitOffset' = sel_limitOffset f;
                limitCount' = sel_limitCount f;
                lockingClause' = sel_lockingClause f;
                withClause' = sel_withClause f;
                stmt = SelectStmt (f\<lparr>sel_sortClause := [], sel_limitOffset := None,
                                     sel_limitCount := None, sel_lockingClause := [],
                                     sel_withClause := None\<rparr>) (Some (op', all', larg, rarg))
            in if lockingClause' \<noteq> []
               then Inl (Error ERRCODE_FEATURE_NOT_SUPPORTED
                      (LCS_asString (lc_strength (hd lockingClause')) @
                       '' is not allowed with UNION/INTERSECT/EXCEPT''))
               else
                 rbind (case withClause' of
                          None \<Rightarrow> Inr (qry0, ps)
                        | Some w \<Rightarrow>
                            rbind (transformWithClause env ps w) (\<lambda>ctes ps1.
                              Inr (qry0\<lparr>hasRecursive := recursive w, cteList := ctes,
                                        hasModifyingCTE := p_hasModifyingCTE ps1\<rparr>, ps1)))
                   (\<lambda>qry1 ps1.
                 rbind (transformSetOperationTree env ps1 stmt True) (\<lambda>(sostmt, tl) ps2.
                 case sostmt of
                   SO_RangeTblRef i \<Rightarrow> Inl (Trap ''sostmt'')
                 | SO_SetOperationStmt opr slarg srarg \<Rightarrow>
                     (case rt_fetch (leftmostRTI slarg) (p_rtable ps2) of
                        Some (RangeTblEntry rf' (Some leftmostQuery)) \<Rightarrow>
                          (case transformSetOperationStmt_targets env (leftmostRTI slarg)
                                  (zip (colTypes opr) (zip (colTypmods opr) (colCollations opr)))
                                  (targetList (qf leftmostQuery)) (p_next_resno ps2) of
                             Inl e \<Rightarrow> Inl e
                           | Inr (targetList', targetvars, targetnames, next_resno) \<Rightarrow>
                               rbind (transformSetOperationStmt_sortClause env
                                        (ps2\<lparr>p_next_resno := next_resno\<rparr>) targetnames targetvars
                                        sortClause' targetList')
                                 (\<lambda>(sortClause'', targetList'') ps3.
                               rbind (transformLimitClause env ps3 limitOffset' EXPR_KIND_OFFSET
                                        ''OFFSET'')
                                 (\<lambda>limitOffset'' ps4.
                               rbind (transformLimitClause env ps4 limitCount' EXPR_KIND_LIMIT
                                        ''LIMIT'')
                                 (\<lambda>limitCount'' ps5.
                               let qry = Query
                                     (qry1\<lparr>setOperations := Some sostmt,
                                           targetList := targetList'',
                                           sortClause := sortClause'',
                                           limitOffset := limitOffset'',
                                           limitCount := limitCount'',
                                           jointree := Some (makeFromExpr (p_joinlist ps5) None),
                                           hasSubLinks := p_hasSubLinks ps5,
                                           hasWindowFuncs := p_hasWindowFuncs ps5,
                                           hasAggs := p_hasAggs ps5\<rparr>)
                                     (p_rtable ps5)
                               in rbind (if p_hasAggs ps5 \<or> groupClause (qf qry) \<noteq> [] \<or>
                                            havingQual (qf qry) \<noteq> None
                                         then parseCheckAggregates env ps5 qry
                                         else Inr ((), ps5))
                                    (\<lambda>u ps6.
                                  rbind (assign_query_collations env ps6 qry)
                                    (\<lambda>u ps7. Inr (qry, ps7)))))))
                      | _ \<Rightarrow> Inl (Trap ''leftmostQuery''))))))"

subsection \<open>An environment and a parse state for examples\<close>

text \<open>
  The examples need collaborators that can be run.  \<open>plain_env\<close> has the simplest ones: an
  expression is taken as already transformed and is returned as it is, a clause transformer
  returns its clause, a check passes, the catalog is empty.  \<open>plain_setTargetTable\<close> opens
  the named relation as a new range-table entry with the permission asked for;
  \<open>plain_targets\<close> numbers the targets from \<open>p_next_resno\<close> on.  \<open>plain_pstate\<close> is the
  parse state that \<open>make_parsestate(NULL)\<close> returns: zeroed, with \<open>p_next_resno = 1\<close>.
\<close>

definition plain_pstate :: ParseState where
  "plain_pstate =
     \<lparr>p_rtable = [], p_joinexprs = [], p_joinlist = [], p_namespace = [],
      p_save_namespace = [], p_ctenamespace = [], p_parent_cte = None, p_locking_clause = [],
      p_windowdefs = [], p_next_resno = 1, p_hasAggs = False, p_hasWindowFuncs = False,
      p_hasSubLinks = False, p_hasModifyingCTE = False, p_is_insert = False,
      p_is_update = False, p_locked_from_parent = False, p_target_relation = None,
      p_target_rangetblentry = None, p_grammar = PARSE_GRAM_POSTGRES, p_trace = []\<rparr>"

fun plain_targets :: "ResTarget list \<Rightarrow> int \<Rightarrow> TargetEntry list" where
  "plain_targets [] n = []"
| "plain_targets (r # rs) n =
     makeTargetEntry (case val r of None \<Rightarrow> T_Other 0 [] | Some e \<Rightarrow> e) n (name r) False #
     plain_targets rs (n + 1)"

definition plain_setTargetTable ::
  "ParseState \<Rightarrow> RangeVar \<Rightarrow> bool \<Rightarrow> bool \<Rightarrow> AclMode \<Rightarrow> Index result" where
  "plain_setTargetTable ps relation inh' alsoSource requiredPerms' =
     (let rte = RangeTblEntry
                  ((makeRangeTblEntryFields RTE_RELATION (relname relation))
                     \<lparr>inh := inh', requiredPerms := {requiredPerms'}\<rparr>) None;
          rtindex = length (p_rtable ps) + 1;
          ps1 = ps\<lparr>p_rtable := p_rtable ps @ [rte],
                   p_target_relation := Some \<lparr>rd_relname = relname relation, relnatts = 2\<rparr>,
                   p_target_rangetblentry := Some rtindex\<rparr>
      in Inr (rtindex, if alsoSource then addRTEtoQuery ps1 rtindex True True True else ps1))"

fun plain_exprType :: "Node \<Rightarrow> Oid" where
  "plain_exprType (T_Var v) = vartype v"
| "plain_exprType (T_Const c) = consttype c"
| "plain_exprType (T_Param n t) = t"
| "plain_exprType (T_SetToDefault t m c l) = t"
| "plain_exprType e = InvalidOid"

fun plain_exprTypmod :: "Node \<Rightarrow> int" where
  "plain_exprTypmod (T_Var v) = vartypmod v"
| "plain_exprTypmod (T_Const c) = consttypmod c"
| "plain_exprTypmod (T_SetToDefault t m c l) = m"
| "plain_exprTypmod e = - 1"

fun plain_exprCollation :: "Node \<Rightarrow> Oid" where
  "plain_exprCollation (T_Var v) = varcollid v"
| "plain_exprCollation (T_Const c) = constcollid c"
| "plain_exprCollation (T_SetToDefault t m c l) = c"
| "plain_exprCollation e = InvalidOid"

definition plain_env :: env where
  "plain_env =
     \<lparr>ADB = True,
      IS_PGXC_COORDINATOR = False,
      IsConnFromCoord = False,
      FLOAT8PASSBYVAL = True,
      FirstLowInvalidHeapAttributeNumber = - 9,
      pg_operator = [],
      ext_make_parsestate =
        (\<lambda>parent. case parent of None \<Rightarrow> plain_pstate
                   | Some p \<Rightarrow> plain_pstate\<lparr>p_grammar := p_grammar p\<rparr>),
      ext_parse_sub_analyze =
        (\<lambda>ps stmt cte locked.
           Inr (Query (makeNode_QueryFields
                         \<lparr>commandType := CMD_SELECT,
                          targetList := plain_targets (sel_targetList (sel stmt)) 1\<rparr>) [], ps)),
      ext_transformWithClause = (\<lambda>ps w. Inr (ctes w, ps)),
      ext_setTargetTable = plain_setTargetTable,
      ext_interpretInhOption = (\<lambda>opt. opt \<noteq> 0),
      ext_transformFromClause = (\<lambda>ps frmList. Inr ((), ps)),
      ext_transformWhereClause = (\<lambda>ps clause kind cname. Inr (clause, ps)),
      ext_transformTargetList =
        (\<lambda>ps targetlist kind.
           Inr (plain_targets targetlist (p_next_resno ps),
                ps\<lparr>p_next_resno := p_next_resno ps + int (length targetlist)\<rparr>)),
      ext_markTargetListOrigins = (\<lambda>ps targetlist. Inr ((), ps)),
      ext_transformSortClause = (\<lambda>ps orderlist targetlist kind ru sql99. Inr (([], targetlist), ps)),
      ext_transformGroupClause =
        (\<lambda>ps grouplist targetlist sortcl kind sql99. Inr (([], targetlist), ps)),
      ext_transformDistinctClause = (\<lambda>ps targetlist sortcl is_agg. Inr (([], targetlist), ps)),
      ext_transformDistinctOnClause =
        (\<lambda>ps distinctlist targetlist sortcl. Inr (([], targetlist), ps)),
      ext_transformLimitClause = (\<lambda>ps clause kind cname. Inr (clause, ps)),
      ext_transformWindowDefinitions = (\<lambda>ps windowdefs targetlist. Inr (([], targetlist), ps)),
      ext_parseCheckAggregates = (\<lambda>ps qry. Inr ((), ps)),
      ext_assign_query_collations = (\<lambda>ps qry. Inr ((), ps)),
      ext_assign_list_collations = (\<lambda>ps exprs. Inr ((), ps)),
      ext_expression_returns_set = (\<lambda>targetlist. False),
      ext_checkInsertTargets =
        (\<lambda>ps cols. Inr ((cols, map (\<lambda>n. int n + 1) [0..<length cols]), ps)),
      ext_transformExpressionList = (\<lambda>ps exprlist kind. Inr (exprlist, ps)),
      ext_transformAssignedExpr = (\<lambda>ps e kind colname attrno indir loc. Inr (e, ps)),
      ext_expandRTE =
        (\<lambda>rte rtindex sublevels_up loc include_dropped.
           (colnames (rf rte),
            map (\<lambda>n. T_Var \<lparr>varno = rtindex, varattno = int n + 1, vartype = InvalidOid,
                              vartypmod = - 1, varcollid = InvalidOid,
                              varlevelsup = sublevels_up, var_location = loc\<rparr>)
              [0..<length (colnames (rf rte))])),
      ext_expandRelAttrs =
        (\<lambda>ps rte rtindex sublevels_up loc.
           Inr (map (\<lambda>n. makeTargetEntry
                            (T_Var \<lparr>varno = rtindex, varattno = int n + 1, vartype = InvalidOid,
                                    vartypmod = - 1, varcollid = InvalidOid,
                                    varlevelsup = sublevels_up, var_location = loc\<rparr>)
                            (p_next_resno ps + int n) (Some (colnames (rf rte) ! n)) False)
                  [0..<length (colnames (rf rte))],
                ps\<lparr>p_next_resno := p_next_resno ps + int (length (colnames (rf rte)))\<rparr>)),
      ext_contain_vars_of_level =
        (\<lambda>exprs level.
           \<exists>row \<in> set exprs. \<exists>e \<in> set row.
             (case e of T_Var v \<Rightarrow> varlevelsup v = level | _ \<Rightarrow> False)),
      ext_query_contain_vars_of_level = (\<lambda>qry level. False),
      ext_is_relation_child = (\<lambda>rte rtable'. False),
      ext_exprType = plain_exprType,
      ext_exprTypmod = plain_exprTypmod,
      ext_exprCollation = plain_exprCollation,
      ext_exprLocation = (\<lambda>e. - 1),
      ext_makeVarFromTargetEntry =
        (\<lambda>varno' tle.
           \<lparr>varno = varno', varattno = resno tle, vartype = plain_exprType (expr tle),
            vartypmod = plain_exprTypmod (expr tle), varcollid = plain_exprCollation (expr tle),
            varlevelsup = 0, var_location = - 1\<rparr>),
      ext_attnameAttNum =
        (\<lambda>rel colname sysColOK.
           if colname = Some ''a'' then 1 else if colname = Some ''b'' then 2
           else InvalidAttrNumber),
      ext_select_common_type =
        (\<lambda>ps exprs context.
           case exprs of [] \<Rightarrow> Inr ((InvalidOid, T_Other 0 []), ps)
           | e # es \<Rightarrow> Inr ((plain_exprType e, e), ps)),
      ext_coerce_to_common_type = (\<lambda>ps e targetType context. Inr (e, ps)),
      ext_select_common_collation =
        (\<lambda>ps exprs none_ok.
           case exprs of [] \<Rightarrow> Inr (InvalidOid, ps) | e # es \<Rightarrow> Inr (plain_exprCollation e, ps)),
      ext_get_sort_group_operators = (\<lambda>t needLT needEQ needGT. Inr (0, 0, False)),
      ext_analyzeCTETargetList = (\<lambda>ps cte tlist. Inr ((), ps)),
      ext_canonicalize_qual = (\<lambda>qual. qual),
      ext_get_commutator = (\<lambda>opno. InvalidOid),
      ext_get_opname = (\<lambda>opno. None),
      ext_contain_mutable_functions = (\<lambda>e. False),
      ext_make_op2 = (\<lambda>opname' l r. Some (T_Other 1 [l, r])),
      ext_check_variable_parameters = (\<lambda>ps qry. Inr ((), ps))\<rparr>"

text \<open>Examples: a column reference of a given type and typmod, the leaf
  \<open>SELECT e AS c\<close>, and \<open>SELECT a AS c UNION ALL SELECT b AS c\<close>.\<close>

definition example_Var :: "Oid \<Rightarrow> int \<Rightarrow> Node" where
  "example_Var t m =
     T_Var \<lparr>varno = 1, varattno = 1, vartype = t, vartypmod = m, varcollid = 100,
            varlevelsup = 0, var_location = - 1\<rparr>"

definition example_leaf :: "Node \<Rightarrow> SelectStmt" where
  "example_leaf e =
     SelectStmt (makeNode_SelectStmtFields
       \<lparr>sel_targetList := [\<lparr>name = Some ''c'', indirection = [], val = Some e,
                            rt_location = - 1\<rparr>]\<rparr>) None"

definition example_union_all :: "Node \<Rightarrow> Node \<Rightarrow> SelectStmt" where
  "example_union_all a b =
     SelectStmt makeNode_SelectStmtFields (Some (SETOP_UNION, True, example_leaf a, example_leaf b))"

text \<open>Example: a parse state after the analysis of one leaf, with one range-table entry and
  one namespace item.\<close>

definition example_setop_pstate :: ParseState where
  "example_setop_pstate =
     plain_pstate
       \<lparr>p_rtable := [RangeTblEntry (makeRangeTblEntryFields RTE_SUBQUERY ''*SELECT* 1'') None],
        p_namespace := [\<lparr>p_rte = 1, p_rel_visible = True, p_cols_visible = True,
                         p_lateral_only = False, p_lateral_ok = True\<rparr>]\<rparr>"

subsection \<open>The rewrite of \<open>ROWNUM\<close> predicates into \<open>LIMIT\<close>: \<open>rewrite_rownum_query\<close>\<close>

text \<open>
  Modelled from the spec: \<open>contain_rownum(node)\<close> (not among the sources) tells whether
  a \<open>ROWNUM\<close> reference occurs in the expression.  \<open>and_clause\<close> is the test of
  \<open>clauses.c\<close> for a \<open>BoolExpr\<close> with \<open>AND_EXPR\<close>.
\<close>

fun contain_rownum :: "Node \<Rightarrow> bool" and contain_rownum_list :: "Node list \<Rightarrow> bool" where
  "contain_rownum T_RownumExpr = True"
| "contain_rownum (T_Var v) = False"
| "contain_rownum (T_Const c) = False"
| "contain_rownum (T_Param n t) = False"
| "contain_rownum (T_ColumnRefJoin loc v) = False"
| "contain_rownum (T_OpExpr opno funcid args) = contain_rownum_list args"
| "contain_rownum (T_FuncExpr funcid args) = contain_rownum_list args"
| "contain_rownum (T_BoolExpr boolop args) = contain_rownum_list args"
| "contain_rownum (T_SetToDefault t m c loc) = False"
| "contain_rownum (T_RowExpr args) = contain_rownum_list args"
| "contain_rownum (T_Other tag args) = contain_rownum_list args"
| "contain_rownum_list [] = False"
| "contain_rownum_list (e # es) = (contain_rownum e \<or> contain_rownum_list es)"

definition and_clause :: "Node \<Rightarrow> bool" where
  "and_clause clause = (case clause of T_BoolExpr AND_EXPR args \<Rightarrow> True | _ \<Rightarrow> False)"

text \<open>The statement \<open>if(and_clause(expr)) qual_list = ((BoolExpr*)expr)->args; else
  qual_list = list_make1(expr);\<close> of \<open>rewrite_rownum_query\<close> and
  \<open>get_join_qual_exprs\<close>.\<close>

definition qual_list_of :: "Node \<Rightarrow> Node list" where
  "qual_list_of e =
     (if and_clause e then (case e of T_BoolExpr boolop args \<Rightarrow> args | _ \<Rightarrow> []) else [e])"














definition example_int4 :: "64 word \<Rightarrow> Node" where
  "example_int4 v =
     T_Const \<lparr>consttype = INT4OID, consttypmod = - 1, constcollid = InvalidOid, constlen = 4,
              constvalue = v, constisnull = False, constbyval = True, const_location = - 1\<rparr>"

definition example_x_gt_0 :: Node where
  "example_x_gt_0 = T_OpExpr 521 147 [example_Var 23 (- 1), example_int4 0]"


subsection \<open>\<open>VALUES\<close> as a stand-alone \<open>SELECT\<close>: \<open>transformValuesClause\<close>\<close>

text \<open>The \<open>WITH\<close> clause of a \<open>SELECT\<close>, of a \<open>VALUES\<close> and of an \<open>INSERT\<close>: the
  three assignments under \<open>if (stmt->withClause)\<close>.\<close>

definition transformSelectStmt_withClause ::
  "env \<Rightarrow> ParseState \<Rightarrow> QueryFields \<Rightarrow> WithClause option \<Rightarrow> QueryFields result" where
  "transformSelectStmt_withClause env ps qry w' =
     (case w' of
        None \<Rightarrow> Inr (qry, ps)
      | Some w \<Rightarrow>
          rbind (transformWithClause env ps w) (\<lambda>ctes' ps1.
            Inr (qry\<lparr>hasRecursive := recursive w, cteList := ctes',
                     hasModifyingCTE := p_hasModifyingCTE ps1\<rparr>, ps1)))"

definition is_SetToDefault :: "Node \<Rightarrow> bool" where
  "is_SetToDefault e = (case e of T_SetToDefault t m c l \<Rightarrow> True | _ \<Rightarrow> False)"

text \<open>The loop over the rows of \<open>VALUES\<close>.  \<open>sublist_length\<close> is \<open>-1\<close> before the first
  row; \<open>colexprs\<close> holds one list per column.  The result is \<open>sublist_length\<close> and
  \<open>colexprs\<close> after the last row.\<close>

fun transformValuesClause_rows ::
  "env \<Rightarrow> ParseState \<Rightarrow> Node list list \<Rightarrow> int \<Rightarrow> Node list list \<Rightarrow>
     (int \<times> Node list list) result" where
  "transformValuesClause_rows env ps [] sublist_length colexprs =
     Inr ((sublist_length, colexprs), ps)"
| "transformValuesClause_rows env ps (sublist # rows) sublist_length colexprs =
     rbind (transformExpressionList env ps sublist EXPR_KIND_VALUES) (\<lambda>sublist' ps1.
       if 0 \<le> sublist_length \<and> sublist_length \<noteq> int (length sublist')
       then Inl (Error ERRCODE_SYNTAX_ERROR ''VALUES lists must all be the same length'')
       else if list_ex is_SetToDefault sublist'
       then Inl (Error ERRCODE_SYNTAX_ERROR
              ''DEFAULT can only appear in a VALUES list within INSERT'')
       else
         transformValuesClause_rows env ps1 rows (int (length sublist'))
           (map (\<lambda>(colexpr, col). colexpr @ [col])
              (zip (if sublist_length < 0 then replicate (length sublist') [] else colexprs)
                 sublist')))"

text \<open>The coercion of the expressions of one column to its common type, in place.\<close>

fun transformValuesClause_coerce :: "env \<Rightarrow> ParseState \<Rightarrow> Node list \<Rightarrow> Oid \<Rightarrow> Node list result" where
  "transformValuesClause_coerce env ps [] coltype = Inr ([], ps)"
| "transformValuesClause_coerce env ps (col # cols) coltype =
     rbind (ext_coerce_to_common_type env ps col coltype ''VALUES'') (\<lambda>col' ps1.
     rbind (transformValuesClause_coerce env ps1 cols coltype) (\<lambda>cols' ps2.
       Inr (col' # cols', ps2)))"

text \<open>The loop over the columns: the coerced columns and the list \<open>collations\<close>.\<close>

fun transformValuesClause_columns ::
  "env \<Rightarrow> ParseState \<Rightarrow> Node list list \<Rightarrow> (Node list list \<times> Oid list) result" where
  "transformValuesClause_columns env ps [] = Inr (([], []), ps)"
| "transformValuesClause_columns env ps (colexpr # colexprs) =
     rbind (ext_select_common_type env ps colexpr ''VALUES'') (\<lambda>(coltype, which) ps1.
     rbind (transformValuesClause_coerce env ps1 colexpr coltype) (\<lambda>colexpr' ps2.
     rbind (ext_select_common_collation env ps2 colexpr' True) (\<lambda>colcoll ps3.
     rbind (transformValuesClause_columns env ps3 colexprs) (\<lambda>(colexprs', collations) ps4.
       Inr ((colexpr' # colexprs', colcoll # collations), ps4)))))"

text \<open>
  \<open>transformValuesClause\<close>.  The statement has \<open>valuesLists\<close>; with no row, or with rows
  of no column, \<open>colexprs[0]\<close> reads what was never allocated.
\<close>

definition transformValuesClause :: "env \<Rightarrow> ParseState \<Rightarrow> SelectStmtFields \<Rightarrow> Query result" where
  "transformValuesClause env ps f =
     (rbind (transformSelectStmt_withClause env ps
               (makeNode_QueryFields\<lparr>commandType := CMD_SELECT\<rparr>) (sel_withClause f))
           (\<lambda>qry1 ps1.
         rbind (transformValuesClause_rows env ps1 (sel_valuesLists f) (- 1) [])
           (\<lambda>(sublist_length, colexprs) ps2.
         rbind (transformValuesClause_columns env ps2 colexprs) (\<lambda>(colexprs', collations) ps3.
         if colexprs' = [] then Inl (Trap ''colexprs'')
         else
           (let exprsLists = map (\<lambda>k. map (\<lambda>colexpr. colexpr ! k) colexprs')
                               [0..<length (hd colexprs')];
                lateral' = (p_rtable ps3 \<noteq> [] \<and> ext_contain_vars_of_level env exprsLists 0);
                (rte, ps4) = addRangeTableEntryForValues ps3 exprsLists collations None lateral'
                               True;
                ps5 = addRTEtoQuery ps4 (length (p_rtable ps4)) True True True;
                rtindex = length (p_rtable ps5)
            in rbind (ext_expandRelAttrs env ps5 rte rtindex 0 (- 1)) (\<lambda>targetList' ps6.
               rbind (transformSortClause env ps6 (sel_sortClause f) targetList'
                        EXPR_KIND_ORDER_BY True False) (\<lambda>(sortClause', targetList'') ps7.
               rbind (transformLimitClause env ps7 (sel_limitOffset f) EXPR_KIND_OFFSET
                        ''OFFSET'') (\<lambda>limitOffset' ps8.
               rbind (transformLimitClause env ps8 (sel_limitCount f) EXPR_KIND_LIMIT
                        ''LIMIT'') (\<lambda>limitCount' ps9.
               if sel_lockingClause f \<noteq> []
               then Inl (Error ERRCODE_FEATURE_NOT_SUPPORTED
                      (LCS_asString (lc_strength (hd (sel_lockingClause f))) @
                       '' cannot be applied to VALUES''))
               else
                 (let qry = Query
                        (qry1\<lparr>targetList := targetList'', sortClause := sortClause',
                              limitOffset := limitOffset', limitCount := limitCount',
                              jointree := Some (makeFromExpr (p_joinlist ps9) None),
                              hasSubLinks := p_hasSubLinks ps9\<rparr>)
                        (p_rtable ps9)
                  in rbind (assign_query_collations env ps9 qry) (\<lambda>u ps10.
                       Inr (qry, ps10))))))))))))"

text \<open>Examples: a \<open>DEFAULT\<close> item, and the statement \<open>VALUES rows\<close>.\<close>

definition example_DEFAULT :: Node where
  "example_DEFAULT = T_SetToDefault InvalidOid (- 1) InvalidOid (- 1)"

definition example_values :: "Node list list \<Rightarrow> SelectStmtFields" where
  "example_values rows = makeNode_SelectStmtFields\<lparr>sel_valuesLists := rows\<rparr>"

subsection \<open>\<open>RETURNING\<close> and \<open>UPDATE\<close>: \<open>transformReturningList\<close>, \<open>transformUpdateStmt\<close>\<close>

definition transformReturningList ::
  "env \<Rightarrow> ParseState \<Rightarrow> ResTarget list \<Rightarrow> TargetEntry list result" where
  "transformReturningList env ps returningList' =
     (if returningList' = [] then Inr ([], ps)
      else
        (let save_next_resno = p_next_resno ps;
             ps1 = ps\<lparr>p_next_resno := 1\<rparr>
         in rbind (transformTargetList env ps1 returningList' EXPR_KIND_RETURNING) (\<lambda>rlist ps2.
            rbind (markTargetListOrigins env ps2 rlist) (\<lambda>u ps3.
              Inr (rlist, ps3\<lparr>p_next_resno := save_next_resno\<rparr>)))))"

text \<open>
  Modelled from the spec: \<open>updateTargetListEntry\<close> (\<open>parse_target.c\<close>, not among the
  sources) binds attribute number, indirection and position to a target entry of an
  \<open>UPDATE\<close>: the expression goes through \<open>transformAssignedExpr\<close> with the name, the
  attribute number, the indirection and the location of the target column, and the entry
  gets the attribute number as its \<open>resno\<close> and the column's name as its \<open>resname\<close>.
\<close>

definition updateTargetListEntry ::
  "env \<Rightarrow> ParseState \<Rightarrow> TargetEntry \<Rightarrow> string option \<Rightarrow> int \<Rightarrow> Node list \<Rightarrow> int \<Rightarrow>
     TargetEntry result" where
  "updateTargetListEntry env ps tle colname attrno indirection' location =
     rbind (ext_transformAssignedExpr env ps (expr tle) EXPR_KIND_UPDATE_TARGET colname attrno
              indirection' location)
       (\<lambda>e ps1. Inr (tle\<lparr>expr := e, resno := attrno, resname := colname\<rparr>, ps1))"

text \<open>The assignment \<open>rte->modifiedCols = bms_add_member(rte->modifiedCols, x)\<close> through the
  pointer \<open>p_target_rangetblentry\<close>.\<close>

definition add_modifiedCol :: "ParseState \<Rightarrow> Index \<Rightarrow> int \<Rightarrow> ParseState" where
  "add_modifiedCol ps target_rte x =
     (case rt_fetch target_rte (p_rtable ps) of
        None \<Rightarrow> ps
      | Some (RangeTblEntry f sq) \<Rightarrow>
          ps\<lparr>p_rtable := (p_rtable ps)[target_rte - 1 :=
               RangeTblEntry (f\<lparr>modifiedCols := insert x (modifiedCols f)\<rparr>) sq]\<rparr>)"

text \<open>The loop over \<open>qry->targetList\<close>; \<open>origTargetList\<close> steps through the targets of
  the statement, and is the second component of the result.\<close>

fun transformUpdateStmt_targets ::
  "env \<Rightarrow> ParseState \<Rightarrow> Relation \<Rightarrow> Index option \<Rightarrow> TargetEntry list \<Rightarrow> ResTarget list \<Rightarrow>
     (TargetEntry list \<times> ResTarget list) result" where
  "transformUpdateStmt_targets env ps rel target_rte [] origTargetList =
     Inr (([], origTargetList), ps)"
| "transformUpdateStmt_targets env ps rel target_rte (tle # tles) origTargetList =
     (if resjunk tle
      then
        rbind (transformUpdateStmt_targets env (ps\<lparr>p_next_resno := p_next_resno ps + 1\<rparr>) rel
                 target_rte tles origTargetList)
          (\<lambda>(tles', rest) ps1.
             Inr ((tle\<lparr>resno := AttrNumber_cast (p_next_resno ps), resname := None\<rparr> # tles', rest),
                  ps1))
      else
        (case origTargetList of
           [] \<Rightarrow> Inl (Error ERRCODE_INTERNAL_ERROR
                   ''UPDATE target count mismatch --- internal error'')
         | origTarget # origRest \<Rightarrow>
             (let attrno = ext_attnameAttNum env rel (name origTarget) True
              in if attrno = InvalidAttrNumber
                 then Inl (Error ERRCODE_UNDEFINED_COLUMN
                        (''column \"'' @ (case name origTarget of None \<Rightarrow> [] | Some n \<Rightarrow> n) @
                         ''\" of relation \"'' @ rd_relname rel @ ''\" does not exist''))
                 else
                   rbind (updateTargetListEntry env ps tle (name origTarget) attrno
                            (indirection origTarget) (rt_location origTarget))
                     (\<lambda>tle' ps1.
                   case target_rte of
                     None \<Rightarrow> Inl (Trap ''target_rte'')
                   | Some rti' \<Rightarrow>
                       rbind (transformUpdateStmt_targets env
                                (add_modifiedCol ps1 rti'
                                   (attrno - FirstLowInvalidHeapAttributeNumber env))
                                rel target_rte tles origRest)
                         (\<lambda>(tles', rest) ps2. Inr ((tle' # tles', rest), ps2))))))"

text \<open>The end of \<open>transformUpdateStmt\<close>, from the adjustment of \<open>p_next_resno\<close> to the
  last test of \<open>origTargetList\<close>: the target entries get their attribute numbers.\<close>

definition transformUpdateStmt_assign ::
  "env \<Rightarrow> ParseState \<Rightarrow> TargetEntry list \<Rightarrow> ResTarget list \<Rightarrow> TargetEntry list result" where
  "transformUpdateStmt_assign env ps targetList' stmt_targetList =
     (case p_target_relation ps of
        None \<Rightarrow> Inl (Trap ''p_target_relation'')
      | Some rel \<Rightarrow>
          (let ps1 = (if p_next_resno ps \<le> relnatts rel
                      then ps\<lparr>p_next_resno := relnatts rel + 1\<rparr> else ps)
           in rbind (transformUpdateStmt_targets env ps1 rel (p_target_rangetblentry ps1)
                       targetList' stmt_targetList) (\<lambda>(targetList'', origTargetList) ps2.
              if origTargetList \<noteq> []
              then Inl (Error ERRCODE_INTERNAL_ERROR
                     ''UPDATE target count mismatch --- internal error'')
              else Inr (targetList'', ps2))))"

text \<open>
  \<open>transformUpdateStmt\<close>.  \<open>nsitem\<close> is the last item of the namespace after
  \<open>setTargetTable\<close>; the assignments through it go to the item at that place.  The query's
  range table is the list \<open>p_rtable\<close>, whose entries the later assignments to
  \<open>modifiedCols\<close> change in place.  \<open>SetSendCommandId\<close> sets a flag of the process and
  has no counterpart here.
\<close>

definition transformUpdateStmt_withClause ::
  "env \<Rightarrow> ParseState \<Rightarrow> QueryFields \<Rightarrow> WithClause option \<Rightarrow> QueryFields result" where
  "transformUpdateStmt_withClause env ps qry w' =
     (case w' of
        None \<Rightarrow> Inr (qry, ps)
      | Some w \<Rightarrow>
          (let qry' = (if IS_PGXC_COORDINATOR env \<and> \<not> IsConnFromCoord env \<and>
                          list_ex ctequery_IsA_InsertStmt (ctes w)
                       then qry\<lparr>has_to_save_cmd_id := True\<rparr> else qry)
           in rbind (transformWithClause env ps w) (\<lambda>ctes' ps1.
                Inr (qry'\<lparr>hasRecursive := recursive w, cteList := ctes',
                          hasModifyingCTE := p_hasModifyingCTE ps1\<rparr>, ps1))))"

definition set_lateral :: "ParseState \<Rightarrow> nat \<Rightarrow> bool \<Rightarrow> bool \<Rightarrow> ParseState" where
  "set_lateral ps nsitem lateral_only lateral_ok =
     ps\<lparr>p_namespace := (p_namespace ps)[nsitem :=
          (p_namespace ps ! nsitem)\<lparr>p_lateral_only := lateral_only,
                                    p_lateral_ok := lateral_ok\<rparr>]\<rparr>"

text \<open>\<open>transformUpdateStmt\<close> down to the line
  \<open>qry->hasSubLinks = pstate->p_hasSubLinks\<close>: the query as it is there, its target list
  being what \<open>transformTargetList\<close> has returned.\<close>

definition transformUpdateStmt_clauses ::
  "env \<Rightarrow> ParseState \<Rightarrow> UpdateStmt \<Rightarrow> QueryFields result" where
  "transformUpdateStmt_clauses env ps0 stmt =
     rbind (transformUpdateStmt_withClause env (ps0\<lparr>p_is_update := True\<rparr>)
              (makeNode_QueryFields\<lparr>commandType := CMD_UPDATE\<rparr>) (upd_withClause stmt))
       (\<lambda>qry1 ps1.
     rbind (setTargetTable env ps1 (upd_relation stmt)
              (ext_interpretInhOption env (inhOpt (upd_relation stmt))) True ACL_UPDATE)
       (\<lambda>resultRelation' ps2.
     if p_namespace ps2 = [] then Inl (Trap ''nsitem'')
     else
       rbind (transformFromClause env
                (set_lateral ps2 (length (p_namespace ps2) - 1) True False)
                (upd_fromClause stmt)) (\<lambda>u ps4.
       rbind (transformTargetList env
                (set_lateral ps4 (length (p_namespace ps2) - 1) False True)
                (upd_targetList stmt) EXPR_KIND_UPDATE_SOURCE) (\<lambda>targetList' ps6.
       rbind (transformWhereClause env ps6 (upd_whereClause stmt) EXPR_KIND_WHERE ''WHERE'')
         (\<lambda>qual ps7.
       rbind (transformReturningList env ps7 (upd_returningList stmt)) (\<lambda>returningList' ps8.
         Inr (qry1\<lparr>resultRelation := resultRelation',
                   targetList := targetList',
                   returningList := returningList',
                   jointree := Some (makeFromExpr (p_joinlist ps8) qual),
                   hasSubLinks := p_hasSubLinks ps8\<rparr>, ps8)))))))"

definition transformUpdateStmt :: "env \<Rightarrow> ParseState \<Rightarrow> UpdateStmt \<Rightarrow> Query result" where
  "transformUpdateStmt env ps0 stmt =
     rbind (transformUpdateStmt_clauses env ps0 stmt) (\<lambda>qry2 ps8.
     rbind (transformUpdateStmt_assign env ps8 (targetList qry2) (upd_targetList stmt))
       (\<lambda>targetList'' ps10.
     let qry = Query (qry2\<lparr>targetList := targetList''\<rparr>) (p_rtable ps10)
     in rbind (assign_query_collations env ps10 qry) (\<lambda>u ps11. Inr (qry, ps11))))"

text \<open>Examples: \<open>UPDATE t SET b = x, a = y\<close>, the expressions being the given nodes, and
  an environment whose target-list transformer adds a resjunk entry to the entries of the
  \<open>SET\<close> items.\<close>

definition example_update :: "Node \<Rightarrow> Node \<Rightarrow> UpdateStmt" where
  "example_update x y =
     \<lparr>upd_relation = \<lparr>catalogname = None, schemaname = None, relname = ''t'', inhOpt = 0,
                       rv_location = - 1\<rparr>,
      upd_targetList =
        [\<lparr>name = Some ''b'', indirection = [], val = Some x, rt_location = - 1\<rparr>,
         \<lparr>name = Some ''a'', indirection = [], val = Some y, rt_location = - 1\<rparr>],
      upd_whereClause = None, upd_fromClause = [], upd_returningList = [],
      upd_withClause = None\<rparr>"

definition env_with_resjunk :: env where
  "env_with_resjunk =
     plain_env\<lparr>ext_transformTargetList :=
       (\<lambda>ps targetlist kind.
          Inr (plain_targets targetlist (p_next_resno ps) @
               [makeTargetEntry (T_Other 0 []) (p_next_resno ps + int (length targetlist)) None
                  True],
               ps\<lparr>p_next_resno := p_next_resno ps + int (length targetlist) + 1\<rparr>))\<rparr>"

subsection \<open>Locking clauses: \<open>CheckSelectLocking\<close>, \<open>transformLockingClause\<close>\<close>

text \<open>\<open>CheckSelectLocking\<close>: the error it reports, if any.\<close>

definition CheckSelectLocking :: "env \<Rightarrow> Query \<Rightarrow> LockClauseStrength \<Rightarrow> error option" where
  "CheckSelectLocking env qry strength' =
     (if setOperations (qf qry) \<noteq> None
      then Some (Error ERRCODE_FEATURE_NOT_SUPPORTED
             (LCS_asString strength' @ '' is not allowed with UNION/INTERSECT/EXCEPT''))
      else if distinctClause (qf qry) \<noteq> []
      then Some (Error ERRCODE_FEATURE_NOT_SUPPORTED
             (LCS_asString strength' @ '' is not allowed with DISTINCT clause''))
      else if groupClause (qf qry) \<noteq> []
      then Some (Error ERRCODE_FEATURE_NOT_SUPPORTED
             (LCS_asString strength' @ '' is not allowed with GROUP BY clause''))
      else if havingQual (qf qry) \<noteq> None
      then Some (Error ERRCODE_FEATURE_NOT_SUPPORTED
             (LCS_asString strength' @ '' is not allowed with HAVING clause''))
      else if hasAggs (qf qry)
      then Some (Error ERRCODE_FEATURE_NOT_SUPPORTED
             (LCS_asString strength' @ '' is not allowed with aggregate functions''))
      else if hasWindowFuncs (qf qry)
      then Some (Error ERRCODE_FEATURE_NOT_SUPPORTED
             (LCS_asString strength' @ '' is not allowed with window functions''))
      else if ext_expression_returns_set env (targetList (qf qry))
      then Some (Error ERRCODE_FEATURE_NOT_SUPPORTED
             (LCS_asString strength' @
              '' is not allowed with set-returning functions in the target list''))
      else None)"

text \<open>The assignment \<open>rte->requiredPerms |= ACL_SELECT_FOR_UPDATE\<close>.\<close>

definition mark_for_update :: "RangeTblEntry \<Rightarrow> RangeTblEntry" where
  "mark_for_update rte =
     RangeTblEntry
       ((rf rte)\<lparr>requiredPerms := insert ACL_SELECT_FOR_UPDATE (requiredPerms (rf rte))\<rparr>)
       (subquery rte)"

text \<open>
  \<open>transformLockingClause\<close> for a clause with \<open>lockedRels == NIL\<close>: all regular tables
  used in the query.  The clause \<open>allrels\<close> that is passed down to the subqueries is such a
  clause, with the same strength and \<open>noWait\<close>, so the recursion stays in this branch.
  \<open>transformLockingClause_rtable\<close> is the loop over \<open>qry->rtable\<close>: \<open>i\<close> counts the
  entries before \<open>rte\<close>, which are \<open>done\<close>.
\<close>

fun transformLockingClause_allrels ::
      "env \<Rightarrow> Query \<Rightarrow> LockClauseStrength \<Rightarrow> bool \<Rightarrow> bool \<Rightarrow> error + Query"
  and transformLockingClause_rtable ::
      "env \<Rightarrow> QueryFields \<Rightarrow> RangeTblEntry list \<Rightarrow> RangeTblEntry list \<Rightarrow>
         LockClauseStrength \<Rightarrow> bool \<Rightarrow> bool \<Rightarrow> error + Query" where
  "transformLockingClause_allrels env (Query f rt) strength' noWait' pushedDown' =
     (case CheckSelectLocking env (Query f rt) strength' of
        Some e \<Rightarrow> Inl e
      | None \<Rightarrow> transformLockingClause_rtable env f [] rt strength' noWait' pushedDown')"
| "transformLockingClause_rtable env f done [] strength' noWait' pushedDown' =
     Inr (Query f done)"
| "transformLockingClause_rtable env f done (RangeTblEntry r sq # rest) strength' noWait'
     pushedDown' =
     (let rte = RangeTblEntry r sq;
          i = length done + 1;
          qry = Query f (done @ rte # rest)
      in case rtekind r of
           RTE_RELATION \<Rightarrow>
             transformLockingClause_rtable env
               (qf (applyLockingClause qry i strength' noWait' pushedDown'))
               (done @ [mark_for_update rte]) rest strength' noWait' pushedDown'
         | RTE_SUBQUERY \<Rightarrow>
             (case sq of
                None \<Rightarrow> Inl (Trap ''rte->subquery'')
              | Some sub \<Rightarrow>
                  (case transformLockingClause_allrels env sub strength' noWait' True of
                     Inl e \<Rightarrow> Inl e
                   | Inr sub' \<Rightarrow>
                       transformLockingClause_rtable env
                         (qf (applyLockingClause qry i strength' noWait' pushedDown'))
                         (done @ [RangeTblEntry r (Some sub')]) rest strength' noWait'
                         pushedDown'))
         | _ \<Rightarrow>
             transformLockingClause_rtable env f (done @ [rte]) rest strength' noWait'
               pushedDown')"

text \<open>The first entry of the range table with this alias name: the number of entries before
  it.\<close>

fun rte_named :: "RangeTblEntry list \<Rightarrow> string \<Rightarrow> nat option" where
  "rte_named [] n = None"
| "rte_named (rte # rtes) n =
     (if aliasname (rf rte) = n then Some 0 else map_option Suc (rte_named rtes n))"

text \<open>The body of the loop over the named tables, for \<open>thisrel\<close>.\<close>

definition transformLockingClause_thisrel ::
  "env \<Rightarrow> Query \<Rightarrow> LockingClause \<Rightarrow> bool \<Rightarrow> RangeVar \<Rightarrow> error + Query" where
  "transformLockingClause_thisrel env qry lc pushedDown' thisrel =
     (if catalogname thisrel \<noteq> None \<or> schemaname thisrel \<noteq> None
      then Inl (Error ERRCODE_SYNTAX_ERROR
             (LCS_asString (lc_strength lc) @ '' must specify unqualified relation names''))
      else
        (case rte_named (rtable qry) (relname thisrel) of
           None \<Rightarrow>
             Inl (Error ERRCODE_UNDEFINED_TABLE
               (''relation \"'' @ relname thisrel @ ''\" in '' @ LCS_asString (lc_strength lc) @
                '' clause not found in FROM clause''))
         | Some k \<Rightarrow>
             (let rte = rtable qry ! k;
                  i = k + 1;
                  qry1 = applyLockingClause qry i (lc_strength lc) (lc_noWait lc) pushedDown'
              in case rtekind (rf rte) of
                   RTE_RELATION \<Rightarrow>
                     Inr (Query (qf qry1) ((rtable qry1)[k := mark_for_update rte]))
                 | RTE_SUBQUERY \<Rightarrow>
                     (case subquery rte of
                        None \<Rightarrow> Inl (Trap ''rte->subquery'')
                      | Some sub \<Rightarrow>
                          (case transformLockingClause_allrels env sub (lc_strength lc)
                                  (lc_noWait lc) True of
                             Inl e \<Rightarrow> Inl e
                           | Inr sub' \<Rightarrow>
                               Inr (Query (qf qry1)
                                      ((rtable qry1)[k := RangeTblEntry (rf rte) (Some sub')]))))
                 | RTE_JOIN \<Rightarrow>
                     Inl (Error ERRCODE_FEATURE_NOT_SUPPORTED
                       (LCS_asString (lc_strength lc) @ '' cannot be applied to a join''))
                 | RTE_FUNCTION \<Rightarrow>
                     Inl (Error ERRCODE_FEATURE_NOT_SUPPORTED
                       (LCS_asString (lc_strength lc) @ '' cannot be applied to a function''))
                 | RTE_VALUES \<Rightarrow>
                     Inl (Error ERRCODE_FEATURE_NOT_SUPPORTED
                       (LCS_asString (lc_strength lc) @ '' cannot be applied to VALUES''))
                 | RTE_CTE \<Rightarrow>
                     Inl (Error ERRCODE_FEATURE_NOT_SUPPORTED
                       (LCS_asString (lc_strength lc) @ '' cannot be applied to a WITH query'')))))"

fun transformLockingClause_named ::
  "env \<Rightarrow> Query \<Rightarrow> LockingClause \<Rightarrow> bool \<Rightarrow> RangeVar list \<Rightarrow> error + Query" where
  "transformLockingClause_named env qry lc pushedDown' [] = Inr qry"
| "transformLockingClause_named env qry lc pushedDown' (thisrel # rels) =
     (case transformLockingClause_thisrel env qry lc pushedDown' thisrel of
        Inl e \<Rightarrow> Inl e
      | Inr qry' \<Rightarrow> transformLockingClause_named env qry' lc pushedDown' rels)"

text \<open>\<open>transformLockingClause\<close>.  The parse state is used for the position of an error
  only.\<close>

definition transformLockingClause ::
  "env \<Rightarrow> Query \<Rightarrow> LockingClause \<Rightarrow> bool \<Rightarrow> error + Query" where
  "transformLockingClause env qry lc pushedDown' =
     (if lockedRels lc = []
      then transformLockingClause_allrels env qry (lc_strength lc) (lc_noWait lc) pushedDown'
      else
        (case CheckSelectLocking env qry (lc_strength lc) of
           Some e \<Rightarrow> Inl e
         | None \<Rightarrow> transformLockingClause_named env qry lc pushedDown' (lockedRels lc)))"

text \<open>The loop \<open>foreach(l, stmt->lockingClause)\<close> of \<open>transformSelectStmt\<close>.\<close>

fun transformLockingClauses :: "env \<Rightarrow> Query \<Rightarrow> LockingClause list \<Rightarrow> error + Query" where
  "transformLockingClauses env qry [] = Inr qry"
| "transformLockingClauses env qry (lc # lcs) =
     (case transformLockingClause env qry lc False of
        Inl e \<Rightarrow> Inl e
      | Inr qry' \<Rightarrow> transformLockingClauses env qry' lcs)"

subsection \<open>Outer-join markers: \<open>ColumnRefJoin\<close> nodes and the join tree\<close>

text \<open>
  \<open>have_ora_column_join\<close> and \<open>remove_column_join_expr\<close>.  The walker and the mutator of
  \<open>nodeFuncs.c\<close> visit the children of a node, which here are its arguments.  The
  functions on \<open>Node option\<close> are the C functions, \<open>None\<close> being \<open>NULL\<close>.
\<close>

fun have_ora_column_join_node :: "Node \<Rightarrow> bool"
  and have_ora_column_join_list :: "Node list \<Rightarrow> bool" where
  "have_ora_column_join_node (T_ColumnRefJoin loc v) = True"
| "have_ora_column_join_node (T_Var v) = False"
| "have_ora_column_join_node (T_Const c) = False"
| "have_ora_column_join_node (T_Param n t) = False"
| "have_ora_column_join_node T_RownumExpr = False"
| "have_ora_column_join_node (T_OpExpr opno funcid args) = have_ora_column_join_list args"
| "have_ora_column_join_node (T_FuncExpr funcid args) = have_ora_column_join_list args"
| "have_ora_column_join_node (T_BoolExpr boolop args) = have_ora_column_join_list args"
| "have_ora_column_join_node (T_SetToDefault t m c loc) = False"
| "have_ora_column_join_node (T_RowExpr args) = have_ora_column_join_list args"
| "have_ora_column_join_node (T_Other tag args) = have_ora_column_join_list args"
| "have_ora_column_join_list [] = False"
| "have_ora_column_join_list (e # es) =
     (have_ora_column_join_node e \<or> have_ora_column_join_list es)"

definition have_ora_column_join :: "Node option \<Rightarrow> bool" where
  "have_ora_column_join node =
     (case node of None \<Rightarrow> False | Some e \<Rightarrow> have_ora_column_join_node e)"

fun remove_column_join_expr_node :: "Node \<Rightarrow> Node"
  and remove_column_join_expr_list :: "Node list \<Rightarrow> Node list" where
  "remove_column_join_expr_node (T_ColumnRefJoin loc v) = T_Var v"
| "remove_column_join_expr_node (T_Var v) = T_Var v"
| "remove_column_join_expr_node (T_Const c) = T_Const c"
| "remove_column_join_expr_node (T_Param n t) = T_Param n t"
| "remove_column_join_expr_node T_RownumExpr = T_RownumExpr"
| "remove_column_join_expr_node (T_OpExpr opno funcid args) =
     T_OpExpr opno funcid (remove_column_join_expr_list args)"
| "remove_column_join_expr_node (T_FuncExpr funcid args) =
     T_FuncExpr funcid (remove_column_join_expr_list args)"
| "remove_column_join_expr_node (T_BoolExpr boolop args) =
     T_BoolExpr boolop (remove_column_join_expr_list args)"
| "remove_column_join_expr_node (T_SetToDefault t m c loc) = T_SetToDefault t m c loc"
| "remove_column_join_expr_node (T_RowExpr args) = T_RowExpr (remove_column_join_expr_list args)"
| "remove_column_join_expr_node (T_Other tag args) =
     T_Other tag (remove_column_join_expr_list args)"
| "remove_column_join_expr_list [] = []"
| "remove_column_join_expr_list (e # es) =
     remove_column_join_expr_node e # remove_column_join_expr_list es"

definition remove_column_join_expr :: "Node option \<Rightarrow> Node option" where
  "remove_column_join_expr node = map_option remove_column_join_expr_node node"

record JoinExprInfo =
  jinfo_expr :: Node
  jinfo_type :: JoinType
  lrtindex :: Index
  rrtindex :: Index
  jinfo_location :: int

text \<open>\<open>get_ora_column_join_walker\<close> returns \<open>false\<close> at every node, so it visits the
  whole expression unless it reports an error; the result is \<open>context->info\<close>.\<close>

fun get_ora_column_join_walker :: "Node \<Rightarrow> JoinExprInfo \<Rightarrow> error + JoinExprInfo"
  and get_ora_column_join_walker_list :: "Node list \<Rightarrow> JoinExprInfo \<Rightarrow> error + JoinExprInfo"
  where
  "get_ora_column_join_walker (T_ColumnRefJoin loc v) info =
     (if rrtindex info = 0
      then Inr (info\<lparr>jinfo_type := JOIN_LEFT, rrtindex := varno v, jinfo_location := loc\<rparr>)
      else if rrtindex info \<noteq> varno v
      then Inl (Error ERRCODE_SYNTAX_ERROR
             ''a predicate may reference only one outer-joined table'')
      else Inr info)"
| "get_ora_column_join_walker (T_Var v) info =
     (if lrtindex info = varno v \<or> rrtindex info = varno v then Inr info
      else if lrtindex info = 0 then Inr (info\<lparr>lrtindex := varno v\<rparr>)
      else if rrtindex info = 0 \<and> jinfo_type info = JOIN_INNER
      then Inr (info\<lparr>rrtindex := varno v\<rparr>)
      else if rrtindex info \<noteq> varno v \<and> lrtindex info \<noteq> varno v
      then Inl (Error ERRCODE_SYNTAX_ERROR
             ''a predicate may reference only one outer-joined table'')
      else Inr info)"
| "get_ora_column_join_walker (T_Const c) info = Inr info"
| "get_ora_column_join_walker (T_Param n t) info = Inr info"
| "get_ora_column_join_walker T_RownumExpr info = Inr info"
| "get_ora_column_join_walker (T_OpExpr opno funcid args) info =
     get_ora_column_join_walker_list args info"
| "get_ora_column_join_walker (T_FuncExpr funcid args) info =
     get_ora_column_join_walker_list args info"
| "get_ora_column_join_walker (T_BoolExpr boolop args) info =
     get_ora_column_join_walker_list args info"
| "get_ora_column_join_walker (T_SetToDefault t m c loc) info = Inr info"
| "get_ora_column_join_walker (T_RowExpr args) info = get_ora_column_join_walker_list args info"
| "get_ora_column_join_walker (T_Other tag args) info =
     get_ora_column_join_walker_list args info"
| "get_ora_column_join_walker_list [] info = Inr info"
| "get_ora_column_join_walker_list (e # es) info =
     (case get_ora_column_join_walker e info of
        Inl err \<Rightarrow> Inl err
      | Inr info' \<Rightarrow> get_ora_column_join_walker_list es info')"

text \<open>\<open>get_ora_column_join\<close>.  The code leaves \<open>jinfo->location\<close> as \<open>palloc\<close> gives it
  until a marker is met; it is \<open>- 1\<close> here.\<close>

definition get_ora_column_join :: "Node \<Rightarrow> error + JoinExprInfo" where
  "get_ora_column_join e =
     get_ora_column_join_walker e
       \<lparr>jinfo_expr = e, jinfo_type = JOIN_INNER, lrtindex = 0, rrtindex = 0,
        jinfo_location = - 1\<rparr>"

record PullupRelForJoinContext =
  ctx_larg :: "JoinNode option"
  ctx_rarg :: "JoinNode option"

definition empty_pullup_context :: PullupRelForJoinContext where
  "empty_pullup_context = \<lparr>ctx_larg = None, ctx_rarg = None\<rparr>"

text \<open>\<open>combin_pullup_context\<close>: the destination afterwards, and the result.\<close>

definition combin_pullup_context ::
  "PullupRelForJoinContext \<Rightarrow> PullupRelForJoinContext \<Rightarrow> PullupRelForJoinContext \<times> bool" where
  "combin_pullup_context dest src =
     (let d1 = (if ctx_larg src \<noteq> None then dest\<lparr>ctx_larg := ctx_larg src\<rparr> else dest);
          d2 = (if ctx_rarg src \<noteq> None then d1\<lparr>ctx_rarg := ctx_rarg src\<rparr> else d1)
      in (d2, ctx_larg src \<noteq> None \<or> ctx_rarg src \<noteq> None))"

text \<open>The qualification of a join after \<open>bexpr->args = lappend(bexpr->args, jinfo->expr)\<close>
  in \<open>pullup_rel_for_join\<close>.\<close>

definition append_join_qual :: "Node option \<Rightarrow> Node \<Rightarrow> Node" where
  "append_join_qual quals' e =
     (case quals' of
        None \<Rightarrow> T_BoolExpr AND_EXPR [e]
      | Some q \<Rightarrow>
          (case q of
             T_BoolExpr AND_EXPR args \<Rightarrow> T_BoolExpr AND_EXPR (args @ [e])
           | _ \<Rightarrow> T_BoolExpr AND_EXPR [q, e]))"

text \<open>The end of the \<open>JoinExpr\<close> branch of \<open>pullup_rel_for_join\<close>, after the two
  arguments have been searched: \<open>larg'\<close> and \<open>rarg'\<close> are the arguments as they are
  then.\<close>

definition pullup_rel_for_join_found ::
  "JoinType \<Rightarrow> JoinNode \<Rightarrow> JoinNode \<Rightarrow> Node option \<Rightarrow> Index \<Rightarrow> JoinExprInfo \<Rightarrow>
     PullupRelForJoinContext \<Rightarrow> error + (bool \<times> JoinNode \<times> PullupRelForJoinContext)" where
  "pullup_rel_for_join_found jointype' larg' rarg' quals' rtindex' jinfo ctx =
     (if ctx_larg ctx \<noteq> None \<and> ctx_rarg ctx \<noteq> None
      then
        (if jinfo_type jinfo = JOIN_LEFT \<and> jointype' \<noteq> JOIN_LEFT \<and> jointype' \<noteq> JOIN_RIGHT
         then Inl (Error ERRCODE_SYNTAX_ERROR
                ''a predicate may reference only one outer-joined table'')
         else Inr (True,
                   T_JoinExpr jointype' larg' rarg'
                     (Some (append_join_qual quals' (jinfo_expr jinfo))) rtindex',
                   ctx))
      else
        (let node = T_JoinExpr jointype' larg' rarg' quals' rtindex'
         in Inr (False, node,
                 if ctx_larg ctx \<noteq> None then ctx\<lparr>ctx_larg := Some node\<rparr>
                 else if ctx_rarg ctx \<noteq> None then ctx\<lparr>ctx_rarg := Some node\<rparr>
                 else ctx)))"

text \<open>
  \<open>pullup_rel_for_join\<close> changes the tree in place: the result is what the function
  returns, the node afterwards and the context afterwards.
  \<open>pullup_rel_for_join_fromlist\<close> is the loop over \<open>from->fromlist\<close>: \<open>kept\<close> are the
  items before \<open>item\<close> that are still in the list; its boolean tells that the function has
  returned \<open>true\<close> from inside the loop.
\<close>

fun pullup_rel_for_join ::
      "JoinNode \<Rightarrow> JoinExprInfo \<Rightarrow> PullupRelForJoinContext \<Rightarrow>
         error + (bool \<times> JoinNode \<times> PullupRelForJoinContext)"
  and pullup_rel_for_join_fromlist ::
      "JoinNode list \<Rightarrow> JoinNode list \<Rightarrow> JoinExprInfo \<Rightarrow> PullupRelForJoinContext \<Rightarrow>
         error + (bool \<times> JoinNode list \<times> PullupRelForJoinContext)" where
  "pullup_rel_for_join (T_FromExpr fl q) jinfo ctx =
     (case pullup_rel_for_join_fromlist [] fl jinfo ctx of
        Inl e \<Rightarrow> Inl e
      | Inr (returned, fl', ctx') \<Rightarrow>
          if returned then Inr (True, T_FromExpr fl' q, ctx')
          else
            (case (ctx_larg ctx', ctx_rarg ctx') of
               (Some l, Some r) \<Rightarrow>
                 Inr (True,
                      T_FromExpr
                        (fl' @ [T_JoinExpr (jinfo_type jinfo) l r (Some (jinfo_expr jinfo)) 0]) q,
                      ctx')
             | _ \<Rightarrow> Inr (False, T_FromExpr fl' q, ctx')))"
| "pullup_rel_for_join (T_JoinExpr jt l r q rti') jinfo ctx =
     (case pullup_rel_for_join l jinfo empty_pullup_context of
        Inl e \<Rightarrow> Inl e
      | Inr (res, l', my_context) \<Rightarrow>
          if res then Inr (True, T_JoinExpr jt l' r q rti', ctx)
          else
            (let ctx1 = fst (combin_pullup_context ctx my_context)
             in if ctx_larg ctx1 = None \<or> ctx_rarg ctx1 = None
                then
                  (case pullup_rel_for_join r jinfo empty_pullup_context of
                     Inl e \<Rightarrow> Inl e
                   | Inr (res2, r', my_context2) \<Rightarrow>
                       if res2 then Inr (True, T_JoinExpr jt l' r' q rti', ctx1)
                       else pullup_rel_for_join_found jt l' r' q rti' jinfo
                              (fst (combin_pullup_context ctx1 my_context2)))
                else pullup_rel_for_join_found jt l' r q rti' jinfo ctx1))"
| "pullup_rel_for_join (T_RangeTblRef i) jinfo ctx =
     Inr (False, T_RangeTblRef i,
          if i = lrtindex jinfo then ctx\<lparr>ctx_larg := Some (T_RangeTblRef i)\<rparr>
          else if i = rrtindex jinfo then ctx\<lparr>ctx_rarg := Some (T_RangeTblRef i)\<rparr>
          else ctx)"
| "pullup_rel_for_join_fromlist kept [] jinfo ctx = Inr (False, kept, ctx)"
| "pullup_rel_for_join_fromlist kept (item # rest) jinfo ctx =
     (case pullup_rel_for_join item jinfo empty_pullup_context of
        Inl e \<Rightarrow> Inl e
      | Inr (res, item', my_context) \<Rightarrow>
          if res then Inr (True, kept @ item' # rest, ctx)
          else
            (let (ctx', combined) = combin_pullup_context ctx my_context
             in if combined
                then
                  (if ctx_larg ctx' \<noteq> None \<and> ctx_rarg ctx' \<noteq> None
                   then Inr (False, kept @ rest, ctx')
                   else pullup_rel_for_join_fromlist kept rest jinfo ctx')
                else pullup_rel_for_join_fromlist (kept @ [item']) rest jinfo ctx'))"

text \<open>The test of \<open>check_joinon_column_join\<close> on the direction of a join whose
  qualification has a marker: \<open>failed\<close>.\<close>

definition check_joinon_failed :: "JoinType \<Rightarrow> JoinNode \<Rightarrow> JoinNode \<Rightarrow> JoinExprInfo \<Rightarrow> bool" where
  "check_joinon_failed jointype' larg' rarg' jinfo =
     ((case larg' of
         T_RangeTblRef i \<Rightarrow>
           (i = lrtindex jinfo \<and> jointype' \<noteq> JOIN_LEFT) \<or>
           (i = rrtindex jinfo \<and> jointype' \<noteq> JOIN_RIGHT)
       | _ \<Rightarrow> False) \<or>
      (case rarg' of
         T_RangeTblRef i \<Rightarrow>
           (i = lrtindex jinfo \<and> jointype' \<noteq> JOIN_RIGHT) \<or>
           (i = rrtindex jinfo \<and> jointype' \<noteq> JOIN_LEFT)
       | _ \<Rightarrow> False))"

text \<open>\<open>check_joinon_column_join\<close>: the node afterwards.\<close>

fun check_joinon_column_join :: "JoinNode \<Rightarrow> error + JoinNode"
  and check_joinon_column_join_list :: "JoinNode list \<Rightarrow> error + JoinNode list" where
  "check_joinon_column_join (T_JoinExpr jt l r q rti') =
     (case check_joinon_column_join l of
        Inl e \<Rightarrow> Inl e
      | Inr l' \<Rightarrow>
          (case check_joinon_column_join r of
             Inl e \<Rightarrow> Inl e
           | Inr r' \<Rightarrow>
               (case q of
                  None \<Rightarrow> Inr (T_JoinExpr jt l' r' q rti')
                | Some e \<Rightarrow>
                    if \<not> have_ora_column_join_node e then Inr (T_JoinExpr jt l' r' q rti')
                    else
                      (case get_ora_column_join e of
                         Inl err \<Rightarrow> Inl err
                       | Inr jinfo \<Rightarrow>
                           if jinfo_type jinfo \<noteq> JOIN_INNER \<and> check_joinon_failed jt l' r' jinfo
                           then Inl (Error ERRCODE_SYNTAX_ERROR
                                  ''a predicate may reference only on outer-joined table'')
                           else Inr (T_JoinExpr jt l' r'
                                       (Some (remove_column_join_expr_node e)) rti')))))"
| "check_joinon_column_join (T_FromExpr fl q) =
     (case check_joinon_column_join_list fl of
        Inl e \<Rightarrow> Inl e
      | Inr fl' \<Rightarrow>
          Inr (T_FromExpr fl'
                 (if have_ora_column_join q then remove_column_join_expr q else q)))"
| "check_joinon_column_join (T_RangeTblRef i) = Inr (T_RangeTblRef i)"
| "check_joinon_column_join_list [] = Inr []"
| "check_joinon_column_join_list (n # ns) =
     (case check_joinon_column_join n of
        Inl e \<Rightarrow> Inl e
      | Inr n' \<Rightarrow>
          (case check_joinon_column_join_list ns of
             Inl e \<Rightarrow> Inl e
           | Inr ns' \<Rightarrow> Inr (n' # ns')))"

text \<open>The call \<open>check_joinon_column_join((Node*)(query->jointree), pstate)\<close>: the join tree
  of the query afterwards.  With no join tree the function returns at once.\<close>

definition check_joinon_column_join_jointree :: "FromExpr option \<Rightarrow> error + FromExpr option" where
  "check_joinon_column_join_jointree jt =
     (case jt of
        None \<Rightarrow> Inr None
      | Some f \<Rightarrow>
          (case check_joinon_column_join (T_FromExpr (fromlist f) (quals f)) of
             Inl e \<Rightarrow> Inl e
           | Inr (T_FromExpr fl q) \<Rightarrow> Inr (Some \<lparr>fromlist = fl, quals = q\<rparr>)
           | Inr _ \<Rightarrow> Inr (Some f)))"

subsection \<open>Outer-join markers in \<open>WHERE\<close>: \<open>transformFromAndWhere\<close>\<close>

text \<open>
  \<open>find_namespace_item_for_rte\<close>: the loop leaves in \<open>pni\<close> the first item of the entry,
  or the last item of the namespace when there is none; with an empty namespace \<open>pni\<close> is
  \<open>NULL\<close>, which is a trap here.  An entry of the range table is pointed to by its index.
\<close>

fun find_namespace_item_for_rte_loop ::
  "ParseNamespaceItem list \<Rightarrow> Index \<Rightarrow> ParseNamespaceItem option \<Rightarrow> ParseNamespaceItem option"
  where
  "find_namespace_item_for_rte_loop [] rte pni = pni"
| "find_namespace_item_for_rte_loop (n # ns) rte pni =
     (if p_rte n = rte then Some n else find_namespace_item_for_rte_loop ns rte (Some n))"

definition find_namespace_item_for_rte ::
  "ParseNamespaceItem list \<Rightarrow> Index \<Rightarrow> error + ParseNamespaceItem list" where
  "find_namespace_item_for_rte namespace rte =
     (case find_namespace_item_for_rte_loop namespace rte None of
        None \<Rightarrow> Inl (Trap ''pni'')
      | Some pni \<Rightarrow> Inr [pni])"

text \<open>The lines of \<open>analyze_new_join\<close> that link the new \<open>JoinExpr\<close> in
  \<open>p_joinexprs\<close>.\<close>

definition link_joinexpr :: "ParseState \<Rightarrow> JoinNode \<Rightarrow> Index \<Rightarrow> ParseState" where
  "link_joinexpr ps j rtindex' =
     ps\<lparr>p_joinexprs := p_joinexprs ps @
          replicate (rtindex' - 1 - length (p_joinexprs ps)) None @ [Some j]\<rparr>"

text \<open>
  \<open>analyze_new_join\<close>.  The result is the node afterwards (a new join gets its
  \<open>rtindex\<close>), \<open>*rtindex\<close> and \<open>*namelist\<close>; \<open>*top_rte\<close> is the entry of index
  \<open>*rtindex\<close>.  An out-parameter that has not been assigned is \<open>None\<close>: that is what the
  callers pass for \<open>namelist\<close>, except the top call.  The items that the function finds in
  \<open>p_namespace\<close> are the items of that list; the assignment to their \<open>p_cols_visible\<close> is
  made here on the items of the result only, the one caller replacing \<open>p_namespace\<close> by
  the result.
\<close>

fun analyze_new_join ::
      "env \<Rightarrow> ParseState \<Rightarrow> JoinNode \<Rightarrow> ParseNamespaceItem list option \<Rightarrow>
         (JoinNode \<times> Index option \<times> ParseNamespaceItem list option) result"
  and analyze_new_join_fromlist ::
      "env \<Rightarrow> ParseState \<Rightarrow> JoinNode list \<Rightarrow> ParseNamespaceItem list \<Rightarrow>
         (JoinNode list \<times> ParseNamespaceItem list) result" where
  "analyze_new_join env ps (T_JoinExpr jt l r q rti') namelist =
     (if rti' = 0
      then
        rbind (analyze_new_join env ps l None) (\<lambda>(l', l_rtindex, res_namelist) ps1.
          case (l_rtindex, res_namelist) of
            (Some li, Some rn) \<Rightarrow>
              (case rt_fetch li (p_rtable ps1) of
                 None \<Rightarrow> Inl (Trap ''l_rte'')
               | Some l_rte \<Rightarrow>
                   (let (res_colnames, res_colvars) = ext_expandRTE env l_rte li 0 (- 1) False
                    in rbind (analyze_new_join env ps1 r None)
                         (\<lambda>(r', r_rtindex, arg_namelist) ps2.
                            case (r_rtindex, arg_namelist) of
                              (Some ri, Some an) \<Rightarrow>
                                (case rt_fetch ri (p_rtable ps2) of
                                   None \<Rightarrow> Inl (Trap ''r_rte'')
                                 | Some r_rte \<Rightarrow>
                                     (let (colnames', colvars) =
                                            ext_expandRTE env r_rte ri 0 (- 1) False;
                                          (top_rte, ps3) =
                                            addRangeTableEntryForJoin ps2
                                              (res_colnames @ colnames') jt
                                              (res_colvars @ colvars) None True;
                                          rtindex' = length (p_rtable ps3);
                                          j = T_JoinExpr jt l' r' q rtindex';
                                          pni = \<lparr>p_rte = rtindex', p_rel_visible = False,
                                                 p_cols_visible = True, p_lateral_only = False,
                                                 p_lateral_ok = True\<rparr>
                                      in Inr ((j, Some rtindex',
                                               Some (map (\<lambda>n. n\<lparr>p_cols_visible := False\<rparr>)
                                                       (rn @ an) @ [pni])),
                                              link_joinexpr ps3 j rtindex')))
                            | _ \<Rightarrow> Inl (Trap ''r_rte''))))
          | _ \<Rightarrow> Inl (Trap ''l_rte''))
      else
        (case rt_fetch rti' (p_rtable ps) of
           None \<Rightarrow> Inl (Trap ''rt_fetch'')
         | Some top_rte \<Rightarrow>
             (case find_namespace_item_for_rte (p_namespace ps) rti' of
                Inl e \<Rightarrow> Inl e
              | Inr nl \<Rightarrow> Inr ((T_JoinExpr jt l r q rti', Some rti', Some nl), ps))))"
| "analyze_new_join env ps (T_FromExpr fl q) namelist =
     (case namelist of
        None \<Rightarrow> Inl (Trap ''namelist'')
      | Some nl \<Rightarrow>
          rbind (analyze_new_join_fromlist env ps fl nl) (\<lambda>(fl', nl') ps1.
            Inr ((T_FromExpr fl' q, None, Some nl'), ps1)))"
| "analyze_new_join env ps (T_RangeTblRef i) namelist =
     (case rt_fetch i (p_rtable ps) of
        None \<Rightarrow> Inl (Trap ''rt_fetch'')
      | Some top_rte \<Rightarrow>
          (case find_namespace_item_for_rte (p_namespace ps) i of
             Inl e \<Rightarrow> Inl e
           | Inr nl \<Rightarrow> Inr ((T_RangeTblRef i, Some i, Some nl), ps)))"
| "analyze_new_join_fromlist env ps [] nl = Inr (([], nl), ps)"
| "analyze_new_join_fromlist env ps (item # items) nl =
     rbind (analyze_new_join env ps item None) (\<lambda>(item', my_rtindex, my_namelist) ps1.
       case my_namelist of
         None \<Rightarrow> Inl (Trap ''my_namelist'')
       | Some mn \<Rightarrow>
           rbind (analyze_new_join_fromlist env ps1 items (nl @ mn)) (\<lambda>(items', nl') ps2.
             Inr ((item' # items', nl'), ps2)))"

text \<open>The first loop of \<open>get_join_qual_exprs\<close>: the clauses with a marker, as
  \<open>JoinExprInfo\<close>, and what is left of \<open>qual_list\<close>.\<close>

fun get_join_qual_exprs_markers :: "Node list \<Rightarrow> error + (JoinExprInfo list \<times> Node list)" where
  "get_join_qual_exprs_markers [] = Inr ([], [])"
| "get_join_qual_exprs_markers (e # es) =
     (if \<not> have_ora_column_join_node e
      then (case get_join_qual_exprs_markers es of
              Inl err \<Rightarrow> Inl err
            | Inr (res, ql) \<Rightarrow> Inr (res, e # ql))
      else (case get_ora_column_join e of
              Inl err \<Rightarrow> Inl err
            | Inr jinfo \<Rightarrow>
                (case get_join_qual_exprs_markers es of
                   Inl err \<Rightarrow> Inl err
                 | Inr (res, ql) \<Rightarrow> Inr (jinfo # res, ql))))"

text \<open>The search of \<open>result\<close> for the same tables, in the second loop: the list after the
  clause has been combined, if it has.\<close>

fun combin_join_qual :: "JoinExprInfo list \<Rightarrow> JoinExprInfo \<Rightarrow> JoinExprInfo list option" where
  "combin_join_qual [] jinfo2 = None"
| "combin_join_qual (jinfo # res) jinfo2 =
     (if jinfo_type jinfo = jinfo_type jinfo2 \<and> lrtindex jinfo = lrtindex jinfo2 \<and>
         rrtindex jinfo = rrtindex jinfo2
      then Some (jinfo\<lparr>jinfo_expr :=
                   append_join_qual (Some (jinfo_expr jinfo)) (jinfo_expr jinfo2)\<rparr> # res)
      else map_option (\<lambda>res'. jinfo # res') (combin_join_qual res jinfo2))"

fun get_join_qual_exprs_combin ::
  "JoinExprInfo list \<Rightarrow> Node list \<Rightarrow> error + JoinExprInfo list" where
  "get_join_qual_exprs_combin res [] = Inr res"
| "get_join_qual_exprs_combin res (e # es) =
     (case get_ora_column_join e of
        Inl err \<Rightarrow> Inl err
      | Inr jinfo2 \<Rightarrow>
          get_join_qual_exprs_combin
            (case combin_join_qual res jinfo2 of Some res' \<Rightarrow> res' | None \<Rightarrow> res @ [jinfo2])
            es)"

definition get_join_qual_exprs :: "env \<Rightarrow> Node option \<Rightarrow> error + JoinExprInfo list" where
  "get_join_qual_exprs env quals' =
     (case quals' of
        None \<Rightarrow> Inr []
      | Some q \<Rightarrow>
          (case get_join_qual_exprs_markers (qual_list_of (ext_canonicalize_qual env q)) of
             Inl err \<Rightarrow> Inl err
           | Inr (res, qual_list) \<Rightarrow> get_join_qual_exprs_combin res qual_list))"

text \<open>The loop of \<open>transformFromAndWhere\<close> over the clauses: \<open>from\<close> afterwards, and what
  is left in \<open>qual_list\<close>, which are the clauses of a single table, without their
  markers.\<close>

fun transformFromAndWhere_pullup ::
  "JoinNode \<Rightarrow> JoinExprInfo list \<Rightarrow> error + (JoinNode \<times> Node list)" where
  "transformFromAndWhere_pullup from [] = Inr (from, [])"
| "transformFromAndWhere_pullup from (jinfo # rest) =
     (if lrtindex jinfo = 0 \<or> rrtindex jinfo = 0
      then (case transformFromAndWhere_pullup from rest of
              Inl e \<Rightarrow> Inl e
            | Inr (from', ql) \<Rightarrow>
                Inr (from', remove_column_join_expr_node (jinfo_expr jinfo) # ql))
      else
        (case pullup_rel_for_join from
                (jinfo\<lparr>jinfo_expr := remove_column_join_expr_node (jinfo_expr jinfo)\<rparr>)
                empty_pullup_context of
           Inl e \<Rightarrow> Inl e
         | Inr (res, from', ctx) \<Rightarrow>
             if \<not> res
             then Inl (Error ERRCODE_INTERNAL_ERROR ''move filter qual to join filter failed!'')
             else transformFromAndWhere_pullup from' rest))"

definition transformFromAndWhere :: "env \<Rightarrow> ParseState \<Rightarrow> Node option \<Rightarrow> Node option result"
  where
  "transformFromAndWhere env ps quals' =
     (if p_joinlist ps = [] \<or> \<not> have_ora_column_join quals' then Inr (quals', ps)
      else if length (p_joinlist ps) = 1 then Inr (remove_column_join_expr quals', ps)
      else
        (case get_join_qual_exprs env quals' of
           Inl e \<Rightarrow> Inl e
         | Inr infos \<Rightarrow>
             (case transformFromAndWhere_pullup (T_FromExpr (p_joinlist ps) None) infos of
                Inl e \<Rightarrow> Inl e
              | Inr (from, qual_list) \<Rightarrow>
                  (let ps1 = ps\<lparr>p_save_namespace := p_save_namespace ps @ p_namespace ps\<rparr>
                   in rbind (analyze_new_join env ps1 from (Some []))
                        (\<lambda>(from', rtindex', new_namelist) ps2.
                           let ps3 = ps2\<lparr>p_namespace :=
                                          (case new_namelist of None \<Rightarrow> [] | Some nl \<Rightarrow> nl),
                                        p_joinlist :=
                                          (case from' of T_FromExpr fl q \<Rightarrow> fl | _ \<Rightarrow> [])\<rparr>
                           in Inr (case qual_list of
                                     [] \<Rightarrow> None
                                   | [e] \<Rightarrow> Some e
                                   | _ \<Rightarrow> Some (T_BoolExpr AND_EXPR qual_list),
                                   ps3))))))"

subsection \<open>\<open>SELECT\<close>: \<open>transformSelectStmt\<close>\<close>

text \<open>
  The lines of \<open>transformSelectStmt\<close> between \<open>#ifdef ADB\<close> and \<open>#endif\<close>: transform
  \<open>WHERE\<close>, then \<open>transformFromAndWhere\<close>.  The call of \<open>transformFromAndWhere\<close> is
  entered in the trace.
\<close>

definition transformSelectStmt_where_ADB ::
  "env \<Rightarrow> ParseState \<Rightarrow> SelectStmtFields \<Rightarrow> Node option result" where
  "transformSelectStmt_where_ADB env ps f =
     rbind (transformWhereClause env ps (sel_whereClause f) EXPR_KIND_WHERE ''WHERE'')
       (\<lambda>qual ps1.
          logged ps1 (Call ''transformFromAndWhere'' []) (transformFromAndWhere env ps1 qual))"

text \<open>The three forms of \<open>stmt->distinctClause\<close>: the clause, the target list and
  \<open>hasDistinctOn\<close>.\<close>

definition transformSelectStmt_distinct ::
  "env \<Rightarrow> ParseState \<Rightarrow> SelectStmtFields \<Rightarrow> TargetEntry list \<Rightarrow> SortGroupClause list \<Rightarrow>
     (SortGroupClause list \<times> TargetEntry list \<times> bool) result" where
  "transformSelectStmt_distinct env ps f targetList' sortClause' =
     (case sel_distinctClause f of
        [] \<Rightarrow> Inr (([], targetList', False), ps)
      | d # ds \<Rightarrow>
          (if d = None
           then rbind (transformDistinctClause env ps targetList' sortClause' False)
                  (\<lambda>(distinctClause', tlist) ps1. Inr ((distinctClause', tlist, False), ps1))
           else rbind (transformDistinctOnClause env ps (sel_distinctClause f) targetList'
                         sortClause')
                  (\<lambda>(distinctClause', tlist) ps1. Inr ((distinctClause', tlist, True), ps1))))"

text \<open>
  \<open>transformSelectStmt\<close> from the \<open>HAVING\<close> clause on.  The locking clauses change the
  query and the entries of its range table, which are those of \<open>p_rtable\<close>; the parse state
  is not read again but by \<open>assign_query_collations\<close>, and keeps its own range table here.
\<close>

definition transformSelectStmt_rest ::
  "env \<Rightarrow> ParseState \<Rightarrow> SelectStmtFields \<Rightarrow> QueryFields \<Rightarrow> TargetEntry list \<Rightarrow> Node option \<Rightarrow>
     Query result" where
  "transformSelectStmt_rest env ps f qry1 targetList' qual =
     rbind (transformWhereClause env ps (sel_havingClause f) EXPR_KIND_HAVING ''HAVING'')
       (\<lambda>havingQual' ps1.
     rbind (transformSortClause env ps1 (sel_sortClause f) targetList' EXPR_KIND_ORDER_BY True
              False) (\<lambda>(sortClause', tlist1) ps2.
     rbind (transformGroupClause env ps2 (sel_groupClause f) tlist1 sortClause'
              EXPR_KIND_GROUP_BY False) (\<lambda>(groupClause', tlist2) ps3.
     rbind (transformSelectStmt_distinct env ps3 f tlist2 sortClause')
       (\<lambda>(distinctClause', tlist3, hasDistinctOn') ps4.
     rbind (transformLimitClause env ps4 (sel_limitOffset f) EXPR_KIND_OFFSET ''OFFSET'')
       (\<lambda>limitOffset' ps5.
     rbind (transformLimitClause env ps5 (sel_limitCount f) EXPR_KIND_LIMIT ''LIMIT'')
       (\<lambda>limitCount' ps6.
     rbind (transformWindowDefinitions env ps6 (p_windowdefs ps6) tlist3)
       (\<lambda>(windowClause', tlist4) ps7.
     let qry = Query
           (qry1\<lparr>targetList := tlist4, havingQual := havingQual', sortClause := sortClause',
                 groupClause := groupClause', distinctClause := distinctClause',
                 hasDistinctOn := hasDistinctOn', limitOffset := limitOffset',
                 limitCount := limitCount', windowClause := windowClause',
                 jointree := Some (makeFromExpr (p_joinlist ps7) qual),
                 hasSubLinks := p_hasSubLinks ps7, hasWindowFuncs := p_hasWindowFuncs ps7,
                 hasAggs := p_hasAggs ps7\<rparr>)
           (p_rtable ps7)
     in rbind (if p_hasAggs ps7 \<or> groupClause' \<noteq> [] \<or> havingQual' \<noteq> None
               then parseCheckAggregates env ps7 qry else Inr ((), ps7)) (\<lambda>u ps8.
        rbind (unchanged ps8 (transformLockingClauses env qry (sel_lockingClause f)))
          (\<lambda>qry' ps9.
        rbind (assign_query_collations env ps9 qry') (\<lambda>u ps10. Inr (qry', ps10)))))))))))"

text \<open>
  \<open>transformSelectStmt\<close>, for a statement with \<open>op == SETOP_NONE\<close> and no
  \<open>valuesLists\<close>.  \<open>ADB\<close> is the macro of the build: with it \<open>WHERE\<close> is transformed,
  and \<open>transformFromAndWhere\<close> applied, before the target list; without it \<open>WHERE\<close> is
  transformed after the target list.
\<close>

definition transformSelectStmt :: "env \<Rightarrow> ParseState \<Rightarrow> SelectStmtFields \<Rightarrow> Query result" where
  "transformSelectStmt env ps f =
     rbind (transformSelectStmt_withClause env ps
              (makeNode_QueryFields\<lparr>commandType := CMD_SELECT\<rparr>) (sel_withClause f))
       (\<lambda>qry1 ps1.
     if sel_intoClause f \<noteq> None
     then Inl (Error ERRCODE_SYNTAX_ERROR ''SELECT ... INTO is not allowed here'')
     else
       rbind (transformFromClause env
                (ps1\<lparr>p_locking_clause := sel_lockingClause f,
                     p_windowdefs := sel_windowClause f\<rparr>) (sel_fromClause f)) (\<lambda>u ps2.
       rbind (if ADB env then transformSelectStmt_where_ADB env ps2 f else Inr (None, ps2))
         (\<lambda>qual_ADB ps3.
       rbind (transformTargetList env ps3 (sel_targetList f) EXPR_KIND_SELECT_TARGET)
         (\<lambda>targetList' ps4.
       rbind (markTargetListOrigins env ps4 targetList') (\<lambda>u ps5.
       rbind (if ADB env then Inr (qual_ADB, ps5)
              else transformWhereClause env ps5 (sel_whereClause f) EXPR_KIND_WHERE ''WHERE'')
         (\<lambda>qual ps6.
       transformSelectStmt_rest env ps6 f qry1 targetList' qual))))))"

text \<open>Example: \<open>SELECT a FROM t WHERE x > 0\<close>; the environment of the examples leaves the
  \<open>FROM\<close> clause aside.  \<open>plain_env_without_ADB\<close> is the build without the macro
  \<open>ADB\<close>.\<close>

definition example_select :: SelectStmtFields where
  "example_select =
     makeNode_SelectStmtFields
       \<lparr>sel_targetList :=
          [\<lparr>name = Some ''a'', indirection = [], val = Some (example_Var 23 (- 1)),
            rt_location = - 1\<rparr>],
        sel_whereClause := Some example_x_gt_0\<rparr>"

definition plain_env_without_ADB :: env where
  "plain_env_without_ADB = plain_env\<lparr>ADB := False\<rparr>"

subsection \<open>A \<open>SELECT\<close> statement in \<open>transformStmt\<close>\<close>

text \<open>
  \<open>transformStmt\<close> for a \<open>SelectStmt\<close>: the case \<open>T_SelectStmt\<close> of the switch, and
  the two assignments that follow the switch.  \<open>transformInsertStmt\<close> calls
  \<open>transformStmt\<close> on its source, which the grammar makes a \<open>SelectStmt\<close>.
\<close>

definition mark_original :: "Query \<Rightarrow> Query" where
  "mark_original result =
     Query ((qf result)\<lparr>querySource := QSRC_ORIGINAL, canSetTag := True\<rparr>) (rtable result)"

definition transformStmt_SelectStmt :: "env \<Rightarrow> ParseState \<Rightarrow> SelectStmt \<Rightarrow> Query result" where
  "transformStmt_SelectStmt env ps n =
     rbind (if sel_valuesLists (sel n) \<noteq> [] then transformValuesClause env ps (sel n)
            else
              (case setop n of
                 None \<Rightarrow> transformSelectStmt env ps (sel n)
               | Some (op', all', larg, rarg) \<Rightarrow>
                   transformSetOperationStmt env ps (sel n) op' all' larg rarg))
       (\<lambda>result ps1. Inr (mark_original result, ps1))"

subsection \<open>\<open>INSERT\<close>: \<open>transformInsertRow\<close>, \<open>transformInsertStmt\<close>\<close>

text \<open>The loop of \<open>transformInsertRow\<close>; \<open>icols\<close> and \<open>attnos\<close> step through
  \<open>icolumns\<close> and \<open>attrnos\<close>.\<close>

fun transformInsertRow_columns ::
  "env \<Rightarrow> ParseState \<Rightarrow> Node list \<Rightarrow> ResTarget list \<Rightarrow> int list \<Rightarrow> Node list result" where
  "transformInsertRow_columns env ps [] icols attnos = Inr ([], ps)"
| "transformInsertRow_columns env ps (e # es) icols attnos =
     (case (icols, attnos) of
        (col # icols', attno # attnos') \<Rightarrow>
          rbind (ext_transformAssignedExpr env ps e EXPR_KIND_INSERT_TARGET (name col) attno
                   (indirection col) (rt_location col)) (\<lambda>e' ps1.
          rbind (transformInsertRow_columns env ps1 es icols' attnos') (\<lambda>es' ps2.
            Inr (e' # es', ps2)))
      | _ \<Rightarrow> Inl (Trap ''icols''))"

text \<open>\<open>transformInsertRow\<close>.  The hint that goes with the second error is left out.\<close>

definition transformInsertRow ::
  "env \<Rightarrow> ParseState \<Rightarrow> Node list \<Rightarrow> ResTarget list \<Rightarrow> ResTarget list \<Rightarrow> int list \<Rightarrow>
     Node list result" where
  "transformInsertRow env ps exprlist stmtcols icolumns attrnos =
     (if length exprlist > length icolumns
      then Inl (Error ERRCODE_SYNTAX_ERROR ''INSERT has more expressions than target columns'')
      else if stmtcols \<noteq> [] \<and> length exprlist < length icolumns
      then Inl (Error ERRCODE_SYNTAX_ERROR ''INSERT has more target columns than expressions'')
      else transformInsertRow_columns env ps exprlist icolumns attrnos)"

text \<open>The source is a general \<open>SELECT\<close>: \<open>isGeneralSelect\<close>.\<close>

definition isGeneralSelect :: "InsertStmt \<Rightarrow> bool" where
  "isGeneralSelect stmt =
     (case ins_selectStmt stmt of
        None \<Rightarrow> False
      | Some selectStmt \<Rightarrow>
          sel_valuesLists (sel selectStmt) = [] \<or> sel_sortClause (sel selectStmt) \<noteq> [] \<or>
          sel_limitOffset (sel selectStmt) \<noteq> None \<or> sel_limitCount (sel selectStmt) \<noteq> None \<or>
          sel_lockingClause (sel selectStmt) \<noteq> [] \<or> sel_withClause (sel selectStmt) \<noteq> None)"

text \<open>
  The parse state of the source \<open>SELECT\<close>: a child of the parse state of the \<open>INSERT\<close>,
  with the range table and the namespace that were passed in.  The trace goes on in the
  child, and from the child in the parent when the child is freed.
\<close>

definition sub_pstate_of ::
  "env \<Rightarrow> ParseState \<Rightarrow> RangeTblEntry list \<Rightarrow> ParseNamespaceItem list \<Rightarrow> ParseState" where
  "sub_pstate_of env ps sub_rtable sub_namespace =
     (ext_make_parsestate env (Some ps))
       \<lparr>p_rtable := sub_rtable, p_joinexprs := [], p_namespace := sub_namespace,
        p_trace := p_trace ps\<rparr>"

text \<open>The expression list that selects the columns of the subquery that are not
  resjunk.\<close>

definition subquery_exprList :: "env \<Rightarrow> Index \<Rightarrow> TargetEntry list \<Rightarrow> Node list" where
  "subquery_exprList env rtindex' tlist =
     map (\<lambda>tle.
            if (case expr tle of T_Const c \<Rightarrow> True | T_Param n t \<Rightarrow> True | _ \<Rightarrow> False) \<and>
               ext_exprType env (expr tle) = UNKNOWNOID
            then expr tle
            else T_Var ((ext_makeVarFromTargetEntry env rtindex' tle)
                          \<lparr>var_location := ext_exprLocation env (expr tle)\<rparr>))
       (filter (\<lambda>tle. \<not> resjunk tle) tlist)"

text \<open>
  The branch of \<open>transformInsertStmt\<close> for a general \<open>SELECT\<close>, after
  \<open>checkInsertTargets\<close>: the expression list and \<open>has_to_save_cmd_id\<close>.
\<close>

definition transformInsertStmt_select ::
  "env \<Rightarrow> ParseState \<Rightarrow> InsertStmt \<Rightarrow> SelectStmt \<Rightarrow> RangeTblEntry list \<Rightarrow>
     ParseNamespaceItem list \<Rightarrow> Index \<Rightarrow> ResTarget list \<Rightarrow> int list \<Rightarrow>
     (Node list \<times> bool) result" where
  "transformInsertStmt_select env ps stmt selectStmt sub_rtable sub_namespace resultRelation'
     icolumns attrnos =
     (case transformStmt_SelectStmt env (sub_pstate_of env ps sub_rtable sub_namespace)
             selectStmt of
        Inl e \<Rightarrow> Inl e
      | Inr (selectQuery, sub_pstate) \<Rightarrow>
          if commandType (qf selectQuery) \<noteq> CMD_SELECT \<or> utilityStmt (qf selectQuery) \<noteq> None
          then Inl (Error ERRCODE_INTERNAL_ERROR
                 ''unexpected non-SELECT command in INSERT ... SELECT'')
          else
            (let (rte, ps1) = addRangeTableEntryForSubquery (ps\<lparr>p_trace := p_trace sub_pstate\<rparr>)
                                selectQuery ''*SELECT*'' False False
             in rbind (if IS_PGXC_COORDINATOR env \<and> \<not> IsConnFromCoord env
                       then (case rt_fetch resultRelation' (p_rtable ps1) of
                               None \<Rightarrow> Inl (Trap ''target_rte'')
                             | Some target_rte \<Rightarrow>
                                 Inr (ext_is_relation_child env target_rte (rtable selectQuery),
                                      ps1))
                       else Inr (False, ps1)) (\<lambda>save_cmd_id ps2.
                let rtindex' = length (p_rtable ps2);
                    ps3 = ps2\<lparr>p_joinlist := p_joinlist ps2 @ [T_RangeTblRef rtindex']\<rparr>
                in rbind (transformInsertRow env ps3
                            (subquery_exprList env rtindex' (targetList (qf selectQuery)))
                            (ins_cols stmt) icolumns attrnos) (\<lambda>exprList ps4.
                     Inr ((exprList, save_cmd_id), ps4)))))"

text \<open>
  The loop over the rows of a \<open>VALUES\<close> list with several rows.  \<open>sublist_length\<close> is
  \<open>- 1\<close> before the first row; the result is \<open>exprsLists\<close> and \<open>sublist_length\<close>.
\<close>

fun transformInsertStmt_values_rows ::
  "env \<Rightarrow> ParseState \<Rightarrow> ResTarget list \<Rightarrow> ResTarget list \<Rightarrow> int list \<Rightarrow> Node list list \<Rightarrow>
     int \<Rightarrow> (Node list list \<times> int) result" where
  "transformInsertStmt_values_rows env ps stmtcols icolumns attrnos [] sublist_length =
     Inr (([], sublist_length), ps)"
| "transformInsertStmt_values_rows env ps stmtcols icolumns attrnos (sublist # rows)
     sublist_length =
     rbind (transformExpressionList env ps sublist EXPR_KIND_VALUES) (\<lambda>sublist1 ps1.
       if 0 \<le> sublist_length \<and> sublist_length \<noteq> int (length sublist1)
       then Inl (Error ERRCODE_SYNTAX_ERROR ''VALUES lists must all be the same length'')
       else
         rbind (transformInsertRow env ps1 sublist1 stmtcols icolumns attrnos) (\<lambda>sublist2 ps2.
         rbind (ext_assign_list_collations env ps2 sublist2) (\<lambda>u ps3.
         rbind (transformInsertStmt_values_rows env ps3 stmtcols icolumns attrnos rows
                  (if sublist_length < 0 then int (length sublist1) else sublist_length))
           (\<lambda>(exprsLists, n) ps4. Inr ((sublist2 # exprsLists, n), ps4)))))"

text \<open>
  The branch of \<open>transformInsertStmt\<close> for a \<open>VALUES\<close> list with several rows: the list of
  \<open>Var\<close>s that reference the \<open>VALUES\<close> entry, which is the last entry of the range table
  afterwards.
\<close>

definition transformInsertStmt_values ::
  "env \<Rightarrow> ParseState \<Rightarrow> ResTarget list \<Rightarrow> ResTarget list \<Rightarrow> int list \<Rightarrow> Node list list \<Rightarrow>
     Node list result" where
  "transformInsertStmt_values env ps stmtcols icolumns attrnos valuesLists =
     rbind (transformInsertStmt_values_rows env ps stmtcols icolumns attrnos valuesLists (- 1))
       (\<lambda>(exprsLists, sublist_length) ps1.
          let collations = replicate (nat sublist_length) InvalidOid;
              lateral' = (length (p_rtable ps1) \<noteq> 1 \<and>
                          ext_contain_vars_of_level env exprsLists 0);
              (rte, ps2) = addRangeTableEntryForValues ps1 exprsLists collations None lateral'
                             True;
              rtindex' = length (p_rtable ps2);
              ps3 = ps2\<lparr>p_joinlist := p_joinlist ps2 @ [T_RangeTblRef rtindex']\<rparr>
          in Inr (snd (ext_expandRTE env rte rtindex' 0 (- 1) False), ps3))"

text \<open>The loop that builds the target list of the \<open>INSERT\<close>; \<open>rte\<close> is
  \<open>p_target_rangetblentry\<close>.\<close>

fun transformInsertStmt_targets ::
  "env \<Rightarrow> ParseState \<Rightarrow> Index option \<Rightarrow> Node list \<Rightarrow> ResTarget list \<Rightarrow> int list \<Rightarrow>
     TargetEntry list result" where
  "transformInsertStmt_targets env ps rte [] icols attnos = Inr ([], ps)"
| "transformInsertStmt_targets env ps rte (e # es) icols attnos =
     (case (icols, attnos, rte) of
        (col # icols', attno # attnos', Some target_rte) \<Rightarrow>
          (let attr_num = AttrNumber_cast attno;
               tle = makeTargetEntry e attr_num (name col) False
           in rbind (transformInsertStmt_targets env
                       (add_modifiedCol ps target_rte
                          (attr_num - FirstLowInvalidHeapAttributeNumber env))
                       rte es icols' attnos') (\<lambda>tles ps1. Inr (tle # tles, ps1)))
      | _ \<Rightarrow> Inl (Trap ''icols''))"

text \<open>The expression list, by the variant of \<open>INSERT\<close>.\<close>

definition transformInsertStmt_exprList ::
  "env \<Rightarrow> ParseState \<Rightarrow> InsertStmt \<Rightarrow> RangeTblEntry list \<Rightarrow> ParseNamespaceItem list \<Rightarrow> Index \<Rightarrow>
     ResTarget list \<Rightarrow> int list \<Rightarrow> (Node list \<times> bool) result" where
  "transformInsertStmt_exprList env ps stmt sub_rtable sub_namespace resultRelation' icolumns
     attrnos =
     (case ins_selectStmt stmt of
        None \<Rightarrow> Inr (([], False), ps)
      | Some selectStmt \<Rightarrow>
          if isGeneralSelect stmt
          then transformInsertStmt_select env ps stmt selectStmt sub_rtable sub_namespace
                 resultRelation' icolumns attrnos
          else if length (sel_valuesLists (sel selectStmt)) > 1
          then rbind (transformInsertStmt_values env ps (ins_cols stmt) icolumns attrnos
                        (sel_valuesLists (sel selectStmt)))
                 (\<lambda>exprList ps1. Inr ((exprList, False), ps1))
          else
            rbind (transformExpressionList env ps (hd (sel_valuesLists (sel selectStmt)))
                     EXPR_KIND_VALUES) (\<lambda>exprList ps1.
            rbind (transformInsertRow env ps1 exprList (ins_cols stmt) icolumns attrnos)
              (\<lambda>exprList' ps2. Inr ((exprList', False), ps2))))"

text \<open>The \<open>RETURNING\<close> clause of an \<open>INSERT\<close>.\<close>

definition transformInsertStmt_returning ::
  "env \<Rightarrow> ParseState \<Rightarrow> ResTarget list \<Rightarrow> TargetEntry list result" where
  "transformInsertStmt_returning env ps returningList' =
     (if returningList' = [] then Inr ([], ps)
      else
        (case p_target_rangetblentry ps of
           None \<Rightarrow> Inl (Trap ''p_target_rangetblentry'')
         | Some target_rte \<Rightarrow>
             transformReturningList env
               (addRTEtoQuery (ps\<lparr>p_namespace := []\<rparr>) target_rte False True True)
               returningList'))"

text \<open>The parse state of the \<open>INSERT\<close> once its range table and namespace have been put
  aside for the source, when that is a general \<open>SELECT\<close>.\<close>

definition pass_down :: "InsertStmt \<Rightarrow> ParseState \<Rightarrow> ParseState" where
  "pass_down stmt ps =
     (if isGeneralSelect stmt then ps\<lparr>p_rtable := [], p_namespace := []\<rparr> else ps)"

text \<open>\<open>transformInsertStmt\<close>.  \<open>SetSendCommandId\<close> sets a flag of the process and has no
  counterpart here.\<close>

definition transformInsertStmt :: "env \<Rightarrow> ParseState \<Rightarrow> InsertStmt \<Rightarrow> Query result" where
  "transformInsertStmt env ps0 stmt =
     rbind (transformSelectStmt_withClause env (ps0\<lparr>p_is_insert := True\<rparr>)
              (makeNode_QueryFields\<lparr>commandType := CMD_INSERT\<rparr>) (ins_withClause stmt))
       (\<lambda>qry1 ps1.
     let sub_rtable = (if isGeneralSelect stmt then p_rtable ps1 else []);
         sub_namespace = (if isGeneralSelect stmt then p_namespace ps1 else []);
         ps2 = pass_down stmt ps1
     in rbind (setTargetTable env ps2 (ins_relation stmt) False False ACL_INSERT)
          (\<lambda>resultRelation' ps3.
        let ps4 = (if ADB env \<and> p_grammar ps3 = PARSE_GRAM_ORACLE
                   then addRTEtoQuery ps3 resultRelation' False True True else ps3)
        in rbind (checkInsertTargets env ps4 (ins_cols stmt)) (\<lambda>(icolumns, attrnos) ps5.
           rbind (transformInsertStmt_exprList env ps5 stmt sub_rtable sub_namespace
                    resultRelation' icolumns attrnos) (\<lambda>(exprList, save_cmd_id) ps6.
           rbind (transformInsertStmt_targets env ps6 (p_target_rangetblentry ps6) exprList
                    icolumns attrnos) (\<lambda>targetList' ps7.
           rbind (transformInsertStmt_returning env ps7 (ins_returningList stmt))
             (\<lambda>returningList' ps8.
           let qry = Query
                 (qry1\<lparr>resultRelation := resultRelation', has_to_save_cmd_id := save_cmd_id,
                       targetList := targetList', returningList := returningList',
                       jointree := Some (makeFromExpr (p_joinlist ps8) None),
                       hasSubLinks := p_hasSubLinks ps8\<rparr>)
                 (p_rtable ps8)
           in rbind (assign_query_collations env ps8 qry) (\<lambda>u ps9. Inr (qry, ps9))))))))"

text \<open>Examples: \<open>INSERT INTO t (a) SELECT a FROM t WHERE x > 0\<close>, the same with an
  \<open>INTO\<close> clause in the source, which no \<open>SELECT\<close> in this place may have, and an
  environment in which the target relation does not exist.\<close>

definition example_insert :: "SelectStmtFields \<Rightarrow> InsertStmt" where
  "example_insert f =
     \<lparr>ins_relation = \<lparr>catalogname = None, schemaname = None, relname = ''t'', inhOpt = 0,
                       rv_location = - 1\<rparr>,
      ins_cols = [\<lparr>name = Some ''a'', indirection = [], val = None, rt_location = - 1\<rparr>],
      ins_selectStmt = Some (SelectStmt f None),
      ins_returningList = [], ins_withClause = None\<rparr>"

definition env_without_target :: env where
  "env_without_target =
     plain_env\<lparr>ext_setTargetTable :=
       (\<lambda>ps relation inh' alsoSource perms.
          Inl (Error ERRCODE_UNDEFINED_TABLE ''relation does not exist''))\<rparr>"

text \<open>Example: two text constants of collation 100, for
  \<open>INSERT INTO t (a) VALUES ('x'), ('y')\<close>.\<close>

definition example_text :: "64 word \<Rightarrow> Node" where
  "example_text v =
     T_Const \<lparr>consttype = 25, consttypmod = - 1, constcollid = 100, constlen = - 1,
              constvalue = v, constisnull = False, constbyval = False, const_location = - 1\<rparr>"

section \<open>Properties\<close>

subsection \<open>Merging locking clauses\<close>

lemma rowmark_position_bound:
  "rowmark_position rcs i = Some k \<Longrightarrow> k < length rcs \<and> rti (rcs ! k) = i"
  by (induction rcs arbitrary: k) (auto split: if_splits)

lemma rowmark_position_update:
  "rowmark_position rcs i = Some k \<Longrightarrow> rti rc' = i \<Longrightarrow>
   rowmark_position (rcs[k := rc']) i = Some k"
  by (induction rcs arbitrary: k) (auto split: if_splits)

lemma rowmark_position_append_None:
  "rowmark_position rcs i = None \<Longrightarrow>
   rowmark_position (rcs @ [rc]) i = (if rti rc = i then Some (length rcs) else None)"
  by (induction rcs) (auto split: if_splits)

lemma Max_strength_int:
  "LockClauseStrength_int (Max_strength x y) =
     max (LockClauseStrength_int x) (LockClauseStrength_int y)"
  by (simp add: Max_strength_def)

lemma LockClauseStrength_int_inj:
  "LockClauseStrength_int x = LockClauseStrength_int y \<Longrightarrow> x = y"
  by (cases x; cases y) simp_all

lemma Max_strength_commute: "Max_strength x y = Max_strength y x"
  by (rule LockClauseStrength_int_inj) (simp add: Max_strength_int max.commute)

lemma Max_strength_assoc:
  "Max_strength (Max_strength x y) z = Max_strength x (Max_strength y z)"
  by (rule LockClauseStrength_int_inj) (simp add: Max_strength_int max.assoc)

lemma applyLockingClause_form:
  "applyLockingClause qry i s nw pd =
     Query ((qf qry)\<lparr>hasForUpdate := (hasForUpdate (qf qry) \<or> \<not> pd),
               rowMarks := rowMarks_after (rowMarks (qf qry)) i s nw pd\<rparr>) (rtable qry)"
  by (cases pd)
    (simp_all add: applyLockingClause_def get_parse_rowmark_def Let_def rowMarks_after_def
      merged_rowmark_def split: option.splits)

lemma merged_rowmark_twice:
  "merged_rowmark (merged_rowmark rc s1 nw1 pd1) s2 nw2 pd2 =
     merged_rowmark rc (Max_strength s1 s2) (nw1 \<or> nw2) (pd1 \<and> pd2)"
  by (simp add: merged_rowmark_def Max_strength_assoc)

lemma merged_rowmark_new:
  "merged_rowmark \<lparr>rti = i, strength = s1, noWait = nw1, pushedDown = pd1\<rparr> s2 nw2 pd2 =
     \<lparr>rti = i, strength = Max_strength s1 s2, noWait = (nw1 \<or> nw2), pushedDown = (pd1 \<and> pd2)\<rparr>"
  by (simp add: merged_rowmark_def)

lemma rowMarks_after_twice:
  "rowMarks_after (rowMarks_after rcs i s1 nw1 pd1) i s2 nw2 pd2 =
     rowMarks_after rcs i (Max_strength s1 s2) (nw1 \<or> nw2) (pd1 \<and> pd2)"
proof (cases "rowmark_position rcs i")
  case None
  show ?thesis
    by (simp add: rowMarks_after_def None rowmark_position_append_None [OF None]
        merged_rowmark_new)
next
  case (Some k)
  note b = rowmark_position_bound [OF Some]
  have r: "rti (merged_rowmark (rcs ! k) s1 nw1 pd1) = i"
    using b by (simp add: merged_rowmark_def)
  show ?thesis
    using b
    by (simp add: rowMarks_after_def Some rowmark_position_update [OF Some r]
        merged_rowmark_twice)
qed

lemma applyLockingClause_twice:
  "applyLockingClause (applyLockingClause qry i s1 nw1 pd1) i s2 nw2 pd2 =
     applyLockingClause qry i (Max_strength s1 s2) (nw1 \<or> nw2) (pd1 \<and> pd2)"
  by (simp add: applyLockingClause_form rowMarks_after_twice disj_ac)

lemma applyLockingClause_fresh:
  "rowMarks (qf (applyLockingClause
      (applyLockingClause (Query makeNode_QueryFields []) i s1 nw1 pd1) i s2 nw2 pd2)) =
   [\<lparr>rti = i, strength = Max_strength s1 s2, noWait = (nw1 \<or> nw2), pushedDown = (pd1 \<and> pd2)\<rparr>]"
  by (simp add: applyLockingClause_twice)
    (simp add: applyLockingClause_form rowMarks_after_def makeNode_QueryFields_def)

text \<open>
  C1.  \<open>applyLockingClause\<close> on an \<open>rtindex\<close> that already has a row-mark keeps that
  row-mark in place and merges into it: its strength becomes the maximum of the existing and
  the new strength, its \<open>noWait\<close> the disjunction and its \<open>pushedDown\<close> the conjunction of
  the two flags.  The merge is commutative (two clauses for the same \<open>rtindex\<close> may be
  applied in either order) and associative (applying two clauses one after the other is
  applying the one clause they merge into on a fresh query), and \<open>hasForUpdate\<close> is set
  whenever the applied clause is not pushed down.
\<close>

theorem applyLockingClause_merge:
  "(get_parse_rowmark qry rtindex = Some k \<longrightarrow>
      (let qry' = applyLockingClause qry rtindex s nw pd;
           rc = rowMarks (qf qry) ! k;
           rc' = rowMarks (qf qry') ! k
       in get_parse_rowmark qry' rtindex = Some k \<and>
          length (rowMarks (qf qry')) = length (rowMarks (qf qry)) \<and>
          rti rc' = rtindex \<and>
          LockClauseStrength_int (strength rc') =
            max (LockClauseStrength_int (strength rc)) (LockClauseStrength_int s) \<and>
          noWait rc' = (noWait rc \<or> nw) \<and>
          pushedDown rc' = (pushedDown rc \<and> pd))) \<and>
   applyLockingClause (applyLockingClause qry rtindex s1 nw1 pd1) rtindex s2 nw2 pd2 =
     applyLockingClause (applyLockingClause qry rtindex s2 nw2 pd2) rtindex s1 nw1 pd1 \<and>
   (let m = rowMarks (qf (applyLockingClause
              (applyLockingClause (Query makeNode_QueryFields []) rtindex s1 nw1 pd1)
              rtindex s2 nw2 pd2)) ! 0
    in applyLockingClause qry rtindex (strength m) (noWait m) (pushedDown m)) =
     applyLockingClause (applyLockingClause qry rtindex s1 nw1 pd1) rtindex s2 nw2 pd2 \<and>
   (\<not> pd \<longrightarrow> hasForUpdate (qf (applyLockingClause qry rtindex s nw pd)))"
proof (intro conjI impI)
  assume "get_parse_rowmark qry rtindex = Some k"
  then show "let qry' = applyLockingClause qry rtindex s nw pd;
           rc = rowMarks (qf qry) ! k;
           rc' = rowMarks (qf qry') ! k
       in get_parse_rowmark qry' rtindex = Some k \<and>
          length (rowMarks (qf qry')) = length (rowMarks (qf qry)) \<and>
          rti rc' = rtindex \<and>
          LockClauseStrength_int (strength rc') =
            max (LockClauseStrength_int (strength rc)) (LockClauseStrength_int s) \<and>
          noWait rc' = (noWait rc \<or> nw) \<and>
          pushedDown rc' = (pushedDown rc \<and> pd)"
    using rowmark_position_bound [of "rowMarks (qf qry)" rtindex k]
    by (simp add: get_parse_rowmark_def Let_def applyLockingClause_form rowMarks_after_def
        rowmark_position_update Max_strength_int merged_rowmark_def)
next
  show "applyLockingClause (applyLockingClause qry rtindex s1 nw1 pd1) rtindex s2 nw2 pd2 =
     applyLockingClause (applyLockingClause qry rtindex s2 nw2 pd2) rtindex s1 nw1 pd1"
    by (simp add: applyLockingClause_twice Max_strength_commute [of s1 s2]
        disj_commute [of nw1 nw2] conj_commute [of pd1 pd2])
next
  show "(let m = rowMarks (qf (applyLockingClause
              (applyLockingClause (Query makeNode_QueryFields []) rtindex s1 nw1 pd1)
              rtindex s2 nw2 pd2)) ! 0
    in applyLockingClause qry rtindex (strength m) (noWait m) (pushedDown m)) =
     applyLockingClause (applyLockingClause qry rtindex s1 nw1 pd1) rtindex s2 nw2 pd2"
    unfolding applyLockingClause_fresh Let_def by (simp add: applyLockingClause_twice)
next
  assume "\<not> pd"
  then show "hasForUpdate (qf (applyLockingClause qry rtindex s nw pd))"
    by (simp add: applyLockingClause_form)
qed

text \<open>The merge of the specification's scenario: the row-mark
  \<open>(rti = 3, FOR SHARE, noWait = false, pushedDown = true)\<close> and the clause
  \<open>(3, FOR UPDATE, noWait = true, pushedDown = false)\<close>.\<close>

theorem applyLockingClause_merge_witness:
  "(let qry = Query (makeNode_QueryFields\<lparr>rowMarks :=
        [\<lparr>rti = 3, strength = LCS_FORSHARE, noWait = False, pushedDown = True\<rparr>]\<rparr>) [];
        qry' = applyLockingClause qry 3 LCS_FORUPDATE True False;
        rc' = rowMarks (qf qry') ! 0
    in get_parse_rowmark qry 3 = Some 0 \<and>
       get_parse_rowmark qry' 3 = Some 0 \<and>
       length (rowMarks (qf qry')) = 1 \<and>
       LockClauseStrength_int (strength rc') = 3 \<and>
       noWait rc' \<and> \<not> pushedDown rc' \<and> hasForUpdate (qf qry'))"
proof -
  let ?qry = "Query (makeNode_QueryFields\<lparr>rowMarks :=
        [\<lparr>rti = 3, strength = LCS_FORSHARE, noWait = False, pushedDown = True\<rparr>]\<rparr>) []"
  have h: "get_parse_rowmark ?qry 3 = Some 0"
    by (simp add: get_parse_rowmark_def)
  show ?thesis
    using h applyLockingClause_merge [of ?qry 3 0 LCS_FORUPDATE True False]
    by (simp add: Let_def)
qed

subsection \<open>The typmod of a set-operation column\<close>

lemma rbind_Inr: "rbind r f = Inr y \<longleftrightarrow> (\<exists>x ps. r = Inr (x, ps) \<and> f x ps = Inr y)"
  by (auto simp: rbind_def split: sum.splits)

lemma transformSetOperationTree_columns_typmods:
  "transformSetOperationTree_columns env context ps ltl rtl opr tlist =
     Inr ((opr', tlist'), ps') \<Longrightarrow>
   colTypmods opr' = colTypmods opr @
     map (\<lambda>(l, r). if ext_exprType env (expr (fst l)) = ext_exprType env (expr (fst r)) \<and>
                       ext_exprTypmod env (expr (fst l)) = ext_exprTypmod env (expr (fst r))
                    then ext_exprTypmod env (expr (fst l)) else - 1) (zip ltl rtl)"
proof (induction ltl arbitrary: rtl ps opr tlist)
  case Nil
  then show ?case by simp
next
  case (Cons a ltl)
  show ?case
  proof (cases rtl)
    case Nil
    with Cons.prems show ?thesis by simp
  next
    case (Cons b rtl')
    obtain ltle lplace where a: "a = (ltle, lplace)" by (cases a)
    obtain rtle rplace where b: "b = (rtle, rplace)" by (cases b)
    from Cons.prems obtain ps5 opr5 tlist5 where
      rec: "transformSetOperationTree_columns env context ps5 ltl rtl' opr5 tlist5 =
              Inr ((opr', tlist'), ps')"
      and o5: "colTypmods opr5 = colTypmods opr @
                 [if ext_exprType env (expr ltle) = ext_exprType env (expr rtle) \<and>
                     ext_exprTypmod env (expr ltle) = ext_exprTypmod env (expr rtle)
                  then ext_exprTypmod env (expr ltle) else - 1]"
      unfolding Cons a b
      by (simp add: Let_def rbind_Inr split: prod.splits)
         (elim exE conjE, erule meta_allE, erule meta_allE, erule meta_allE, erule meta_impE,
           assumption, simp)
    from Cons.IH [OF rec] o5 show ?thesis
      by (simp add: Cons a b)
  qed
qed

lemma transformSetOperationTree_leaf_node:
  "transformSetOperationTree_leaf env ps stmt =
     Inr ((SO_SetOperationStmt opr l r, tlist), ps') \<Longrightarrow> False"
  by (auto simp: transformSetOperationTree_leaf_def rbind_Inr Let_def
      split: if_splits prod.splits)

text \<open>
  C6, as the code has it.  For each output column of an internal set-operation node, the
  resulting column typmod is the left column's typmod when the left and the right column have
  the same type and the same typmod, and \<open>-1\<close> otherwise.  The columns are those the two
  children hand upward.
\<close>

theorem transformSetOperationTree_typmod:
  assumes "transformSetOperationTree env ps (SelectStmt f (Some (op', all', larg, rarg)))
             isTopLevel = Inr ((SO_SetOperationStmt opr larg' rarg', tlist), ps')"
  shows "\<exists>ps1 ps2 ps3 ltl rtl.
     transformSetOperationTree env ps larg False = Inr ((larg', ltl), ps1) \<and>
     transformSetOperationTree env ps2 rarg False = Inr ((rarg', rtl), ps3) \<and>
     length ltl = length rtl \<and>
     colTypmods opr =
       map (\<lambda>(l, r). if ext_exprType env (expr (fst l)) = ext_exprType env (expr (fst r)) \<and>
                         ext_exprTypmod env (expr (fst l)) = ext_exprTypmod env (expr (fst r))
                      then ext_exprTypmod env (expr (fst l)) else - 1) (zip ltl rtl)"
proof -
  let ?ctx = "(if op' = SETOP_UNION then ''UNION''
                   else if op' = SETOP_INTERSECT then ''INTERSECT'' else ''EXCEPT'')"
  from assms obtain ltl ps1 ps2 rtl ps3 where
    l: "transformSetOperationTree env ps larg False = Inr ((larg', ltl), ps1)"
    and r: "transformSetOperationTree env ps2 rarg False = Inr ((rarg', rtl), ps3)"
    and len: "length ltl = length rtl"
    and cols: "transformSetOperationTree_columns env ?ctx ps3 ltl rtl
                 \<lparr>so_op = op', so_all = all', colTypes = [], colTypmods = [],
                  colCollations = [], groupClauses = []\<rparr> [] = Inr ((opr, tlist), ps')"
    by (simp add: Let_def rbind_Inr split: if_splits prod.splits)
       (use transformSetOperationTree_leaf_node in blast)+
  from transformSetOperationTree_columns_typmods [OF cols] l r len show ?thesis
    by auto
qed

lemmas example_setop_defs =
  example_union_all_def example_leaf_def example_Var_def makeNode_SelectStmtFields_def
  plain_env_def plain_pstate_def transformSetOperationTree_leaf_def parse_sub_analyze_def
  logged_def rbind_def Let_def addRangeTableEntryForSubquery_def makeRangeTblEntryFields_def
  makeNode_QueryFields_def makeTargetEntry_def setop_coerce_child_def UNKNOWNOID_def

text \<open>Two \<open>varchar(10)\<close> columns (type 1043, typmod 14): the typmod is kept.\<close>

theorem transformSetOperationTree_typmod_witness:
  "\<exists>opr l r tlist ps'.
     transformSetOperationTree plain_env plain_pstate
       (example_union_all (example_Var 1043 14) (example_Var 1043 14)) True =
       Inr ((SO_SetOperationStmt opr l r, tlist), ps') \<and>
     colTypmods opr = [14] \<and>
     (\<exists>ps1 ps2 ps3 ltl rtl.
        transformSetOperationTree plain_env plain_pstate (example_leaf (example_Var 1043 14))
          False = Inr ((l, ltl), ps1) \<and>
        transformSetOperationTree plain_env ps2 (example_leaf (example_Var 1043 14)) False =
          Inr ((r, rtl), ps3) \<and>
        length ltl = length rtl \<and>
        colTypmods opr =
          map (\<lambda>(l, r).
                 if ext_exprType plain_env (expr (fst l)) = ext_exprType plain_env (expr (fst r)) \<and>
                    ext_exprTypmod plain_env (expr (fst l)) =
                    ext_exprTypmod plain_env (expr (fst r))
                 then ext_exprTypmod plain_env (expr (fst l)) else - 1) (zip ltl rtl))"
proof -
  have "\<exists>opr l r tlist ps'.
     transformSetOperationTree plain_env plain_pstate
       (example_union_all (example_Var 1043 14) (example_Var 1043 14)) True =
       Inr ((SO_SetOperationStmt opr l r, tlist), ps') \<and> colTypmods opr = [14]"
    by (simp add: example_setop_defs)
  then obtain opr l r tlist ps' where
    h: "transformSetOperationTree plain_env plain_pstate
       (example_union_all (example_Var 1043 14) (example_Var 1043 14)) True =
       Inr ((SO_SetOperationStmt opr l r, tlist), ps')"
    and t: "colTypmods opr = [14]"
    by blast
  from transformSetOperationTree_typmod [OF h [unfolded example_union_all_def]] h t
  show ?thesis
    by blast
qed

text \<open>The claim as it was stated fails where the typmods are equal and the types differ:
  a \<open>varchar(10)\<close> column (type 1043) and a \<open>char(10)\<close> column (type 1042), both of
  typmod 14, give the typmod \<open>-1\<close>, not 14.\<close>

theorem transformSetOperationTree_typmod_counterexample:
  "(case transformSetOperationTree plain_env plain_pstate
           (example_union_all (example_Var 1043 14) (example_Var 1042 14)) True of
      Inr ((SO_SetOperationStmt opr l r, tlist), ps') \<Rightarrow>
        ext_exprTypmod plain_env (example_Var 1043 14) = 14 \<and>
        ext_exprTypmod plain_env (example_Var 1042 14) = 14 \<and>
        colTypmods opr = [- 1]
    | _ \<Rightarrow> False)"
  by (simp add: example_setop_defs)

subsection \<open>The range table during the resolution of \<open>ORDER BY\<close> of a set operation\<close>

lemma logged_Inr:
  "logged ps ev r = Inr (x, ps') \<longleftrightarrow>
     (\<exists>ps0. r = Inr (x, ps0) \<and> ps' = ps0\<lparr>p_trace := p_trace ps @ [ev]\<rparr>)"
  by (auto simp: logged_def split: sum.splits)

text \<open>
  C8.  During the resolution of \<open>ORDER BY\<close> of a set operation the join entry that was
  pushed on the range table is removed again: when the resolution returns, the range table is
  as long as it was before the entry was pushed, and the namespace is the saved one.  The
  sort-clause transformer is a collaborator; what is asked of it is that it never shortens
  the range table.
\<close>

theorem transformSetOperationStmt_sortClause_restores:
  assumes mono: "\<And>ps0 ol tl k ru sq r ps1.
            ext_transformSortClause env ps0 ol tl k ru sq = Inr (r, ps1) \<Longrightarrow>
            length (p_rtable ps0) \<le> length (p_rtable ps1)"
    and run: "transformSetOperationStmt_sortClause env ps targetnames targetvars sortClause'
                targetList' = Inr (r, ps')"
  shows "length (p_rtable ps') = length (p_rtable ps) \<and> p_namespace ps' = p_namespace ps"
proof -
  from run obtain ps3 sc tl ps4 where
    s: "ext_transformSortClause env ps3 sortClause' targetList' EXPR_KIND_ORDER_BY False False =
          Inr ((sc, tl), ps4)"
    and l3: "length (p_rtable ps3) = length (p_rtable ps) + 1"
    and r: "p_rtable ps' = list_truncate (p_rtable ps4) (length (p_rtable ps))"
    and n: "p_namespace ps' = p_namespace ps"
    by (auto simp: transformSetOperationStmt_sortClause_def Let_def rbind_Inr
        addRangeTableEntryForJoin_def transformSortClause_def logged_Inr addRTEtoQuery_def
        split: prod.splits if_splits)
  from mono [OF s] l3 have "length (p_rtable ps) \<le> length (p_rtable ps4)"
    by simp
  with r n show ?thesis
    by (simp add: list_truncate_def)
qed

theorem transformSetOperationStmt_sortClause_restores_witness:
  "\<exists>r ps'.
     transformSetOperationStmt_sortClause plain_env example_setop_pstate [''c'']
       [example_Var 23 (- 1)] [] [makeTargetEntry (example_Var 23 (- 1)) 1 (Some ''c'') False] =
       Inr (r, ps') \<and>
     length (p_rtable ps') = 1 \<and> p_namespace ps' = p_namespace example_setop_pstate"
proof -
  have m: "\<And>ps0 ol tl k ru sq r ps1.
            ext_transformSortClause plain_env ps0 ol tl k ru sq = Inr (r, ps1) \<Longrightarrow>
            length (p_rtable ps0) \<le> length (p_rtable ps1)"
    by (auto simp: plain_env_def)
  have "\<exists>r ps'.
     transformSetOperationStmt_sortClause plain_env example_setop_pstate [''c'']
       [example_Var 23 (- 1)] [] [makeTargetEntry (example_Var 23 (- 1)) 1 (Some ''c'') False] =
       Inr (r, ps')"
    by (simp add: transformSetOperationStmt_sortClause_def Let_def rbind_def
        addRangeTableEntryForJoin_def transformSortClause_def logged_def addRTEtoQuery_def
        plain_env_def)
  then obtain r ps' where
    h: "transformSetOperationStmt_sortClause plain_env example_setop_pstate [''c'']
       [example_Var 23 (- 1)] [] [makeTargetEntry (example_Var 23 (- 1)) 1 (Some ''c'') False] =
       Inr (r, ps')"
    by blast
  from transformSetOperationStmt_sortClause_restores [OF m h] h show ?thesis
    by (auto simp: example_setop_pstate_def)
qed

subsection \<open>\<open>ROWNUM <= k\<close> with \<open>k \<le> 0\<close>\<close>









subsection \<open>\<open>DEFAULT\<close> in a stand-alone \<open>VALUES\<close>\<close>

lemma transformValuesClause_rows_append:
  "transformValuesClause_rows env ps (pre @ rest) sl ce =
     rbind (transformValuesClause_rows env ps pre sl ce)
       (\<lambda>(n, cols) ps1. transformValuesClause_rows env ps1 rest n cols)"
proof (induction pre arbitrary: ps sl ce)
  case Nil
  show ?case by (simp add: rbind_def)
next
  case (Cons row pre)
  show ?case
    by (simp add: Cons.IH rbind_def split: sum.splits prod.splits)
qed

lemma transformValuesClause_rows_DEFAULT:
  assumes keep: "\<And>ps l k r ps1. ext_transformExpressionList env ps l k = Inr (r, ps1) \<Longrightarrow>
            list_ex is_SetToDefault l \<Longrightarrow> list_ex is_SetToDefault r"
  shows "list_ex (list_ex is_SetToDefault) rows \<Longrightarrow>
         transformValuesClause_rows env ps rows sl ce = Inr x \<Longrightarrow> False"
proof (induction rows arbitrary: ps sl ce)
  case Nil
  then show ?case by simp
next
  case (Cons row rows)
  from Cons.prems(2) obtain row' ps0 where
    t: "ext_transformExpressionList env ps row EXPR_KIND_VALUES = Inr (row', ps0)"
    and nd: "\<not> list_ex is_SetToDefault row'"
    and rec: "transformValuesClause_rows env
           (ps0\<lparr>p_trace := p_trace ps @ [Call ''transformExpressionList'' []]\<rparr>) rows
           (int (length row'))
           (map (\<lambda>(colexpr, col). colexpr @ [col])
              (zip (if sl < 0 then replicate (length row') [] else ce) row')) = Inr x"
    by (auto simp: rbind_Inr transformExpressionList_def logged_Inr split: if_splits)
  show ?case
  proof (cases "list_ex is_SetToDefault row")
    case True
    with keep [OF t] nd show ?thesis by simp
  next
    case False
    with Cons.prems(1) have "list_ex (list_ex is_SetToDefault) rows" by simp
    from Cons.IH [OF this rec] show ?thesis .
  qed
qed

text \<open>
  C10, as the code has it.  A stand-alone \<open>VALUES\<close> with a \<open>DEFAULT\<close> item in some row is
  never accepted: the analysis fails.  (The expression transformer hands a \<open>DEFAULT\<close> item
  on.)  Which error it is follows the order of the code.  An error of the \<open>WITH\<close> clause
  is the error of the statement.  Otherwise, for a row of the statement: an error of the rows
  before it is the error of the statement; when they pass, an error of the transformation of
  the row is; when the row is transformed and its length is not that of the rows before, the
  error is \<open>SYNTAX_ERROR\<close>, "VALUES lists must all be the same length"; and when the length
  is that of the rows before, or the row is the first, and the transformed row has a
  \<open>DEFAULT\<close> item, the error is \<open>SYNTAX_ERROR\<close>, "DEFAULT can only appear in a VALUES
  list within INSERT".
\<close>

theorem transformValuesClause_DEFAULT:
  assumes keep: "\<And>ps l k r ps1. ext_transformExpressionList env ps l k = Inr (r, ps1) \<Longrightarrow>
            list_ex is_SetToDefault l \<Longrightarrow> list_ex is_SetToDefault r"
    and d: "list_ex (list_ex is_SetToDefault) (sel_valuesLists f)"
  shows "(\<exists>e. transformValuesClause env ps f = Inl e) \<and>
         (\<forall>e. transformSelectStmt_withClause env ps
                (makeNode_QueryFields\<lparr>commandType := CMD_SELECT\<rparr>) (sel_withClause f) = Inl e \<longrightarrow>
              transformValuesClause env ps f = Inl e) \<and>
         (\<forall>qry1 ps0 pre row post.
            transformSelectStmt_withClause env ps
              (makeNode_QueryFields\<lparr>commandType := CMD_SELECT\<rparr>) (sel_withClause f) =
              Inr (qry1, ps0) \<and>
            sel_valuesLists f = pre @ row # post \<longrightarrow>
            (case transformValuesClause_rows env ps0 pre (- 1) [] of
               Inl e \<Rightarrow> transformValuesClause env ps f = Inl e
             | Inr ((n, cols), ps1) \<Rightarrow>
                 (case transformExpressionList env ps1 row EXPR_KIND_VALUES of
                    Inl e \<Rightarrow> transformValuesClause env ps f = Inl e
                  | Inr (row', ps2) \<Rightarrow>
                      if 0 \<le> n \<and> n \<noteq> int (length row')
                      then transformValuesClause env ps f =
                             Inl (Error ERRCODE_SYNTAX_ERROR
                                    ''VALUES lists must all be the same length'')
                      else if list_ex is_SetToDefault row'
                      then transformValuesClause env ps f =
                             Inl (Error ERRCODE_SYNTAX_ERROR
                                    ''DEFAULT can only appear in a VALUES list within INSERT'')
                      else True)))"
proof (intro conjI allI impI)
  show "\<exists>e. transformValuesClause env ps f = Inl e"
  proof (cases "transformValuesClause env ps f")
    case (Inl e)
    then show ?thesis by blast
  next
    case (Inr x)
    then obtain ps1 y where
      "transformValuesClause_rows env ps1 (sel_valuesLists f) (- 1) [] = Inr y"
      by (auto simp: transformValuesClause_def Let_def rbind_Inr)
    from transformValuesClause_rows_DEFAULT [OF keep d this] show ?thesis ..
  qed
next
  fix e
  assume "transformSelectStmt_withClause env ps
            (makeNode_QueryFields\<lparr>commandType := CMD_SELECT\<rparr>) (sel_withClause f) = Inl e"
  then show "transformValuesClause env ps f = Inl e"
    by (simp add: transformValuesClause_def rbind_def)
next
  fix qry1 ps0 pre row post
  assume a: "transformSelectStmt_withClause env ps
              (makeNode_QueryFields\<lparr>commandType := CMD_SELECT\<rparr>) (sel_withClause f) =
              Inr (qry1, ps0) \<and>
            sel_valuesLists f = pre @ row # post"
  let ?r = "transformValuesClause_rows env ps0 (sel_valuesLists f) (- 1) []"
  have r: "\<And>e. ?r = Inl e \<Longrightarrow> transformValuesClause env ps f = Inl e"
    using a by (simp add: transformValuesClause_def rbind_def)
  from a have s: "?r =
      rbind (transformValuesClause_rows env ps0 pre (- 1) [])
        (\<lambda>(n, cols) ps1. transformValuesClause_rows env ps1 (row # post) n cols)"
    by (simp add: transformValuesClause_rows_append)
  show "case transformValuesClause_rows env ps0 pre (- 1) [] of
               Inl e \<Rightarrow> transformValuesClause env ps f = Inl e
             | Inr ((n, cols), ps1) \<Rightarrow>
                 (case transformExpressionList env ps1 row EXPR_KIND_VALUES of
                    Inl e \<Rightarrow> transformValuesClause env ps f = Inl e
                  | Inr (row', ps2) \<Rightarrow>
                      if 0 \<le> n \<and> n \<noteq> int (length row')
                      then transformValuesClause env ps f =
                             Inl (Error ERRCODE_SYNTAX_ERROR
                                    ''VALUES lists must all be the same length'')
                      else if list_ex is_SetToDefault row'
                      then transformValuesClause env ps f =
                             Inl (Error ERRCODE_SYNTAX_ERROR
                                    ''DEFAULT can only appear in a VALUES list within INSERT'')
                      else True)"
  proof (cases "transformValuesClause_rows env ps0 pre (- 1) []")
    case (Inl e)
    with s have "?r = Inl e" by (simp add: rbind_def)
    from r [OF this] Inl show ?thesis by simp
  next
    case (Inr x)
    obtain n cols ps1 where x: "x = ((n, cols), ps1)" by (cases x) auto
    show ?thesis
    proof (cases "transformExpressionList env ps1 row EXPR_KIND_VALUES")
      case (Inl e)
      with s Inr x have "?r = Inl e" by (simp add: rbind_def)
      from r [OF this] Inr x Inl show ?thesis by simp
    next
      case t: (Inr y)
      obtain row' ps2 where y: "y = (row', ps2)" by (cases y) auto
      show ?thesis
      proof (cases "0 \<le> n \<and> n \<noteq> int (length row')")
        case True
        with s Inr x t y have "?r = Inl (Error ERRCODE_SYNTAX_ERROR
            ''VALUES lists must all be the same length'')"
          by (simp add: rbind_def)
        from r [OF this] Inr x t y True show ?thesis by simp
      next
        case False
        show ?thesis
        proof (cases "list_ex is_SetToDefault row'")
          case True
          with s Inr x t y False have "?r = Inl (Error ERRCODE_SYNTAX_ERROR
              ''DEFAULT can only appear in a VALUES list within INSERT'')"
            by (simp add: rbind_def)
          from r [OF this] Inr x t y False True show ?thesis by simp
        next
          case nd: False
          with Inr x t y False show ?thesis by auto
        qed
      qed
    qed
  qed
qed

text \<open>\<open>WITH ... VALUES (1, DEFAULT)\<close>, with a \<open>WITH\<close> clause that is transformed without
  error: the error is that of the \<open>DEFAULT\<close> item.\<close>

theorem transformValuesClause_DEFAULT_witness:
  "transformValuesClause plain_env plain_pstate
     ((example_values [[example_int4 1, example_DEFAULT]])
        \<lparr>sel_withClause := Some \<lparr>ctes = [], recursive = False\<rparr>\<rparr>) =
     Inl (Error ERRCODE_SYNTAX_ERROR ''DEFAULT can only appear in a VALUES list within INSERT'')"
proof -
  let ?f = "(example_values [[example_int4 1, example_DEFAULT]])
              \<lparr>sel_withClause := Some \<lparr>ctes = [], recursive = False\<rparr>\<rparr>"
  let ?row = "[example_int4 1, example_DEFAULT]"
  have k: "\<And>ps l k r ps1. ext_transformExpressionList plain_env ps l k = Inr (r, ps1) \<Longrightarrow>
            list_ex is_SetToDefault l \<Longrightarrow> list_ex is_SetToDefault r"
    by (auto simp: plain_env_def)
  have d: "list_ex (list_ex is_SetToDefault) (sel_valuesLists ?f)"
    by (simp add: example_values_def example_DEFAULT_def is_SetToDefault_def
        makeNode_SelectStmtFields_def)
  have w: "\<exists>qry1 ps0.
        transformSelectStmt_withClause plain_env plain_pstate
          (makeNode_QueryFields\<lparr>commandType := CMD_SELECT\<rparr>) (sel_withClause ?f) =
          Inr (qry1, ps0) \<and>
        transformExpressionList plain_env ps0 ?row EXPR_KIND_VALUES =
          Inr (?row, ps0\<lparr>p_trace := p_trace ps0 @ [Call ''transformExpressionList'' []]\<rparr>)"
    by (simp add: transformSelectStmt_withClause_def transformWithClause_def
        transformExpressionList_def logged_def rbind_def plain_env_def)
  then obtain qry1 ps0 where
    w1: "transformSelectStmt_withClause plain_env plain_pstate
          (makeNode_QueryFields\<lparr>commandType := CMD_SELECT\<rparr>) (sel_withClause ?f) =
          Inr (qry1, ps0)"
    and w2: "transformExpressionList plain_env ps0 ?row EXPR_KIND_VALUES =
          Inr (?row, ps0\<lparr>p_trace := p_trace ps0 @ [Call ''transformExpressionList'' []]\<rparr>)"
    by auto
  have v: "sel_valuesLists ?f = [] @ ?row # []"
    by (simp add: example_values_def makeNode_SelectStmtFields_def)
  let ?t = "transformValuesClause plain_env plain_pstate ?f"
  let ?w = "transformSelectStmt_withClause plain_env plain_pstate
              (makeNode_QueryFields\<lparr>commandType := CMD_SELECT\<rparr>) (sel_withClause ?f)"
  have inst: "(\<exists>e. ?t = Inl e) \<and>
         (\<forall>e. ?w = Inl e \<longrightarrow> ?t = Inl e) \<and>
         (\<forall>qry1 ps0 pre row post.
            ?w = Inr (qry1, ps0) \<and> sel_valuesLists ?f = pre @ row # post \<longrightarrow>
            (case transformValuesClause_rows plain_env ps0 pre (- 1) [] of
               Inl e \<Rightarrow> ?t = Inl e
             | Inr ((n, cols), ps1) \<Rightarrow>
                 (case transformExpressionList plain_env ps1 row EXPR_KIND_VALUES of
                    Inl e \<Rightarrow> ?t = Inl e
                  | Inr (row', ps2) \<Rightarrow>
                      if 0 \<le> n \<and> n \<noteq> int (length row')
                      then ?t = Inl (Error ERRCODE_SYNTAX_ERROR
                                    ''VALUES lists must all be the same length'')
                      else if list_ex is_SetToDefault row'
                      then ?t = Inl (Error ERRCODE_SYNTAX_ERROR
                                    ''DEFAULT can only appear in a VALUES list within INSERT'')
                      else True)))"
    by (rule transformValuesClause_DEFAULT) (rule k, assumption, assumption, rule d)
  from inst [THEN conjunct2, THEN conjunct2, rule_format, OF conjI [OF w1 v]] w2
  show ?thesis
    by (simp add: example_DEFAULT_def is_SetToDefault_def)
qed

text \<open>The claim as it was stated fails on \<open>VALUES (1), (DEFAULT, 2)\<close>: the second row has a
  \<open>DEFAULT\<close> item, and the error is that of the length check, which comes first.\<close>

theorem transformValuesClause_DEFAULT_counterexample:
  "list_ex (list_ex is_SetToDefault)
     (sel_valuesLists (example_values [[example_int4 1], [example_DEFAULT, example_int4 2]])) \<and>
   transformValuesClause plain_env plain_pstate
     (example_values [[example_int4 1], [example_DEFAULT, example_int4 2]]) =
     Inl (Error ERRCODE_SYNTAX_ERROR ''VALUES lists must all be the same length'')"
  by (simp add: example_values_def example_DEFAULT_def example_int4_def is_SetToDefault_def
      makeNode_SelectStmtFields_def transformValuesClause_def transformExpressionList_def
      transformSelectStmt_withClause_def logged_def rbind_def plain_env_def plain_pstate_def
      Let_def)

subsection \<open>The target list of an \<open>UPDATE\<close>\<close>

lemma transformUpdateStmt_targets_shape:
  "transformUpdateStmt_targets env ps rel rte tles orig = Inr ((out, rest), ps') \<Longrightarrow>
     \<exists>used. orig = used @ rest \<and>
       map resjunk out = map resjunk tles \<and>
       map resno (filter (\<lambda>t. \<not> resjunk t) out) =
         map (\<lambda>rt. ext_attnameAttNum env rel (name rt) True) used \<and>
       (\<forall>rt \<in> set used. ext_attnameAttNum env rel (name rt) True \<noteq> InvalidAttrNumber)"
proof (induction tles arbitrary: ps orig out rest ps')
  case Nil
  then show ?case by simp
next
  case (Cons tle tles)
  show ?case
  proof (cases "resjunk tle")
    case True
    with Cons.prems obtain out1 where
      r: "transformUpdateStmt_targets env (ps\<lparr>p_next_resno := p_next_resno ps + 1\<rparr>) rel rte
            tles orig = Inr ((out1, rest), ps')"
      and o: "out = tle\<lparr>resno := AttrNumber_cast (p_next_resno ps), resname := None\<rparr> # out1"
      by (auto simp: rbind_Inr)
    from Cons.IH [OF r] o True show ?thesis by auto
  next
    case False
    with Cons.prems obtain origTarget origRest where og: "orig = origTarget # origRest"
      by (cases orig) auto
    let ?a = "ext_attnameAttNum env rel (name origTarget) True"
    from Cons.prems False og have a: "?a \<noteq> InvalidAttrNumber"
      by (auto simp: Let_def split: if_splits)
    from Cons.prems False og a obtain tle' ps1 out1 rti' where
      u: "updateTargetListEntry env ps tle (name origTarget) ?a (indirection origTarget)
            (rt_location origTarget) = Inr (tle', ps1)"
      and r: "transformUpdateStmt_targets env
                (add_modifiedCol ps1 rti' (?a - FirstLowInvalidHeapAttributeNumber env))
                rel rte tles origRest = Inr ((out1, rest), ps')"
      and o: "out = tle' # out1"
      by (auto simp: rbind_Inr Let_def split: option.splits)
    from u False have t: "resno tle' = ?a" "\<not> resjunk tle'"
      by (auto simp: updateTargetListEntry_def rbind_Inr)
    from Cons.IH [OF r] obtain used where
      "origRest = used @ rest" "map resjunk out1 = map resjunk tles"
      "map resno (filter (\<lambda>t. \<not> resjunk t) out1) =
         map (\<lambda>rt. ext_attnameAttNum env rel (name rt) True) used"
      "\<forall>rt \<in> set used. ext_attnameAttNum env rel (name rt) True \<noteq> InvalidAttrNumber"
      by blast
    with og o t a False show ?thesis
      by (intro exI [of _ "origTarget # used"]) simp
  qed
qed

lemma transformUpdateStmt_assign_shape:
  assumes "transformUpdateStmt_assign env ps tles orig = Inr (out, ps')"
  shows "\<exists>rel. p_target_relation ps = Some rel \<and>
           map resjunk out = map resjunk tles \<and>
           map resno (filter (\<lambda>t. \<not> resjunk t) out) =
             map (\<lambda>rt. ext_attnameAttNum env rel (name rt) True) orig \<and>
           (\<forall>rt \<in> set orig. ext_attnameAttNum env rel (name rt) True \<noteq> InvalidAttrNumber)"
proof -
  from assms obtain rel where rel: "p_target_relation ps = Some rel"
    by (auto simp: transformUpdateStmt_assign_def split: option.splits)
  with assms obtain ps1 rte ps2 where
    "transformUpdateStmt_targets env ps1 rel rte tles orig = Inr ((out, []), ps2)"
    by (auto simp: transformUpdateStmt_assign_def Let_def rbind_Inr split: if_splits)
  from transformUpdateStmt_targets_shape [OF this] rel show ?thesis by auto
qed

text \<open>
  C4, as the code has it.  When the analysis of an \<open>UPDATE\<close> succeeds, the output target
  list has one entry for each entry that \<open>transformTargetList\<close> has returned, resjunk
  where that one was.  Its entries that are not resjunk are as many as the \<open>SET\<close> items of
  the statement, so the output target list is as long as the target list of the statement
  plus the resjunk entries.  The \<open>resno\<close> of the entries that are not resjunk are, in the
  order of the statement, the attribute numbers that \<open>attnameAttNum\<close> gives for the names
  of the \<open>SET\<close> items in the target relation of the parse state, none of them
  \<open>InvalidAttrNumber\<close>.
\<close>

theorem transformUpdateStmt_targetList:
  assumes "transformUpdateStmt env ps stmt = Inr (qry, ps')"
  shows "\<exists>qry2 ps8 rel.
           transformUpdateStmt_clauses env ps stmt = Inr (qry2, ps8) \<and>
           p_target_relation ps8 = Some rel \<and>
           map resjunk (targetList (qf qry)) = map resjunk (targetList qry2) \<and>
           length (targetList (qf qry)) =
             length (upd_targetList stmt) + length (filter resjunk (targetList qry2)) \<and>
           map resno (filter (\<lambda>t. \<not> resjunk t) (targetList (qf qry))) =
             map (\<lambda>rt. ext_attnameAttNum env rel (name rt) True) (upd_targetList stmt) \<and>
           \<not> list_ex (\<lambda>rt. ext_attnameAttNum env rel (name rt) True = InvalidAttrNumber)
               (upd_targetList stmt)"
proof -
  from assms obtain qry2 ps8 out ps10 where
    c: "transformUpdateStmt_clauses env ps stmt = Inr (qry2, ps8)"
    and a: "transformUpdateStmt_assign env ps8 (targetList qry2) (upd_targetList stmt) =
              Inr (out, ps10)"
    and q: "qry = Query (qry2\<lparr>targetList := out\<rparr>) (p_rtable ps10)"
    by (auto simp: transformUpdateStmt_def rbind_Inr Let_def)
  from q have o: "targetList (qf qry) = out" by simp
  from transformUpdateStmt_assign_shape [OF a] obtain rel where
    rel: "p_target_relation ps8 = Some rel"
    and j: "map resjunk out = map resjunk (targetList qry2)"
    and n: "map resno (filter (\<lambda>t. \<not> resjunk t) out) =
              map (\<lambda>rt. ext_attnameAttNum env rel (name rt) True) (upd_targetList stmt)"
    and v: "\<forall>rt \<in> set (upd_targetList stmt).
              ext_attnameAttNum env rel (name rt) True \<noteq> InvalidAttrNumber"
    by blast
  from n have l: "length (filter (\<lambda>t. \<not> resjunk t) out) = length (upd_targetList stmt)"
    by (metis length_map)
  have "length (filter resjunk out) = length (filter id (map resjunk out))"
    by (simp add: filter_map comp_def)
  also from j have "\<dots> = length (filter id (map resjunk (targetList qry2)))" by simp
  also have "\<dots> = length (filter resjunk (targetList qry2))"
    by (simp add: filter_map comp_def)
  finally have k: "length (filter resjunk out) = length (filter resjunk (targetList qry2))" .
  have "length out = length (filter (\<lambda>t. \<not> resjunk t) out) + length (filter resjunk out)"
    using sum_length_filter_compl [of resjunk out] by simp
  with l k have len: "length out =
      length (upd_targetList stmt) + length (filter resjunk (targetList qry2))"
    by simp
  from v have nv: "\<not> list_ex (\<lambda>rt. ext_attnameAttNum env rel (name rt) True = InvalidAttrNumber)
                (upd_targetList stmt)"
    by (auto simp: list_ex_iff)
  from c rel j len n nv o show ?thesis
    by (intro exI [of _ qry2] exI [of _ ps8] exI [of _ rel]) simp
qed

lemmas example_update_defs =
  transformUpdateStmt_def transformUpdateStmt_clauses_def transformUpdateStmt_withClause_def
  transformUpdateStmt_assign_def
  transformReturningList_def updateTargetListEntry_def add_modifiedCol_def set_lateral_def
  example_update_def plain_env_def plain_pstate_def plain_setTargetTable_def
  setTargetTable_def transformFromClause_def transformTargetList_def transformWhereClause_def
  assign_query_collations_def logged_def rbind_def Let_def addRTEtoQuery_def
  makeRangeTblEntryFields_def makeNode_QueryFields_def makeTargetEntry_def rt_fetch_def
  InvalidAttrNumber_def makeFromExpr_def env_with_resjunk_def AttrNumber_cast_def

text \<open>\<open>UPDATE t SET b = $1, a = $2\<close>: the entries get the numbers 2 and 1, which are the
  numbers of \<open>b\<close> and \<open>a\<close> in the relation.\<close>

theorem transformUpdateStmt_targetList_witness:
  "case transformUpdateStmt plain_env plain_pstate
          (example_update (T_Param 1 INT4OID) (T_Param 2 INT4OID)) of
     Inl e \<Rightarrow> False
   | Inr (qry, ps') \<Rightarrow>
       map resno (filter (\<lambda>t. \<not> resjunk t) (targetList (qf qry))) = [2, 1] \<and>
       length (targetList (qf qry)) = 2"
proof -
  let ?stmt = "example_update (T_Param 1 INT4OID) (T_Param 2 INT4OID)"
  have "\<exists>qry ps'. transformUpdateStmt plain_env plain_pstate ?stmt = Inr (qry, ps')"
    by (simp add: example_update_defs)
  then obtain qry ps' where
    h: "transformUpdateStmt plain_env plain_pstate ?stmt = Inr (qry, ps')"
    by auto
  have c: "\<exists>qry2 ps8. transformUpdateStmt_clauses plain_env plain_pstate ?stmt = Inr (qry2, ps8) \<and>
             filter resjunk (targetList qry2) = []"
    by (simp add: example_update_defs)
  from transformUpdateStmt_targetList [OF h] c h show ?thesis
    by (auto simp: plain_env_def example_update_def)
qed

text \<open>With a resjunk entry from the target-list transformer, the output target list of
  \<open>UPDATE t SET b = $1, a = $2\<close> has three entries, the resjunk one numbered after the
  columns of the relation.\<close>

theorem transformUpdateStmt_targetList_counterexample:
  "case transformUpdateStmt env_with_resjunk plain_pstate
          (example_update (T_Param 1 INT4OID) (T_Param 2 INT4OID)) of
     Inl e \<Rightarrow> False
   | Inr (qry, ps') \<Rightarrow>
       length (targetList (qf qry)) = 3 \<and>
       length (upd_targetList (example_update (T_Param 1 INT4OID) (T_Param 2 INT4OID))) = 2 \<and>
       map resno (targetList (qf qry)) = [2, 1, 4] \<and>
       map resjunk (targetList (qf qry)) = [False, False, True]"
  by (simp add: example_update_defs)

subsection \<open>\<open>WHERE\<close> and the target list of a \<open>SELECT\<close>\<close>

lemma transformLockingClause_allrels_frame:
  shows "transformLockingClause_allrels env q s nw pd = Inr q' \<Longrightarrow>
           (qf q')\<lparr>hasForUpdate := False, rowMarks := []\<rparr> =
           (qf q)\<lparr>hasForUpdate := False, rowMarks := []\<rparr>"
    and "transformLockingClause_rtable env f dn rest s nw pd = Inr q'' \<Longrightarrow>
           (qf q'')\<lparr>hasForUpdate := False, rowMarks := []\<rparr> =
           f\<lparr>hasForUpdate := False, rowMarks := []\<rparr>"
proof (induction env q s nw pd and env f dn rest s nw pd arbitrary: q' and q''
    rule: transformLockingClause_allrels_transformLockingClause_rtable.induct)
  case (1 env f rt strength' noWait' pushedDown')
  then show ?case by (auto split: option.splits)
next
  case (2 env f dn strength' noWait' pushedDown')
  then show ?case by auto
next
  case (3 env f dn r sq rest strength' noWait' pushedDown')
  show ?case
  proof (cases "rtekind r")
    case RTE_RELATION
    with 3 show ?thesis
      by (fastforce simp: Let_def applyLockingClause_form)
  next
    case RTE_SUBQUERY
    with 3 show ?thesis
      by (fastforce simp: Let_def applyLockingClause_form split: option.splits sum.splits)
  qed (insert 3, auto simp: Let_def)
qed

lemma transformLockingClause_thisrel_frame:
  "transformLockingClause_thisrel env q lc pd thisrel = Inr q' \<Longrightarrow>
     (qf q')\<lparr>hasForUpdate := False, rowMarks := []\<rparr> =
     (qf q)\<lparr>hasForUpdate := False, rowMarks := []\<rparr>"
  by (auto simp: transformLockingClause_thisrel_def Let_def applyLockingClause_form
      split: if_splits option.splits RTEKind.splits sum.splits)

lemma transformLockingClause_named_frame:
  "transformLockingClause_named env q lc pd rels = Inr q' \<Longrightarrow>
     (qf q')\<lparr>hasForUpdate := False, rowMarks := []\<rparr> =
     (qf q)\<lparr>hasForUpdate := False, rowMarks := []\<rparr>"
proof (induction rels arbitrary: q)
  case Nil
  then show ?case by auto
next
  case (Cons thisrel rels)
  then obtain q1 where
    1: "transformLockingClause_thisrel env q lc pd thisrel = Inr q1"
    and 2: "transformLockingClause_named env q1 lc pd rels = Inr q'"
    by (auto split: sum.splits)
  from transformLockingClause_thisrel_frame [OF 1] Cons.IH [OF 2] show ?case
    by simp
qed

lemma transformLockingClause_frame:
  "transformLockingClause env q lc pd = Inr q' \<Longrightarrow>
     (qf q')\<lparr>hasForUpdate := False, rowMarks := []\<rparr> =
     (qf q)\<lparr>hasForUpdate := False, rowMarks := []\<rparr>"
  by (auto simp: transformLockingClause_def split: if_splits option.splits
      dest: transformLockingClause_allrels_frame(1) transformLockingClause_named_frame)

lemma transformLockingClauses_frame:
  "transformLockingClauses env q lcs = Inr q' \<Longrightarrow>
     (qf q')\<lparr>hasForUpdate := False, rowMarks := []\<rparr> =
     (qf q)\<lparr>hasForUpdate := False, rowMarks := []\<rparr>"
proof (induction lcs arbitrary: q)
  case Nil
  then show ?case by auto
next
  case (Cons lc lcs)
  then obtain q1 where
    1: "transformLockingClause env q lc False = Inr q1"
    and 2: "transformLockingClauses env q1 lcs = Inr q'"
    by (auto split: sum.splits)
  from transformLockingClause_frame [OF 1] Cons.IH [OF 2] show ?case
    by simp
qed

lemma unchanged_Inr: "unchanged ps r = Inr (x, ps') \<longleftrightarrow> r = Inr x \<and> ps' = ps"
  by (auto simp: unchanged_def split: sum.splits)

lemmas logged_calls =
  transformWithClause_def transformFromClause_def transformWhereClause_def
  transformTargetList_def markTargetListOrigins_def transformSortClause_def
  transformGroupClause_def transformDistinctClause_def transformDistinctOnClause_def
  transformLimitClause_def transformWindowDefinitions_def parseCheckAggregates_def
  assign_query_collations_def

lemma transformSelectStmt_distinct_trace:
  "transformSelectStmt_distinct env ps f tlist sc = Inr (r, ps') \<Longrightarrow>
     p_trace ps' = p_trace ps @
       (case sel_distinctClause f of
          [] \<Rightarrow> []
        | d # ds \<Rightarrow> if d = None then [Call ''transformDistinctClause'' []]
                    else [Call ''transformDistinctOnClause'' []])"
  by (auto simp: transformSelectStmt_distinct_def rbind_Inr logged_calls logged_Inr
      split: list.splits if_splits)

lemma transformSelectStmt_rest_trace:
  assumes "transformSelectStmt_rest env ps f qry1 tlist qual = Inr (qry, ps')"
  shows "p_trace ps' =
           p_trace ps @
           [Call ''transformWhereClause'' ''HAVING'', Call ''transformSortClause'' [],
            Call ''transformGroupClause'' []] @
           (case sel_distinctClause f of
              [] \<Rightarrow> []
            | d # ds \<Rightarrow> if d = None then [Call ''transformDistinctClause'' []]
                        else [Call ''transformDistinctOnClause'' []]) @
           [Call ''transformLimitClause'' ''OFFSET'', Call ''transformLimitClause'' ''LIMIT'',
            Call ''transformWindowDefinitions'' []] @
           (if hasAggs (qf qry) \<or> groupClause (qf qry) \<noteq> [] \<or> havingQual (qf qry) \<noteq> None
            then [Call ''parseCheckAggregates'' []] else []) @
           [Call ''assign_query_collations'' []] \<and>
         (\<exists>jt. jointree (qf qry) = Some jt \<and> quals jt = qual)"
proof -
  from assms obtain h ps1 sc tl1 ps2 gc tl2 ps3 dc tl3 hdo ps4 lo ps5 lcn ps6 wc tl4 ps7 ps8 q0
    where
    1: "transformWhereClause env ps (sel_havingClause f) EXPR_KIND_HAVING ''HAVING'' =
          Inr (h, ps1)"
    and 2: "transformSortClause env ps1 (sel_sortClause f) tlist EXPR_KIND_ORDER_BY True False =
          Inr ((sc, tl1), ps2)"
    and 3: "transformGroupClause env ps2 (sel_groupClause f) tl1 sc EXPR_KIND_GROUP_BY False =
          Inr ((gc, tl2), ps3)"
    and 4: "transformSelectStmt_distinct env ps3 f tl2 sc = Inr ((dc, tl3, hdo), ps4)"
    and 5: "transformLimitClause env ps4 (sel_limitOffset f) EXPR_KIND_OFFSET ''OFFSET'' =
          Inr (lo, ps5)"
    and 6: "transformLimitClause env ps5 (sel_limitCount f) EXPR_KIND_LIMIT ''LIMIT'' =
          Inr (lcn, ps6)"
    and 7: "transformWindowDefinitions env ps6 (p_windowdefs ps6) tl3 = Inr ((wc, tl4), ps7)"
    and q0: "q0 = Query
           (qry1\<lparr>targetList := tl4, havingQual := h, sortClause := sc,
                 groupClause := gc, distinctClause := dc,
                 hasDistinctOn := hdo, limitOffset := lo,
                 limitCount := lcn, windowClause := wc,
                 jointree := Some (makeFromExpr (p_joinlist ps7) qual),
                 hasSubLinks := p_hasSubLinks ps7, hasWindowFuncs := p_hasWindowFuncs ps7,
                 hasAggs := p_hasAggs ps7\<rparr>)
           (p_rtable ps7)"
    and 8: "(if p_hasAggs ps7 \<or> gc \<noteq> [] \<or> h \<noteq> None
             then parseCheckAggregates env ps7 q0 else Inr ((), ps7)) = Inr ((), ps8)"
    and 9: "transformLockingClauses env q0 (sel_lockingClause f) = Inr qry"
    and 10: "assign_query_collations env ps8 qry = Inr ((), ps')"
    by (auto simp: transformSelectStmt_rest_def rbind_Inr Let_def unchanged_Inr)
  note f = transformLockingClauses_frame [OF 9]
  from 1 have t1: "p_trace ps1 = p_trace ps @ [Call ''transformWhereClause'' ''HAVING'']"
    by (auto simp: logged_calls logged_Inr)
  from 2 have t2: "p_trace ps2 = p_trace ps1 @ [Call ''transformSortClause'' []]"
    by (auto simp: logged_calls logged_Inr)
  from 3 have t3: "p_trace ps3 = p_trace ps2 @ [Call ''transformGroupClause'' []]"
    by (auto simp: logged_calls logged_Inr)
  note t4 = transformSelectStmt_distinct_trace [OF 4]
  from 5 have t5: "p_trace ps5 = p_trace ps4 @ [Call ''transformLimitClause'' ''OFFSET'']"
    by (auto simp: logged_calls logged_Inr)
  from 6 have t6: "p_trace ps6 = p_trace ps5 @ [Call ''transformLimitClause'' ''LIMIT'']"
    by (auto simp: logged_calls logged_Inr)
  from 7 have t7: "p_trace ps7 = p_trace ps6 @ [Call ''transformWindowDefinitions'' []]"
    by (auto simp: logged_calls logged_Inr)
  from 8 have t8: "p_trace ps8 = p_trace ps7 @
      (if p_hasAggs ps7 \<or> gc \<noteq> [] \<or> h \<noteq> None then [Call ''parseCheckAggregates'' []] else [])"
    by (auto simp: logged_calls logged_Inr split: if_splits)
  from 10 have t10: "p_trace ps' = p_trace ps8 @ [Call ''assign_query_collations'' []]"
    by (auto simp: logged_calls logged_Inr)
  from arg_cong [OF f, of hasAggs] q0 have a1: "hasAggs (qf qry) = p_hasAggs ps7" by simp
  from arg_cong [OF f, of groupClause] q0 have a2: "groupClause (qf qry) = gc" by simp
  from arg_cong [OF f, of havingQual] q0 have a3: "havingQual (qf qry) = h" by simp
  from arg_cong [OF f, of jointree] q0
  have a4: "jointree (qf qry) = Some (makeFromExpr (p_joinlist ps7) qual)" by simp
  note a = a1 a2 a3 a4
  from t1 t2 t3 t4 t5 t6 t7 t8 t10 a show ?thesis
    by (simp add: makeFromExpr_def)
qed

lemma transformSelectStmt_withClause_trace:
  "transformSelectStmt_withClause env ps q w = Inr (q', ps') \<Longrightarrow>
     p_trace ps' = p_trace ps @ (if w = None then [] else [Call ''transformWithClause'' []])"
  by (auto simp: transformSelectStmt_withClause_def rbind_Inr logged_calls logged_Inr
      split: option.splits)

lemma transformSelectStmt_where_ADB_trace:
  "transformSelectStmt_where_ADB env ps f = Inr (q, ps') \<Longrightarrow>
     p_trace ps' = p_trace ps @
       [Call ''transformWhereClause'' ''WHERE'', Call ''transformFromAndWhere'' []] \<and>
     (\<exists>q0 ps1 ps2.
        transformWhereClause env ps (sel_whereClause f) EXPR_KIND_WHERE ''WHERE'' =
          Inr (q0, ps1) \<and>
        transformFromAndWhere env ps1 q0 = Inr (q, ps2))"
  by (auto simp: transformSelectStmt_where_ADB_def rbind_Inr logged_calls logged_Inr)

text \<open>
  C5, as the code has it.  The order in which \<open>transformSelectStmt\<close> transforms \<open>WHERE\<close>
  and the target list is fixed by the build, and the grammar of the parse state has no part in
  it.  The calls of a successful analysis are, in this order and no others: the \<open>WITH\<close>
  clause if there is one, the \<open>FROM\<close> clause, then with \<open>ADB\<close> the \<open>WHERE\<close> clause,
  \<open>transformFromAndWhere\<close>, the target list and its origins, and without \<open>ADB\<close> the
  target list, its origins and the \<open>WHERE\<close> clause; then \<open>HAVING\<close>, \<open>ORDER BY\<close>,
  \<open>GROUP BY\<close>, \<open>DISTINCT\<close>, \<open>OFFSET\<close>, \<open>LIMIT\<close>, the window definitions, the check of
  the aggregates where there is something to check, and the collations.  The qualification
  of the join tree is what \<open>transformFromAndWhere\<close> returns for the transformed \<open>WHERE\<close>
  clause with \<open>ADB\<close>, and the transformed \<open>WHERE\<close> clause itself without.
\<close>

theorem transformSelectStmt_order:
  assumes "transformSelectStmt env ps f = Inr (qry, ps')"
  shows "p_trace ps' =
           p_trace ps @
           (if sel_withClause f = None then [] else [Call ''transformWithClause'' []]) @
           [Call ''transformFromClause'' []] @
           (if ADB env
            then [Call ''transformWhereClause'' ''WHERE'', Call ''transformFromAndWhere'' [],
                  Call ''transformTargetList'' [], Call ''markTargetListOrigins'' []]
            else [Call ''transformTargetList'' [], Call ''markTargetListOrigins'' [],
                  Call ''transformWhereClause'' ''WHERE'']) @
           [Call ''transformWhereClause'' ''HAVING'', Call ''transformSortClause'' [],
            Call ''transformGroupClause'' []] @
           (case sel_distinctClause f of
              [] \<Rightarrow> []
            | d # ds \<Rightarrow> if d = None then [Call ''transformDistinctClause'' []]
                        else [Call ''transformDistinctOnClause'' []]) @
           [Call ''transformLimitClause'' ''OFFSET'', Call ''transformLimitClause'' ''LIMIT'',
            Call ''transformWindowDefinitions'' []] @
           (if hasAggs (qf qry) \<or> groupClause (qf qry) \<noteq> [] \<or> havingQual (qf qry) \<noteq> None
            then [Call ''parseCheckAggregates'' []] else []) @
           [Call ''assign_query_collations'' []] \<and>
         (\<exists>jt psa q0 psb.
            jointree (qf qry) = Some jt \<and>
            transformWhereClause env psa (sel_whereClause f) EXPR_KIND_WHERE ''WHERE'' =
              Inr (q0, psb) \<and>
            (if ADB env then \<exists>psc. transformFromAndWhere env psb q0 = Inr (quals jt, psc)
             else quals jt = q0))"
proof -
  from assms obtain qry1 ps1 where
    w: "transformSelectStmt_withClause env ps
          (makeNode_QueryFields\<lparr>commandType := CMD_SELECT\<rparr>) (sel_withClause f) =
          Inr (qry1, ps1)"
    and i: "sel_intoClause f = None"
    by (auto simp: transformSelectStmt_def rbind_Inr split: if_splits)
  from assms w i obtain ps2 qa ps3 where
    fr: "transformFromClause env
               (ps1\<lparr>p_locking_clause := sel_lockingClause f,
                    p_windowdefs := sel_windowClause f\<rparr>) (sel_fromClause f) = Inr ((), ps2)"
    and a: "(if ADB env then transformSelectStmt_where_ADB env ps2 f else Inr (None, ps2)) =
            Inr (qa, ps3)"
    and rest: "rbind (transformTargetList env ps3 (sel_targetList f) EXPR_KIND_SELECT_TARGET)
         (\<lambda>targetList' ps4.
       rbind (markTargetListOrigins env ps4 targetList') (\<lambda>u ps5.
       rbind (if ADB env then Inr (qa, ps5)
              else transformWhereClause env ps5 (sel_whereClause f) EXPR_KIND_WHERE ''WHERE'')
         (\<lambda>qual ps6.
       transformSelectStmt_rest env ps6 f qry1 targetList' qual))) = Inr (qry, ps')"
    by (simp add: transformSelectStmt_def rbind_Inr) blast
  from rest obtain tlist ps4 ps5 qual ps6 where
    t: "transformTargetList env ps3 (sel_targetList f) EXPR_KIND_SELECT_TARGET =
            Inr (tlist, ps4)"
    and m: "markTargetListOrigins env ps4 tlist = Inr ((), ps5)"
    and b: "(if ADB env then Inr (qa, ps5)
             else transformWhereClause env ps5 (sel_whereClause f) EXPR_KIND_WHERE ''WHERE'') =
            Inr (qual, ps6)"
    and r: "transformSelectStmt_rest env ps6 f qry1 tlist qual = Inr (qry, ps')"
    by (simp add: rbind_Inr) blast
  note tw = transformSelectStmt_withClause_trace [OF w]
  from fr have tf: "p_trace ps2 = p_trace ps1 @ [Call ''transformFromClause'' []]"
    by (auto simp: logged_calls logged_Inr)
  from t have tt: "p_trace ps4 = p_trace ps3 @ [Call ''transformTargetList'' []]"
    by (auto simp: logged_calls logged_Inr)
  from m have tm: "p_trace ps5 = p_trace ps4 @ [Call ''markTargetListOrigins'' []]"
    by (auto simp: logged_calls logged_Inr)
  from transformSelectStmt_rest_trace [OF r] obtain jt where
    tr: "p_trace ps' =
           p_trace ps6 @
           [Call ''transformWhereClause'' ''HAVING'', Call ''transformSortClause'' [],
            Call ''transformGroupClause'' []] @
           (case sel_distinctClause f of
              [] \<Rightarrow> []
            | d # ds \<Rightarrow> if d = None then [Call ''transformDistinctClause'' []]
                        else [Call ''transformDistinctOnClause'' []]) @
           [Call ''transformLimitClause'' ''OFFSET'', Call ''transformLimitClause'' ''LIMIT'',
            Call ''transformWindowDefinitions'' []] @
           (if hasAggs (qf qry) \<or> groupClause (qf qry) \<noteq> [] \<or> havingQual (qf qry) \<noteq> None
            then [Call ''parseCheckAggregates'' []] else []) @
           [Call ''assign_query_collations'' []]"
    and jt: "jointree (qf qry) = Some jt" "quals jt = qual"
    by blast
  show ?thesis
  proof (cases "ADB env")
    case True
    with a have a': "transformSelectStmt_where_ADB env ps2 f = Inr (qa, ps3)" by simp
    from transformSelectStmt_where_ADB_trace [OF a'] obtain q0 psb psc where
      ta: "p_trace ps3 = p_trace ps2 @
             [Call ''transformWhereClause'' ''WHERE'', Call ''transformFromAndWhere'' []]"
      and wq: "transformWhereClause env ps2 (sel_whereClause f) EXPR_KIND_WHERE ''WHERE'' =
                 Inr (q0, psb)"
      and fq: "transformFromAndWhere env psb q0 = Inr (qa, psc)"
      by blast
    from b True have e: "qual = qa" "ps6 = ps5" by simp_all
    from jt wq fq e True have
      "\<exists>jt psa q0 psb.
            jointree (qf qry) = Some jt \<and>
            transformWhereClause env psa (sel_whereClause f) EXPR_KIND_WHERE ''WHERE'' =
              Inr (q0, psb) \<and>
            (if ADB env then \<exists>psc. transformFromAndWhere env psb q0 = Inr (quals jt, psc)
             else quals jt = q0)"
      by auto
    with tw tf ta tt tm tr e True show ?thesis by simp
  next
    case False
    with a have e: "ps3 = ps2" by simp
    from b False have
      wq: "transformWhereClause env ps5 (sel_whereClause f) EXPR_KIND_WHERE ''WHERE'' =
             Inr (qual, ps6)"
      by simp
    then have tq: "p_trace ps6 = p_trace ps5 @ [Call ''transformWhereClause'' ''WHERE'']"
      by (auto simp: logged_calls logged_Inr)
    from jt wq False have
      "\<exists>jt psa q0 psb.
            jointree (qf qry) = Some jt \<and>
            transformWhereClause env psa (sel_whereClause f) EXPR_KIND_WHERE ''WHERE'' =
              Inr (q0, psb) \<and>
            (if ADB env then \<exists>psc. transformFromAndWhere env psb q0 = Inr (quals jt, psc)
             else quals jt = q0)"
      by auto
    with tw tf tt tm tq tr e False show ?thesis by simp
  qed
qed

lemmas example_select_defs =
  transformSelectStmt_def transformSelectStmt_withClause_def transformSelectStmt_where_ADB_def
  transformSelectStmt_rest_def transformSelectStmt_distinct_def transformFromAndWhere_def
  logged_calls logged_def rbind_def unchanged_def Let_def example_select_def
  makeNode_SelectStmtFields_def plain_env_def plain_pstate_def plain_env_without_ADB_def
  makeNode_QueryFields_def makeFromExpr_def

text \<open>Without \<open>ADB\<close> the target list comes first, also with the grammar of Oracle, and
  \<open>transformFromAndWhere\<close> is not called.\<close>

theorem transformSelectStmt_order_witness:
  "case transformSelectStmt plain_env_without_ADB (plain_pstate\<lparr>p_grammar := PARSE_GRAM_ORACLE\<rparr>)
          example_select of
     Inl e \<Rightarrow> False
   | Inr (qry, ps') \<Rightarrow>
       p_trace ps' =
         [Call ''transformFromClause'' [], Call ''transformTargetList'' [],
          Call ''markTargetListOrigins'' [], Call ''transformWhereClause'' ''WHERE'',
          Call ''transformWhereClause'' ''HAVING'', Call ''transformSortClause'' [],
          Call ''transformGroupClause'' [], Call ''transformLimitClause'' ''OFFSET'',
          Call ''transformLimitClause'' ''LIMIT'', Call ''transformWindowDefinitions'' [],
          Call ''assign_query_collations'' []]"
proof -
  let ?ps = "plain_pstate\<lparr>p_grammar := PARSE_GRAM_ORACLE\<rparr>"
  have "\<exists>qry ps'. transformSelectStmt plain_env_without_ADB ?ps example_select = Inr (qry, ps') \<and>
          \<not> hasAggs (qf qry) \<and> groupClause (qf qry) = [] \<and> havingQual (qf qry) = None"
    by (simp add: example_select_defs)
  then obtain qry ps' where
    h: "transformSelectStmt plain_env_without_ADB ?ps example_select = Inr (qry, ps')"
    and g: "\<not> hasAggs (qf qry)" "groupClause (qf qry) = []" "havingQual (qf qry) = None"
    by auto
  from transformSelectStmt_order [OF h] h g show ?thesis
    by (simp add: plain_env_without_ADB_def plain_env_def plain_pstate_def example_select_def
        makeNode_SelectStmtFields_def)
qed

text \<open>With \<open>ADB\<close> the \<open>WHERE\<close> clause comes first, also with the grammar of PostgreSQL.\<close>

theorem transformSelectStmt_order_counterexample:
  "p_grammar plain_pstate = PARSE_GRAM_POSTGRES \<and>
   (case transformSelectStmt plain_env plain_pstate example_select of
      Inl e \<Rightarrow> False
    | Inr (qry, ps') \<Rightarrow>
        take 4 (p_trace ps') =
          [Call ''transformFromClause'' [], Call ''transformWhereClause'' ''WHERE'',
           Call ''transformFromAndWhere'' [], Call ''transformTargetList'' []])"
  by (simp add: example_select_defs)

subsection \<open>The target table of an \<open>INSERT\<close> and its source\<close>

lemma addRTEtoQuery_trace: "p_trace (addRTEtoQuery ps i a b c) = p_trace ps"
  by (simp add: addRTEtoQuery_def Let_def)

lemma pass_down_trace: "p_trace (pass_down stmt ps) = p_trace ps"
  by (simp add: pass_down_def)

lemma transformInsertStmt_select_sub:
  assumes "transformInsertStmt_select env ps stmt selectStmt sr sn rr ic at = Inr (r, ps')"
  shows "\<exists>selectQuery sub'.
           transformStmt_SelectStmt env (sub_pstate_of env ps sr sn) selectStmt =
             Inr (selectQuery, sub')"
  using assms
  by (auto simp: transformInsertStmt_select_def split: sum.splits)

text \<open>
  C9.  In \<open>transformInsertStmt\<close> the call of \<open>setTargetTable\<close>, for the relation of the
  statement with \<open>ACL_INSERT\<close>, comes before the analysis of the source.  When
  \<open>setTargetTable\<close> fails, the \<open>INSERT\<close> fails with its error, whatever the analysis of
  the source would give.  When the analysis of an \<open>INSERT\<close> from a general \<open>SELECT\<close>
  succeeds, \<open>setTargetTable\<close> has returned the result relation of the query, and the source
  has been analysed from a parse state whose trace ends with the calls of \<open>setTargetTable\<close>
  and \<open>checkInsertTargets\<close>.
\<close>

theorem transformInsertStmt_setTargetTable_first:
  "(\<forall>qry1 ps1 e.
      transformSelectStmt_withClause env (ps\<lparr>p_is_insert := True\<rparr>)
        (makeNode_QueryFields\<lparr>commandType := CMD_INSERT\<rparr>) (ins_withClause stmt) =
        Inr (qry1, ps1) \<and>
      setTargetTable env (pass_down stmt ps1) (ins_relation stmt) False False ACL_INSERT = Inl e \<longrightarrow>
      transformInsertStmt env ps stmt = Inl e) \<and>
   (\<forall>qry ps'.
      transformInsertStmt env ps stmt = Inr (qry, ps') \<and> isGeneralSelect stmt \<longrightarrow>
      (\<exists>selectStmt ps2 ps3 ps5 sub_rtable sub_namespace selectQuery sub'.
         ins_selectStmt stmt = Some selectStmt \<and>
         setTargetTable env ps2 (ins_relation stmt) False False ACL_INSERT =
           Inr (resultRelation (qf qry), ps3) \<and>
         transformStmt_SelectStmt env (sub_pstate_of env ps5 sub_rtable sub_namespace)
           selectStmt = Inr (selectQuery, sub') \<and>
         p_trace (sub_pstate_of env ps5 sub_rtable sub_namespace) =
           p_trace ps @
           (if ins_withClause stmt = None then [] else [Call ''transformWithClause'' []]) @
           [Call ''setTargetTable'' (relname (ins_relation stmt)),
            Call ''checkInsertTargets'' []]))"
proof (intro conjI allI impI)
  fix qry1 ps1 e
  assume "transformSelectStmt_withClause env (ps\<lparr>p_is_insert := True\<rparr>)
        (makeNode_QueryFields\<lparr>commandType := CMD_INSERT\<rparr>) (ins_withClause stmt) =
        Inr (qry1, ps1) \<and>
      setTargetTable env (pass_down stmt ps1) (ins_relation stmt) False False ACL_INSERT = Inl e"
  then show "transformInsertStmt env ps stmt = Inl e"
    by (simp add: transformInsertStmt_def rbind_def Let_def)
next
  fix qry ps'
  assume a: "transformInsertStmt env ps stmt = Inr (qry, ps') \<and> isGeneralSelect stmt"
  then obtain selectStmt where s: "ins_selectStmt stmt = Some selectStmt"
    by (auto simp: isGeneralSelect_def split: option.splits)
  from a obtain qry1 ps1 rr ps3 ic at ps5 r ps6 where
    w: "transformSelectStmt_withClause env (ps\<lparr>p_is_insert := True\<rparr>)
          (makeNode_QueryFields\<lparr>commandType := CMD_INSERT\<rparr>) (ins_withClause stmt) =
          Inr (qry1, ps1)"
    and t: "setTargetTable env (pass_down stmt ps1) (ins_relation stmt) False False ACL_INSERT =
          Inr (rr, ps3)"
    and c: "checkInsertTargets env
              (if ADB env \<and> p_grammar ps3 = PARSE_GRAM_ORACLE
               then addRTEtoQuery ps3 rr False True True else ps3) (ins_cols stmt) =
            Inr ((ic, at), ps5)"
    and x: "transformInsertStmt_exprList env ps5 stmt (p_rtable ps1) (p_namespace ps1) rr ic at =
            Inr (r, ps6)"
    and q: "resultRelation (qf qry) = rr"
    by (auto simp: transformInsertStmt_def rbind_Inr Let_def)
  from x a s have "transformInsertStmt_select env ps5 stmt selectStmt (p_rtable ps1)
      (p_namespace ps1) rr ic at = Inr (r, ps6)"
    by (simp add: transformInsertStmt_exprList_def)
  from transformInsertStmt_select_sub [OF this] obtain selectQuery sub' where
    sub: "transformStmt_SelectStmt env (sub_pstate_of env ps5 (p_rtable ps1) (p_namespace ps1))
            selectStmt = Inr (selectQuery, sub')"
    by blast
  from transformSelectStmt_withClause_trace [OF w]
  have 1: "p_trace ps1 = p_trace ps @
             (if ins_withClause stmt = None then [] else [Call ''transformWithClause'' []])"
    by simp
  from t have 3: "p_trace ps3 = p_trace ps1 @ [Call ''setTargetTable'' (relname (ins_relation stmt))]"
    by (auto simp: setTargetTable_def logged_Inr pass_down_trace)
  from c have 5: "p_trace ps5 = p_trace ps3 @ [Call ''checkInsertTargets'' []]"
    by (auto simp: checkInsertTargets_def logged_Inr addRTEtoQuery_trace split: if_splits)
  have "p_trace (sub_pstate_of env ps5 (p_rtable ps1) (p_namespace ps1)) = p_trace ps5"
    by (simp add: sub_pstate_of_def)
  with 1 3 5 have tr: "p_trace (sub_pstate_of env ps5 (p_rtable ps1) (p_namespace ps1)) =
           p_trace ps @
           (if ins_withClause stmt = None then [] else [Call ''transformWithClause'' []]) @
           [Call ''setTargetTable'' (relname (ins_relation stmt)),
            Call ''checkInsertTargets'' []]"
    by simp
  from s t q sub tr
  show "\<exists>selectStmt ps2 ps3 ps5 sub_rtable sub_namespace selectQuery sub'.
         ins_selectStmt stmt = Some selectStmt \<and>
         setTargetTable env ps2 (ins_relation stmt) False False ACL_INSERT =
           Inr (resultRelation (qf qry), ps3) \<and>
         transformStmt_SelectStmt env (sub_pstate_of env ps5 sub_rtable sub_namespace)
           selectStmt = Inr (selectQuery, sub') \<and>
         p_trace (sub_pstate_of env ps5 sub_rtable sub_namespace) =
           p_trace ps @
           (if ins_withClause stmt = None then [] else [Call ''transformWithClause'' []]) @
           [Call ''setTargetTable'' (relname (ins_relation stmt)),
            Call ''checkInsertTargets'' []]"
    by blast
qed


lemmas example_insert_defs =
  transformInsertStmt_def transformInsertStmt_exprList_def transformInsertStmt_select_def
  transformInsertStmt_returning_def transformInsertRow_def transformStmt_SelectStmt_def
  isGeneralSelect_def pass_down_def sub_pstate_of_def subquery_exprList_def mark_original_def
  example_insert_def setTargetTable_def checkInsertTargets_def plain_setTargetTable_def
  addRangeTableEntryForSubquery_def makeRangeTblEntryFields_def add_modifiedCol_def
  rt_fetch_def makeTargetEntry_def AttrNumber_cast_def UNKNOWNOID_def example_Var_def

text \<open>The error of \<open>setTargetTable\<close> comes before the error of an \<open>INTO\<close> clause in the
  source; in the analysis that succeeds the source starts after the two calls.\<close>

theorem transformInsertStmt_setTargetTable_first_witness:
  "transformInsertStmt env_without_target plain_pstate
     (example_insert (example_select\<lparr>sel_intoClause := Some 0\<rparr>)) =
     Inl (Error ERRCODE_UNDEFINED_TABLE ''relation does not exist'') \<and>
   (\<exists>qry ps'. transformInsertStmt plain_env plain_pstate (example_insert example_select) =
      Inr (qry, ps')) \<and>
   (\<exists>sub selectQuery sub'.
      transformStmt_SelectStmt plain_env sub (SelectStmt example_select None) =
        Inr (selectQuery, sub') \<and>
      p_trace sub = [Call ''setTargetTable'' ''t'', Call ''checkInsertTargets'' []])"
proof -
  let ?bad = "example_insert (example_select\<lparr>sel_intoClause := Some 0\<rparr>)"
  let ?stmt = "example_insert example_select"
  have "transformSelectStmt_withClause env_without_target (plain_pstate\<lparr>p_is_insert := True\<rparr>)
          (makeNode_QueryFields\<lparr>commandType := CMD_INSERT\<rparr>) (ins_withClause ?bad) =
          Inr (makeNode_QueryFields\<lparr>commandType := CMD_INSERT\<rparr>,
               plain_pstate\<lparr>p_is_insert := True\<rparr>) \<and>
        setTargetTable env_without_target (pass_down ?bad (plain_pstate\<lparr>p_is_insert := True\<rparr>))
          (ins_relation ?bad) False False ACL_INSERT =
          Inl (Error ERRCODE_UNDEFINED_TABLE ''relation does not exist'')"
    by (simp add: transformSelectStmt_withClause_def example_insert_def setTargetTable_def
        logged_def env_without_target_def)
  with transformInsertStmt_setTargetTable_first [of env_without_target plain_pstate ?bad]
  have 1: "transformInsertStmt env_without_target plain_pstate ?bad =
             Inl (Error ERRCODE_UNDEFINED_TABLE ''relation does not exist'')"
    by blast
  have "\<exists>qry ps'. transformInsertStmt plain_env plain_pstate ?stmt = Inr (qry, ps')"
    by (simp add: example_insert_defs example_select_defs)
  then obtain qry ps' where
    h: "transformInsertStmt plain_env plain_pstate ?stmt = Inr (qry, ps')"
    by auto
  have g: "isGeneralSelect ?stmt"
    by (simp add: isGeneralSelect_def example_insert_def example_select_def
        makeNode_SelectStmtFields_def)
  from transformInsertStmt_setTargetTable_first [of plain_env plain_pstate ?stmt] h g
  have "\<exists>sub selectQuery sub'.
      transformStmt_SelectStmt plain_env sub (SelectStmt example_select None) =
        Inr (selectQuery, sub') \<and>
      p_trace sub = [Call ''setTargetTable'' ''t'', Call ''checkInsertTargets'' []]"
    by (auto simp: example_insert_def plain_pstate_def)
  with 1 h show ?thesis by blast
qed

end
